theory Spec2Isabelle
  imports Complex_Main "HOL-Library.AList"
begin

section \<open>Data model\<close>

text \<open>
  Go's \<open>float64\<close> enters the development only through the classification the
  sanitizers make (\<open>math.IsNaN\<close>, \<open>math.IsInf\<close>); a finite value carries the real
  number it denotes.
\<close>

datatype float64 = Finite real | PosInf | NegInf | NaN

fun IsNaN :: "float64 \<Rightarrow> bool" where
  "IsNaN NaN = True"
| "IsNaN _ = False"

text \<open>\<open>math.IsInf(f, sign)\<close>: \<open>sign > 0\<close> asks for \<open>+Inf\<close>, \<open>sign < 0\<close> for \<open>-Inf\<close>,
  \<open>sign = 0\<close> for either.\<close>

fun IsInf :: "float64 \<Rightarrow> int \<Rightarrow> bool" where
  "IsInf PosInf sign = (sign \<ge> 0)"
| "IsInf NegInf sign = (sign \<le> 0)"
| "IsInf _ sign = False"

text \<open>
  A Go slice is \<open>nil\<close> or holds elements. \<open>len\<close> and \<open>range\<close> treat the \<open>nil\<close> slice as
  the empty one, \<open>append\<close> to either gives a slice that is not \<open>nil\<close>, and
  \<open>encoding/json\<close> writes \<open>null\<close> for the \<open>nil\<close> slice and \<open>[]\<close> for an empty one.
\<close>

datatype 'a slice = NilSlice | Slice "'a list"

fun elems :: "'a slice \<Rightarrow> 'a list" where
  "elems NilSlice = []"
| "elems (Slice xs) = xs"

definition appendSlice :: "'a slice \<Rightarrow> 'a \<Rightarrow> 'a slice" where
  "appendSlice s x = Slice (elems s @ [x])"

text \<open>\<open>types.go\<close>: the request and result structs.\<close>

record Model =
  ID :: string
  Name :: string
  Provider :: string
  BaseURL :: string
  APIKey :: string

record BenchmarkRequest =
  Model1 :: Model
  Model2 :: "Model option"
  ConcurrencyLevels :: "int slice"
  MaxTokens :: int
  Prompt :: string
  NumWords :: int

record ConcurrencyResult =
  Concurrency :: int
  GenerationThroughput :: float64
  PromptThroughput :: float64
  MinTTFT :: float64
  MaxTTFT :: float64

record BenchmarkResult =
  Model :: string
  Results :: "ConcurrencyResult slice"
  Timestamp :: int

record Comparison =
  Winner :: string
  Differences :: "(string \<times> float64) list"

record ComparisonResponse =
  Model1 :: "BenchmarkResult option"
  Model2 :: "BenchmarkResult option"
  Comparison :: "Comparison option"

text \<open>
  A value held in an \<open>interface{}\<close>. \<open>VMap\<close> is \<open>map[string]interface{}\<close> and \<open>VSlice\<close> is
  \<open>[]interface{}\<close>, the two dynamic containers the sanitizers recurse into; \<open>VResults\<close> is
  the statically typed \<open>[]ConcurrencyResult\<close> that the benchmark runners store under
  the key \<open>results\<close>; \<open>VResponse\<close> is the \<open>ComparisonResponse\<close> struct that
  \<open>BenchmarkHandler\<close> stores; \<open>VTime\<close> is a \<open>time.Time\<close>. The maps and \<open>[]interface{}\<close>
  slices are the ones that map literals and \<open>make\<close> build, with one entry per key.
\<close>

datatype gvalue =
    VNil
  | VBool bool
  | VInt int
  | VString string
  | VFloat64 float64
  | VFloat32 float64
  | VTime int
  | VMap "(string \<times> gvalue) list"
  | VSlice "gvalue list"
  | VResults "ConcurrencyResult slice"
  | VResponse ComparisonResponse

section \<open>The SSE job manager (\<open>simple_job_manager.go\<close>)\<close>

text \<open>
  \<open>ctx\<close> and \<open>cancelFunc\<close> hold the handle of a cancellable context (\<open>None\<close> is Go's
  \<open>nil\<close>); instants are nanoseconds on the wall clock.
\<close>

record SimpleJob =
  ID :: string
  Status :: string
  Progress :: int
  Message :: string
  Result :: gvalue
  Error :: string
  CreatedAt :: int
  CompletedAt :: "int option"
  Request :: BenchmarkRequest
  ctx :: "nat option"
  cancelFunc :: "nat option"

text \<open>
  The registry is the Go map \<open>jobs\<close>, kept as an association list with one entry per
  key, and the counter \<open>activeJobCount\<close>. \<open>ctxDone\<close> is not a field of the Go struct: it
  is the part of the heap that the stored cancel functions write, the set of context
  handles whose \<open>Done\<close> channel is closed. The listener channels and the log are left
  out: no operation reads them back into a job or into the counter.
\<close>

record SimpleJobManager =
  jobs :: "(string \<times> SimpleJob) list"
  activeJobCount :: int
  ctxDone :: "nat set"

definition NewSimpleJobManager :: SimpleJobManager where
  "NewSimpleJobManager = \<lparr>jobs = [], activeJobCount = 0, ctxDone = {}\<rparr>"

definition GetJob :: "SimpleJobManager \<Rightarrow> string \<Rightarrow> SimpleJob option" where
  "GetJob jm jobID = map_of (jobs jm) jobID"

text \<open>\<open>cancelFunc()\<close> on a stored handle closes that context; calling a \<open>nil\<close> function is
  guarded away at every call site.\<close>

definition callCancel :: "nat option \<Rightarrow> nat set \<Rightarrow> nat set" where
  "callCancel f d = (case f of None \<Rightarrow> d | Some c \<Rightarrow> insert c d)"

text \<open>\<open>CreateJob\<close>: the identifier drawn by \<open>uuid.New()\<close> and the clock reading are inputs.\<close>

definition CreateJob :: "string \<Rightarrow> int \<Rightarrow> BenchmarkRequest \<Rightarrow> SimpleJobManager \<Rightarrow> SimpleJobManager" where
  "CreateJob jobID now request jm =
     (let job = \<lparr>ID = jobID, Status = ''running'', Progress = 0,
                 Message = ''Starting benchmark...'', Result = VNil, Error = [],
                 CreatedAt = now, CompletedAt = None, Request = request,
                 ctx = None, cancelFunc = None\<rparr>
      in jm\<lparr>jobs := AList.update jobID job (jobs jm),
             activeJobCount := activeJobCount jm + 1\<rparr>)"

definition SetJobContext :: "string \<Rightarrow> nat \<Rightarrow> SimpleJobManager \<Rightarrow> SimpleJobManager" where
  "SetJobContext jobID c jm =
     (case map_of (jobs jm) jobID of
        Some job \<Rightarrow> jm\<lparr>jobs := AList.update jobID (job\<lparr>ctx := Some c, cancelFunc := Some c\<rparr>) (jobs jm)\<rparr>
      | None \<Rightarrow> jm)"

definition UpdateJobProgress :: "string \<Rightarrow> int \<Rightarrow> string \<Rightarrow> SimpleJobManager \<Rightarrow> SimpleJobManager" where
  "UpdateJobProgress jobID progress message jm =
     (case map_of (jobs jm) jobID of
        Some job \<Rightarrow> jm\<lparr>jobs := AList.update jobID (job\<lparr>Progress := progress, Message := message\<rparr>) (jobs jm)\<rparr>
      | None \<Rightarrow> jm)"

definition CompleteJob :: "string \<Rightarrow> gvalue \<Rightarrow> int \<Rightarrow> SimpleJobManager \<Rightarrow> SimpleJobManager" where
  "CompleteJob jobID result now jm =
     (case map_of (jobs jm) jobID of
        Some job \<Rightarrow>
          jm\<lparr>jobs := AList.update jobID
                 (job\<lparr>Status := ''completed'', Progress := 100,
                      Message := ''Benchmark completed successfully'',
                      Result := result, CompletedAt := Some now\<rparr>) (jobs jm),
             activeJobCount := (if activeJobCount jm > 0 then activeJobCount jm - 1
                                else activeJobCount jm)\<rparr>
      | None \<Rightarrow> jm)"

definition FailJob :: "string \<Rightarrow> string \<Rightarrow> int \<Rightarrow> SimpleJobManager \<Rightarrow> SimpleJobManager" where
  "FailJob jobID errorMsg now jm =
     (case map_of (jobs jm) jobID of
        Some job \<Rightarrow>
          jm\<lparr>jobs := AList.update jobID
                 (job\<lparr>Status := ''failed'', Message := ''Benchmark failed'',
                      Error := errorMsg, CompletedAt := Some now\<rparr>) (jobs jm),
             activeJobCount := (if activeJobCount jm > 0 then activeJobCount jm - 1
                                else activeJobCount jm)\<rparr>
      | None \<Rightarrow> jm)"

text \<open>\<open>CancelJob\<close> returns its boolean together with the new state.\<close>

definition CancelJob :: "string \<Rightarrow> int \<Rightarrow> SimpleJobManager \<Rightarrow> bool \<times> SimpleJobManager" where
  "CancelJob jobID now jm =
     (case map_of (jobs jm) jobID of
        Some job \<Rightarrow>
          if Status job = ''running'' \<and> cancelFunc job \<noteq> None then
            (True,
             jm\<lparr>jobs := AList.update jobID
                    (job\<lparr>Status := ''cancelled'', Message := ''Job cancelled by user'',
                         Error := ''Job cancelled by user'', CompletedAt := Some now\<rparr>) (jobs jm),
                activeJobCount := activeJobCount jm - 1,
                ctxDone := callCancel (cancelFunc job) (ctxDone jm)\<rparr>)
          else (False, jm)
      | None \<Rightarrow> (False, jm))"

definition AddJob :: "string \<Rightarrow> nat \<Rightarrow> SimpleJobManager \<Rightarrow> SimpleJobManager" where
  "AddJob jobID c jm =
     (case map_of (jobs jm) jobID of
        Some job \<Rightarrow> jm\<lparr>jobs := AList.update jobID
                          (job\<lparr>Status := ''running'', ctx := Some c, cancelFunc := Some c\<rparr>) (jobs jm)\<rparr>
      | None \<Rightarrow> jm)"

definition RemoveJob :: "string \<Rightarrow> SimpleJobManager \<Rightarrow> SimpleJobManager" where
  "RemoveJob jobID jm =
     (case map_of (jobs jm) jobID of
        Some job \<Rightarrow>
          jm\<lparr>jobs := AList.delete jobID (jobs jm),
             activeJobCount := (if activeJobCount jm > 0 then activeJobCount jm - 1
                                else activeJobCount jm),
             ctxDone := (if Status job = ''running'' \<and> cancelFunc job \<noteq> None
                         then callCancel (cancelFunc job) (ctxDone jm) else ctxDone jm)\<rparr>
      | None \<Rightarrow> jm)"

definition ListActiveJobs :: "SimpleJobManager \<Rightarrow> string list" where
  "ListActiveJobs jm = map fst (filter (\<lambda>(jobID, job). Status job = ''running'') (jobs jm))"

definition GetActiveJobCount :: "SimpleJobManager \<Rightarrow> int" where
  "GetActiveJobCount jm = activeJobCount jm"

definition hour :: int where
  "hour = 3600 * 1000000000"

definition CleanupOldJobs :: "int \<Rightarrow> SimpleJobManager \<Rightarrow> SimpleJobManager" where
  "CleanupOldJobs now jm =
     (let cutoff = now - hour
      in jm\<lparr>jobs := filter (\<lambda>(jobID, job). \<not> CreatedAt job < cutoff) (jobs jm)\<rparr>)"

text \<open>The statuses the spec calls terminal.\<close>

definition terminal :: "string \<Rightarrow> bool" where
  "terminal s = (s = ''completed'' \<or> s = ''failed'' \<or> s = ''cancelled'')"


subsection \<open>Formatting\<close>

text \<open>\<open>%d\<close> of \<open>fmt.Sprintf\<close>: the decimal numeral of an integer.\<close>

fun showNat :: "nat \<Rightarrow> string" where
  "showNat n = (if n < 10 then [''0123456789'' ! n]
                else showNat (n div 10) @ [''0123456789'' ! (n mod 10)])"

declare showNat.simps [simp del]

definition Itoa :: "int \<Rightarrow> string" where
  "Itoa i = (if i < 0 then CHR ''-'' # showNat (nat (- i)) else showNat (nat i))"

subsection \<open>\<open>RunBenchmark\<close>\<close>

text \<open>\<open>format.go\<close>: what one round of \<open>SpeedMeasurement.Run\<close> returns.\<close>

record SpeedResult =
  Concurrency :: int
  GenerationSpeed :: float64
  PromptThroughput :: float64
  MaxTtft :: float64
  MinTtft :: float64

text \<open>
  Everything \<open>RunBenchmark\<close> reads from outside the manager: whether \<open>VCAP_SERVICES\<close> is
  set, what \<open>utils.MeasureLatency\<close> returns, the key \<open>getAPIKeyForModel\<close> finds, and
  what the \<open>k\<close>-th call of \<open>setup.Run\<close> returns (an error is carried as its \<open>%v\<close> text).
  \<open>RunBenchmark\<close> runs on a goroutine of its own and holds the manager's lock only
  inside the manager's methods; \<open>others p\<close> is what the other goroutines do to the
  manager while this one is at point \<open>p\<close>: \<open>0\<close> is the two-second sleep after
  \<open>SetJobContext\<close>, \<open>2k+1\<close> is just before the cancellation check of round \<open>k\<close>, and
  \<open>2k+2\<close> is during round \<open>k\<close>'s \<open>setup.Run\<close>. Rounds are counted from \<open>0\<close> through both
  models.
\<close>

record world =
  vcapServices :: bool
  MeasureLatency :: "string + float64"
  getAPIKeyForModel :: "Model \<Rightarrow> string"
  Run :: "nat \<Rightarrow> string + SpeedResult"
  others :: "nat \<Rightarrow> SimpleJobManager \<Rightarrow> SimpleJobManager"

text \<open>
  One pass of the loop over \<open>request.ConcurrencyLevels\<close>, for model \<open>label\<close>
  (\<open>''1''\<close> or \<open>''2''\<close>). \<open>k\<close> is the round number, which is \<open>i\<close> for model 1 and
  \<open>len(request.ConcurrencyLevels) + i\<close> for model 2, so the progress shown is
  \<open>30 + k * 60 / totalSteps\<close> for both models. \<open>results\<close> is \<open>model1Results\<close> or
  \<open>model2Results\<close>, declared \<open>nil\<close> and grown by \<open>append\<close>. \<open>None\<close> is the early \<open>return\<close>
  after \<open>FailJob\<close>.
\<close>

fun runLevels ::
  "world \<Rightarrow> string \<Rightarrow> BenchmarkRequest \<Rightarrow> nat \<Rightarrow> int \<Rightarrow> string \<Rightarrow> Model \<Rightarrow> int \<Rightarrow>
   nat \<Rightarrow> int list \<Rightarrow> ConcurrencyResult slice \<Rightarrow> SimpleJobManager \<Rightarrow>
   ConcurrencyResult slice option \<times> SimpleJobManager" where
  "runLevels w jobID request c now label model totalSteps k [] results jm = (Some results, jm)"
| "runLevels w jobID request c now label model totalSteps k (concurrency # rest) results jm =
     (let jm1 = others w (2 * k + 1) jm in
      if c \<in> ctxDone jm1 then (None, FailJob jobID ''Job cancelled by user'' now jm1)
      else
        let progress = 30 + (int k * 60) div totalSteps;
            jm2 = UpdateJobProgress jobID progress
                    (''Testing Model '' @ label @ '' concurrency '' @ Itoa concurrency @ ''...'') jm1;
            apiKey = getAPIKeyForModel w model
        in if apiKey = [] then
             (None, FailJob jobID (''No API key found for model '' @ Model.Name model) now jm2)
           else
             let jm3 = others w (2 * k + 2) jm2 in
             case Run w k of
               Inl err \<Rightarrow>
                 (None, FailJob jobID
                    ((if label = ''1'' then ''Benchmark failed for concurrency ''
                      else ''Benchmark failed for Model '' @ label @ '' concurrency '')
                     @ Itoa concurrency @ '': '' @ err) now jm3)
             | Inr result \<Rightarrow>
                 runLevels w jobID request c now label model totalSteps (Suc k) rest
                   (appendSlice results
                      \<lparr>ConcurrencyResult.Concurrency = concurrency,
                       GenerationThroughput = GenerationSpeed result,
                       ConcurrencyResult.PromptThroughput = SpeedResult.PromptThroughput result,
                       MinTTFT = MinTtft result,
                       MaxTTFT = MaxTtft result\<rparr>) jm3)"

definition modelEntry :: "Model \<Rightarrow> ConcurrencyResult slice \<Rightarrow> gvalue" where
  "modelEntry model results =
     VMap [(''model'', VString (Model.Name model)), (''results'', VResults results)]"

definition finalResult ::
  "BenchmarkRequest \<Rightarrow> float64 \<Rightarrow> ConcurrencyResult slice \<Rightarrow> ConcurrencyResult slice \<Rightarrow> gvalue" where
  "finalResult request latency model1Results model2Results =
     VMap [(''model1'', modelEntry (BenchmarkRequest.Model1 request) model1Results),
           (''model2'', (case BenchmarkRequest.Model2 request of None \<Rightarrow> VNil
                         | Some m2 \<Rightarrow> modelEntry m2 model2Results)),
           (''latency'', VFloat64 latency),
           (''summary'', VMap [(''total_concurrency_levels'',
                                  VInt (int (length (elems (ConcurrencyLevels request))))),
                               (''total_results'',
                                  VInt (int (length (elems model1Results)) +
                                        int (length (elems model2Results))))])]"

text \<open>
  \<open>RunBenchmark(jobID, request)\<close>; \<open>c\<close> is the context made by \<open>context.WithCancel\<close> and
  \<open>now\<close> the clock reading of the one \<open>FailJob\<close> or \<open>CompleteJob\<close> the run ends with.
\<close>

definition RunBenchmark ::
  "world \<Rightarrow> string \<Rightarrow> BenchmarkRequest \<Rightarrow> nat \<Rightarrow> int \<Rightarrow> SimpleJobManager \<Rightarrow> SimpleJobManager" where
  "RunBenchmark w jobID request c now jm =
     (let jm1 = SetJobContext jobID c jm;
          jm2 = others w 0 jm1;
          jm3 = UpdateJobProgress jobID 10 ''Initializing benchmark...'' jm2;
          jm4 = UpdateJobProgress jobID 20 ''Testing latency...'' jm3
      in case (if vcapServices w then Inr (Finite 0) else MeasureLatency w) of
           Inl err \<Rightarrow> FailJob jobID (''Latency test failed: '' @ err) now jm4
         | Inr latency \<Rightarrow>
             let levels = elems (ConcurrencyLevels request);
                 totalSteps = (if BenchmarkRequest.Model2 request \<noteq> None then int (length levels) * 2
                               else int (length levels))
             in (case runLevels w jobID request c now ''1'' (BenchmarkRequest.Model1 request) totalSteps 0 levels
                        NilSlice jm4 of
                   (None, jm5) \<Rightarrow> jm5
                 | (Some model1Results, jm5) \<Rightarrow>
                     (case (case BenchmarkRequest.Model2 request of
                              None \<Rightarrow> (Some NilSlice, jm5)
                            | Some m2 \<Rightarrow> runLevels w jobID request c now ''2'' m2 totalSteps
                                          (length levels) levels NilSlice jm5) of
                        (None, jm6) \<Rightarrow> jm6
                      | (Some model2Results, jm6) \<Rightarrow>
                          CompleteJob jobID (finalResult request latency model1Results model2Results) now
                            (UpdateJobProgress jobID 100 ''Benchmark completed'' jm6))))"

section \<open>Progress tracking over the WebSocket hub (\<open>progress_tracker.go\<close>)\<close>

subsection \<open>Clock and float arithmetic\<close>

text \<open>
  Instants are nanoseconds since the Unix epoch; \<open>zeroTime\<close> is Go's zero \<open>time.Time\<close>
  (1 January of year 1). \<open>Time.Sub\<close> saturates at the ends of \<open>time.Duration\<close>.
\<close>

definition zeroTime :: int where
  "zeroTime = - 62135596800 * 1000000000"

definition maxDuration :: int where
  "maxDuration = 2 ^ 63 - 1"

definition minDuration :: int where
  "minDuration = - (2 ^ 63)"

definition Sub :: "int \<Rightarrow> int \<Rightarrow> int" where
  "Sub t u = (let d = t - u in
              if d > maxDuration then maxDuration
              else if d < minDuration then minDuration else d)"

definition Second :: int where
  "Second = 1000000000"

text \<open>\<open>Duration.Seconds()\<close>.\<close>

definition Seconds :: "int \<Rightarrow> float64" where
  "Seconds d = Finite (real_of_int d / 1000000000)"

text \<open>
  The float operations \<open>GetProgress\<close> uses, with the IEEE 754 results at zero, the
  infinities and NaN; on finite operands the result is the exact real (rounding is
  not represented, and integers converted to \<open>float64\<close> are never the negative zero).
\<close>

fun fdiv :: "float64 \<Rightarrow> float64 \<Rightarrow> float64" where
  "fdiv NaN _ = NaN"
| "fdiv _ NaN = NaN"
| "fdiv (Finite a) (Finite b) =
     (if b = 0 then (if a = 0 then NaN else if a > 0 then PosInf else NegInf)
      else Finite (a / b))"
| "fdiv (Finite a) _ = Finite 0"
| "fdiv PosInf (Finite b) = (if b < 0 then NegInf else PosInf)"
| "fdiv NegInf (Finite b) = (if b < 0 then PosInf else NegInf)"
| "fdiv _ _ = NaN"

fun fmul :: "float64 \<Rightarrow> float64 \<Rightarrow> float64" where
  "fmul NaN _ = NaN"
| "fmul _ NaN = NaN"
| "fmul (Finite a) (Finite b) = Finite (a * b)"
| "fmul (Finite a) PosInf = (if a = 0 then NaN else if a > 0 then PosInf else NegInf)"
| "fmul (Finite a) NegInf = (if a = 0 then NaN else if a > 0 then NegInf else PosInf)"
| "fmul PosInf (Finite b) = (if b = 0 then NaN else if b > 0 then PosInf else NegInf)"
| "fmul NegInf (Finite b) = (if b = 0 then NaN else if b > 0 then NegInf else PosInf)"
| "fmul PosInf PosInf = PosInf"
| "fmul NegInf NegInf = PosInf"
| "fmul _ _ = NegInf"

fun fsub :: "float64 \<Rightarrow> float64 \<Rightarrow> float64" where
  "fsub NaN _ = NaN"
| "fsub _ NaN = NaN"
| "fsub (Finite a) (Finite b) = Finite (a - b)"
| "fsub (Finite a) PosInf = NegInf"
| "fsub (Finite a) NegInf = PosInf"
| "fsub PosInf PosInf = NaN"
| "fsub NegInf NegInf = NaN"
| "fsub PosInf _ = PosInf"
| "fsub NegInf _ = NegInf"

text \<open>\<open>x > 0\<close> on a \<open>float64\<close>: false for NaN.\<close>

fun positive :: "float64 \<Rightarrow> bool" where
  "positive (Finite a) = (a > 0)"
| "positive PosInf = True"
| "positive _ = False"

fun finite64 :: "float64 \<Rightarrow> bool" where
  "finite64 (Finite a) = True"
| "finite64 _ = False"

subsection \<open>Messages (\<open>WebSocketMessage\<close> and its payloads)\<close>

record ProgressUpdate =
  JobID :: string
  Status :: string
  CurrentModel :: string
  CurrentConcurrency :: int
  Progress :: float64
  ElapsedTime :: float64
  EstimatedTimeRemaining :: float64
  CurrentStep :: string
  TotalSteps :: int
  CurrentStepNumber :: int

record StatusUpdate =
  JobID :: string
  Status :: string
  Message :: string
  CreatedAt :: int
  UpdatedAt :: int

record ErrorMessage =
  JobID :: string
  Error :: string
  Message :: string
  Code :: int
  Details :: string

text \<open>\<open>Results\<close> is an \<open>interface{}\<close>; the one value \<open>executeJob\<close> passes is a
  \<open>ComparisonResponse\<close>, and \<open>None\<close> is \<open>nil\<close>.\<close>

record CompletionMessage =
  JobID :: string
  Status :: string
  Results :: "ComparisonResponse option"
  Duration :: float64
  Completed :: int

record CancellationMessage =
  JobID :: string
  Status :: string
  Message :: string
  Cancelled :: int
  Reason :: string

datatype wsdata =
    ProgressData ProgressUpdate
  | StatusData StatusUpdate
  | ErrorData ErrorMessage
  | CompletionData CompletionMessage
  | CancellationData CancellationMessage

record WebSocketMessage =
  Type :: string
  JobID :: string
  Timestamp :: int
  Data :: wsdata

definition MessageTypeProgress :: string where "MessageTypeProgress = ''progress''"
definition MessageTypeStatus :: string where "MessageTypeStatus = ''status''"
definition MessageTypeError :: string where "MessageTypeError = ''error''"
definition MessageTypeComplete :: string where "MessageTypeComplete = ''complete''"
definition MessageTypeCancelled :: string where "MessageTypeCancelled = ''cancelled''"

text \<open>
  \<open>WebSocketMessage.ToJSON\<close> is \<open>json.Marshal\<close>, which returns an error instead of bytes
  when a \<open>float64\<close> it meets is NaN or infinite; nothing else in these payloads can
  make it fail. \<open>encodes m\<close> says that \<open>ToJSON\<close> returns \<open>err == nil\<close>.
\<close>

definition finiteRound :: "ConcurrencyResult \<Rightarrow> bool" where
  "finiteRound r = (finite64 (GenerationThroughput r) \<and> finite64 (ConcurrencyResult.PromptThroughput r)
                    \<and> finite64 (MinTTFT r) \<and> finite64 (MaxTTFT r))"

definition finiteBenchmarkResult :: "BenchmarkResult option \<Rightarrow> bool" where
  "finiteBenchmarkResult b =
     (case b of None \<Rightarrow> True
      | Some r \<Rightarrow> list_all finiteRound (elems (BenchmarkResult.Results r)))"

definition finiteResponse :: "ComparisonResponse \<Rightarrow> bool" where
  "finiteResponse r =
     (finiteBenchmarkResult (ComparisonResponse.Model1 r) \<and>
      finiteBenchmarkResult (ComparisonResponse.Model2 r) \<and>
      (case Comparison r of None \<Rightarrow> True
       | Some cmp \<Rightarrow> list_all (\<lambda>(metric, diff). finite64 diff) (Differences cmp)))"

fun encodesData :: "wsdata \<Rightarrow> bool" where
  "encodesData (ProgressData p) =
     (finite64 (ProgressUpdate.Progress p) \<and> finite64 (ElapsedTime p)
      \<and> finite64 (EstimatedTimeRemaining p))"
| "encodesData (StatusData s) = True"
| "encodesData (ErrorData e) = True"
| "encodesData (CompletionData c) =
     (finite64 (Duration c) \<and>
      (case CompletionMessage.Results c of None \<Rightarrow> True | Some r \<Rightarrow> finiteResponse r))"
| "encodesData (CancellationData c) = True"

definition encodes :: "WebSocketMessage \<Rightarrow> bool" where
  "encodes m = encodesData (Data m)"

subsection \<open>Locks and calls that do not return\<close>

text \<open>
  A \<open>sync.RWMutex\<close> is not reentrant: \<open>Lock\<close> waits while the lock is held, and so does
  \<open>RLock\<close> while it is held for writing, also when the holder is the caller itself.
  Every method below releases the lock it took before it returns (\<open>defer Unlock\<close>), and
  a method is one step of the model. So between two steps a lock is \<open>Locked\<close> only when
  the call that took it has not returned, which here means that it waits for a lock
  that will never be released; then every later \<open>Lock\<close> and \<open>RLock\<close> of it waits for
  ever too. No read lock is held across a step, so the two states are enough.
\<close>

datatype RWMutex = Unlocked | Locked

text \<open>
  How a call ends: it returns a value, returns an error (carried as its text),
  panics, or never returns.
\<close>

datatype 'a outcome = Ret 'a | Err string | Panic string | Blocked

subsection \<open>\<open>ProgressTracker\<close>\<close>

text \<open>
  Each method reads the clock in one critical section, so it takes one reading \<open>now\<close>.
\<close>

record ProgressTracker =
  JobID :: string
  StartTime :: int
  TotalSteps :: int
  CurrentStep :: int
  CurrentModel :: string
  CurrentConcurrency :: int
  Status :: string
  mutex :: RWMutex
  lastBroadcast :: int
  throttleInterval :: int

text \<open>
  Modelled from the spec: the \<open>Hub\<close> type and its \<open>BroadcastMessage\<close> are not among the
  sources. The bus only delivers what it is handed, best effort, and gives nothing
  back to the publisher; the hub is the list of the messages handed to
  \<open>BroadcastMessage\<close>, oldest first.
\<close>

type_synonym Hub = "WebSocketMessage list"

definition NewProgressTracker :: "string \<Rightarrow> int \<Rightarrow> int \<Rightarrow> ProgressTracker" where
  "NewProgressTracker jobID totalSteps now =
     \<lparr>JobID = jobID, StartTime = now, TotalSteps = totalSteps, CurrentStep = 0,
      CurrentModel = [], CurrentConcurrency = 0, Status = ''running'', mutex = Unlocked,
      lastBroadcast = zeroTime, throttleInterval = 1 * Second\<rparr>"

text \<open>\<open>if data, err := message.ToJSON(); err == nil { pt.Hub.BroadcastMessage(data) }\<close>\<close>

definition BroadcastIfEncoded :: "WebSocketMessage \<Rightarrow> Hub \<Rightarrow> Hub" where
  "BroadcastIfEncoded m hub = (if encodes m then hub @ [m] else hub)"

definition getCurrentStepDescription :: "ProgressTracker \<Rightarrow> string" where
  "getCurrentStepDescription pt =
     (if CurrentModel pt = [] then ''Initializing benchmark...''
      else if CurrentConcurrency pt > 0 then
        ''Testing '' @ CurrentModel pt @ '' with concurrency '' @ Itoa (CurrentConcurrency pt)
      else ''Testing '' @ CurrentModel pt)"

text \<open>\<open>GetProgress\<close> takes the read lock: \<open>pt.mutex.RLock()\<close>.\<close>

definition GetProgress :: "int \<Rightarrow> ProgressTracker \<Rightarrow> ProgressUpdate outcome" where
  "GetProgress now pt =
     (if mutex pt = Locked then Blocked
      else
        let elapsed = Seconds (Sub now (StartTime pt));
            progress = fmul (fdiv (Finite (real_of_int (CurrentStep pt)))
                                  (Finite (real_of_int (TotalSteps pt)))) (Finite 100);
            estimatedRemaining =
              (if positive progress then fmul (fdiv elapsed progress) (fsub (Finite 100) progress)
               else Finite 0)
        in Ret \<lparr>ProgressUpdate.JobID = ProgressTracker.JobID pt,
                ProgressUpdate.Status = ProgressTracker.Status pt,
                ProgressUpdate.CurrentModel = CurrentModel pt,
                ProgressUpdate.CurrentConcurrency = CurrentConcurrency pt,
                Progress = progress,
                ElapsedTime = elapsed,
                EstimatedTimeRemaining = estimatedRemaining,
                ProgressUpdate.CurrentStep = getCurrentStepDescription pt,
                ProgressUpdate.TotalSteps = TotalSteps pt,
                CurrentStepNumber = CurrentStep pt\<rparr>)"

definition NewProgressMessage :: "string \<Rightarrow> int \<Rightarrow> ProgressUpdate \<Rightarrow> WebSocketMessage" where
  "NewProgressMessage jobID now progress =
     \<lparr>Type = MessageTypeProgress, WebSocketMessage.JobID = jobID, Timestamp = now,
      Data = ProgressData progress\<rparr>"

definition NewStatusMessage :: "string \<Rightarrow> int \<Rightarrow> StatusUpdate \<Rightarrow> WebSocketMessage" where
  "NewStatusMessage jobID now status =
     \<lparr>Type = MessageTypeStatus, WebSocketMessage.JobID = jobID, Timestamp = now,
      Data = StatusData status\<rparr>"

definition NewErrorMessage :: "string \<Rightarrow> int \<Rightarrow> ErrorMessage \<Rightarrow> WebSocketMessage" where
  "NewErrorMessage jobID now error =
     \<lparr>Type = MessageTypeError, WebSocketMessage.JobID = jobID, Timestamp = now,
      Data = ErrorData error\<rparr>"

definition NewCompletionMessage :: "string \<Rightarrow> int \<Rightarrow> CompletionMessage \<Rightarrow> WebSocketMessage" where
  "NewCompletionMessage jobID now completion =
     \<lparr>Type = MessageTypeComplete, WebSocketMessage.JobID = jobID, Timestamp = now,
      Data = CompletionData completion\<rparr>"

definition NewCancellationMessage :: "string \<Rightarrow> int \<Rightarrow> CancellationMessage \<Rightarrow> WebSocketMessage" where
  "NewCancellationMessage jobID now cancellation =
     \<lparr>Type = MessageTypeCancelled, WebSocketMessage.JobID = jobID, Timestamp = now,
      Data = CancellationData cancellation\<rparr>"

text \<open>
  \<open>broadcastProgress\<close> starts with \<open>pt.GetProgress()\<close>; it gives the hub when it returns
  and \<open>None\<close> when that call never does.
\<close>

definition broadcastProgress :: "int \<Rightarrow> string \<Rightarrow> ProgressTracker \<Rightarrow> Hub \<Rightarrow> Hub option" where
  "broadcastProgress now currentStep pt hub =
     (case GetProgress now pt of
        Ret progress0 \<Rightarrow>
          let progress = progress0\<lparr>ProgressUpdate.CurrentStep := currentStep\<rparr>
          in Some (BroadcastIfEncoded (NewProgressMessage (ProgressTracker.JobID pt) now progress) hub)
      | _ \<Rightarrow> None)"

definition broadcastStatus :: "int \<Rightarrow> string \<Rightarrow> ProgressTracker \<Rightarrow> Hub \<Rightarrow> Hub" where
  "broadcastStatus now message pt hub =
     (let status = \<lparr>StatusUpdate.JobID = ProgressTracker.JobID pt,
                     StatusUpdate.Status = ProgressTracker.Status pt,
                     StatusUpdate.Message = message,
                     CreatedAt = StartTime pt, UpdatedAt = now\<rparr>
      in BroadcastIfEncoded (NewStatusMessage (ProgressTracker.JobID pt) now status) hub)"

text \<open>
  The methods that take the write lock. Each gives how the call ends, the tracker and
  the hub. A call that finds the lock held never returns and writes nothing.
  \<open>UpdateProgress\<close> holds the lock while it calls \<open>broadcastProgress\<close>; when that call
  does not return, neither does \<open>UpdateProgress\<close>, and the lock stays held with the
  three fields written and \<open>lastBroadcast\<close> as it was.
\<close>

definition UpdateProgress ::
  "int \<Rightarrow> int \<Rightarrow> string \<Rightarrow> int \<Rightarrow> string \<Rightarrow> ProgressTracker \<Rightarrow> Hub \<Rightarrow>
   unit outcome \<times> ProgressTracker \<times> Hub" where
  "UpdateProgress now step model concurrency currentStep pt hub =
     (if mutex pt = Locked then (Blocked, pt, hub)
      else
        let pt1 = pt\<lparr>mutex := Locked, CurrentStep := step, CurrentModel := model,
                     CurrentConcurrency := concurrency\<rparr>
        in if Sub now (lastBroadcast pt1) \<ge> throttleInterval pt1
           then (case broadcastProgress now currentStep pt1 hub of
                   None \<Rightarrow> (Blocked, pt1, hub)
                 | Some hub1 \<Rightarrow> (Ret (), pt1\<lparr>lastBroadcast := now, mutex := Unlocked\<rparr>, hub1))
           else (Ret (), pt1\<lparr>mutex := Unlocked\<rparr>, hub))"

definition SetStatus ::
  "int \<Rightarrow> string \<Rightarrow> string \<Rightarrow> ProgressTracker \<Rightarrow> Hub \<Rightarrow> unit outcome \<times> ProgressTracker \<times> Hub" where
  "SetStatus now status message pt hub =
     (if mutex pt = Locked then (Blocked, pt, hub)
      else
        let pt1 = pt\<lparr>mutex := Locked, Status := status\<rparr>
        in (Ret (), pt1\<lparr>mutex := Unlocked\<rparr>, broadcastStatus now message pt1 hub))"

definition Complete ::
  "int \<Rightarrow> ComparisonResponse option \<Rightarrow> ProgressTracker \<Rightarrow> Hub \<Rightarrow>
   unit outcome \<times> ProgressTracker \<times> Hub" where
  "Complete now results pt hub =
     (if mutex pt = Locked then (Blocked, pt, hub)
      else
        let pt1 = pt\<lparr>mutex := Locked, Status := ''completed'', CurrentStep := TotalSteps pt\<rparr>;
            duration = Seconds (Sub now (StartTime pt1));
            completion = \<lparr>CompletionMessage.JobID = ProgressTracker.JobID pt1,
                           CompletionMessage.Status = ''completed'',
                           Results = results, Duration = duration, Completed = now\<rparr>
        in (Ret (), pt1\<lparr>mutex := Unlocked\<rparr>,
            BroadcastIfEncoded (NewCompletionMessage (ProgressTracker.JobID pt1) now completion) hub))"

definition Fail ::
  "int \<Rightarrow> string \<Rightarrow> string \<Rightarrow> ProgressTracker \<Rightarrow> Hub \<Rightarrow> unit outcome \<times> ProgressTracker \<times> Hub" where
  "Fail now errorMsg details pt hub =
     (if mutex pt = Locked then (Blocked, pt, hub)
      else
        let pt1 = pt\<lparr>mutex := Locked, Status := ''failed''\<rparr>;
            errorMessage = \<lparr>ErrorMessage.JobID = ProgressTracker.JobID pt1,
                             Error = ''Benchmark failed'',
                             ErrorMessage.Message = errorMsg, Code = 0, Details = details\<rparr>
        in (Ret (), pt1\<lparr>mutex := Unlocked\<rparr>,
            BroadcastIfEncoded (NewErrorMessage (ProgressTracker.JobID pt1) now errorMessage) hub))"

definition Cancel ::
  "int \<Rightarrow> string \<Rightarrow> ProgressTracker \<Rightarrow> Hub \<Rightarrow> unit outcome \<times> ProgressTracker \<times> Hub" where
  "Cancel now reason pt hub =
     (if mutex pt = Locked then (Blocked, pt, hub)
      else
        let pt1 = pt\<lparr>mutex := Locked, Status := ''cancelled''\<rparr>;
            cancellation = \<lparr>CancellationMessage.JobID = ProgressTracker.JobID pt1,
                             CancellationMessage.Status = ''cancelled'',
                             CancellationMessage.Message = ''Benchmark cancelled'',
                             Cancelled = now, Reason = reason\<rparr>
        in (Ret (), pt1\<lparr>mutex := Unlocked\<rparr>,
            BroadcastIfEncoded (NewCancellationMessage (ProgressTracker.JobID pt1) now cancellation) hub))"

section \<open>The WebSocket job manager (\<open>JobManager\<close>)\<close>

text \<open>
  \<open>cancelChan\<close> is a channel of capacity one: the field holds the number of signals
  buffered in it. \<open>Progress\<close> is the job's tracker. \<open>Error = None\<close> is the \<open>nil\<close> error.
\<close>

record BenchmarkJob =
  ID :: string
  Status :: string
  Request :: BenchmarkRequest
  Progress :: ProgressTracker
  Results :: "ComparisonResponse option"
  Error :: "string option"
  CreatedAt :: int
  StartedAt :: "int option"
  CompletedAt :: "int option"
  cancelChan :: nat

record JobManager =
  jobs :: "(string \<times> BenchmarkJob) list"
  mutex :: RWMutex
  hub :: Hub

definition NewJobManager :: "Hub \<Rightarrow> JobManager" where
  "NewJobManager h = \<lparr>jobs = [], mutex = Unlocked, hub = h\<rparr>"

definition totalStepsOf :: "BenchmarkRequest \<Rightarrow> int" where
  "totalStepsOf request =
     (if BenchmarkRequest.Model2 request \<noteq> None
      then int (length (elems (ConcurrencyLevels request))) * 2
      else int (length (elems (ConcurrencyLevels request))))"

text \<open>
  The methods of the manager take \<open>jm.mutex\<close> first; on a manager whose lock is held
  they never return. \<open>CreateJob\<close> returns the identifier it drew.
\<close>

definition JM_CreateJob ::
  "string \<Rightarrow> int \<Rightarrow> BenchmarkRequest \<Rightarrow> JobManager \<Rightarrow> string outcome \<times> JobManager" where
  "JM_CreateJob jobID now request jm =
     (if mutex jm = Locked then (Blocked, jm)
      else
        let job = \<lparr>ID = jobID, Status = ''queued'', Request = request,
                   Progress = NewProgressTracker jobID (totalStepsOf request) now,
                   Results = None, Error = None, CreatedAt = now, StartedAt = None,
                   CompletedAt = None, cancelChan = 0\<rparr>
        in (Ret jobID, jm\<lparr>jobs := AList.update jobID job (jobs jm)\<rparr>))"

text \<open>\<open>GetJob\<close> returns \<open>(job, exists)\<close>: \<open>Ret None\<close> is \<open>exists = false\<close>.\<close>

definition JM_GetJob :: "JobManager \<Rightarrow> string \<Rightarrow> BenchmarkJob option outcome" where
  "JM_GetJob jm jobID = (if mutex jm = Locked then Blocked else Ret (map_of (jobs jm) jobID))"

text \<open>
  \<open>StartJob\<close> returns its error (\<open>Ret ()\<close> is \<open>nil\<close>) with the new state. The goroutine it
  starts is \<open>executeJob\<close> below, a step of its own.
\<close>

definition StartJob :: "string \<Rightarrow> int \<Rightarrow> JobManager \<Rightarrow> unit outcome \<times> JobManager" where
  "StartJob jobID now jm =
     (if mutex jm = Locked then (Blocked, jm)
      else
        case map_of (jobs jm) jobID of
          None \<Rightarrow> (Err (''job '' @ jobID @ '' not found''), jm)
        | Some job \<Rightarrow>
            if Status job \<noteq> ''queued'' then
              (Err (''job '' @ jobID @ '' is not in queued status (current: '' @ Status job @ '')''), jm)
            else
              (Ret (), jm\<lparr>jobs := AList.update jobID
                              (job\<lparr>Status := ''running'', StartedAt := Some now\<rparr>) (jobs jm)\<rparr>))"

text \<open>The non-blocking send \<open>select { case job.cancelChan <- true: default: }\<close>.\<close>

definition trySend :: "nat \<Rightarrow> nat" where
  "trySend n = (if n < 1 then n + 1 else n)"

text \<open>
  \<open>CancelJob\<close> sends the signal and marks the job, then calls \<open>job.Progress.Cancel\<close> with
  \<open>jm.mutex\<close> still held. When the tracker's lock is held that call never returns, and
  neither does \<open>CancelJob\<close>: the manager's lock stays held, over the job as written so
  far.
\<close>

definition JM_CancelJob :: "string \<Rightarrow> int \<Rightarrow> JobManager \<Rightarrow> unit outcome \<times> JobManager" where
  "JM_CancelJob jobID now jm =
     (if mutex jm = Locked then (Blocked, jm)
      else
        case map_of (jobs jm) jobID of
          None \<Rightarrow> (Err (''job '' @ jobID @ '' not found''), jm)
        | Some job \<Rightarrow>
            if Status job \<noteq> ''running'' then
              (Err (''job '' @ jobID @ '' is not running (current: '' @ Status job @ '')''), jm)
            else
              let job1 = job\<lparr>cancelChan := trySend (cancelChan job),
                             Status := ''cancelled'', CompletedAt := Some now\<rparr>
              in (case Cancel now ''User requested cancellation'' (Progress job1) (hub jm) of
                    (Blocked, pt, h) \<Rightarrow>
                      (Blocked, jm\<lparr>jobs := AList.update jobID (job1\<lparr>Progress := pt\<rparr>) (jobs jm),
                                   mutex := Locked, hub := h\<rparr>)
                  | (_, pt, h) \<Rightarrow>
                      (Ret (), jm\<lparr>jobs := AList.update jobID (job1\<lparr>Progress := pt\<rparr>) (jobs jm),
                                  hub := h\<rparr>)))"

definition JM_CleanupOldJobs :: "int \<Rightarrow> int \<Rightarrow> JobManager \<Rightarrow> unit outcome \<times> JobManager" where
  "JM_CleanupOldJobs now maxAge jm =
     (if mutex jm = Locked then (Blocked, jm)
      else
        let cutoff = now - maxAge
        in (Ret (), jm\<lparr>jobs := filter (\<lambda>(jobID, job).
                   \<not> (case CompletedAt job of None \<Rightarrow> False | Some t \<Rightarrow> t < cutoff)) (jobs jm)\<rparr>))"

subsection \<open>\<open>executeJob\<close>\<close>

text \<open>
  \<open>executeJob\<close> runs on its own goroutine with a pointer to the job. What it reads from
  outside: \<open>runRound k\<close>, the result of \<open>setup.Run\<close> for round \<open>k\<close> (an error as its
  text), \<open>clock t\<close>, the clock at its \<open>t\<close>-th event, and \<open>interleaved t\<close>, what the
  other goroutines do to the manager at that event. The events are counted by the
  \<open>t\<close> threaded through the functions. The model reaches the job through the registry,
  so a job that age-based cleanup has dropped meanwhile is no longer written. A
  function of the goroutine that meets a call that never returns is \<open>Blocked\<close> itself,
  with the state as that call left it.
\<close>

record asyncWorld =
  runRound :: "nat \<Rightarrow> string + SpeedResult"
  clock :: "nat \<Rightarrow> int"
  interleaved :: "nat \<Rightarrow> JobManager \<Rightarrow> JobManager"

text \<open>A method of the job's tracker, called through the job pointer without \<open>jm.mutex\<close>.\<close>

definition onProgress ::
  "string \<Rightarrow> (ProgressTracker \<Rightarrow> Hub \<Rightarrow> unit outcome \<times> ProgressTracker \<times> Hub) \<Rightarrow> JobManager \<Rightarrow>
   unit outcome \<times> JobManager" where
  "onProgress jobID method jm =
     (case map_of (jobs jm) jobID of
        None \<Rightarrow> (Ret (), jm)
      | Some job \<Rightarrow>
          let (r, pt, h) = method (Progress job) (hub jm)
          in (r, jm\<lparr>jobs := AList.update jobID (job\<lparr>Progress := pt\<rparr>) (jobs jm), hub := h\<rparr>))"

text \<open>\<open>select { case <-cancelChan: ... default: }\<close>: a buffered signal is taken out of the
  channel.\<close>

definition cancelSignalled :: "string \<Rightarrow> JobManager \<Rightarrow> bool \<times> JobManager" where
  "cancelSignalled jobID jm =
     (case map_of (jobs jm) jobID of
        None \<Rightarrow> (False, jm)
      | Some job \<Rightarrow>
          if cancelChan job > 0
          then (True, jm\<lparr>jobs := AList.update jobID (job\<lparr>cancelChan := cancelChan job - 1\<rparr>) (jobs jm)\<rparr>)
          else (False, jm))"

text \<open>
  \<open>runConcurrencyBenchmark\<close> for round \<open>step\<close>: a progress update at event \<open>t\<close>, the
  round itself, during which the other goroutines run (event \<open>t + 1\<close>), and a second
  update at \<open>t + 2\<close>. It gives the outcome, the next event and the manager.
\<close>

definition runConcurrencyBenchmark ::
  "asyncWorld \<Rightarrow> string \<Rightarrow> Model \<Rightarrow> int \<Rightarrow> nat \<Rightarrow> nat \<Rightarrow> JobManager \<Rightarrow>
   ConcurrencyResult outcome \<times> nat \<times> JobManager" where
  "runConcurrencyBenchmark w jobID model concurrency step t jm =
     (case onProgress jobID
             (UpdateProgress (clock w t) (int step) (Model.Name model) 0
                (''Running benchmark with concurrency '' @ Itoa concurrency)) jm of
        (Blocked, jm1) \<Rightarrow> (Blocked, Suc t, jm1)
      | (_, jm1) \<Rightarrow>
          let jm2 = interleaved w (t + 1) jm1
          in (case runRound w step of
                Inl err \<Rightarrow> (Err err, t + 2, jm2)
              | Inr result \<Rightarrow>
                  (case onProgress jobID
                          (UpdateProgress (clock w (t + 2)) (int step) (Model.Name model) 100
                             (''Completed benchmark with concurrency '' @ Itoa concurrency)) jm2 of
                     (Blocked, jm3) \<Rightarrow> (Blocked, t + 3, jm3)
                   | (_, jm3) \<Rightarrow>
                       (Ret \<lparr>ConcurrencyResult.Concurrency = SpeedResult.Concurrency result,
                             GenerationThroughput = GenerationSpeed result,
                             ConcurrencyResult.PromptThroughput = SpeedResult.PromptThroughput result,
                             MinTTFT = MinTtft result,
                             MaxTTFT = MaxTtft result\<rparr>, t + 3, jm3))))"

text \<open>
  \<open>runSingleModelBenchmark\<close>: the loop over the levels, with \<open>results\<close> and \<open>*step\<close> as
  they stand; it gives the outcome, \<open>*step\<close>, the next event and the manager.
\<close>

fun runSingleModelBenchmark ::
  "asyncWorld \<Rightarrow> string \<Rightarrow> Model \<Rightarrow> int list \<Rightarrow> ConcurrencyResult slice \<Rightarrow> nat \<Rightarrow> nat \<Rightarrow> JobManager \<Rightarrow>
   BenchmarkResult outcome \<times> nat \<times> nat \<times> JobManager" where
  "runSingleModelBenchmark w jobID model [] results step t jm =
     (Ret \<lparr>Model = Model.Name model, BenchmarkResult.Results = results, Timestamp = clock w t\<rparr>,
      step, Suc t, jm)"
| "runSingleModelBenchmark w jobID model (concurrency # rest) results step t jm =
     (case cancelSignalled jobID (interleaved w t jm) of
        (True, jm1) \<Rightarrow> (Err ''benchmark cancelled'', step, Suc t, jm1)
      | (False, jm1) \<Rightarrow>
          (case onProgress jobID
                  (UpdateProgress (clock w (t + 1)) (int step) (Model.Name model) concurrency
                     (''Testing '' @ Model.Name model @ '' with concurrency '' @ Itoa concurrency)) jm1 of
             (Blocked, jm2) \<Rightarrow> (Blocked, step, t + 2, jm2)
           | (_, jm2) \<Rightarrow>
               (case runConcurrencyBenchmark w jobID model concurrency step (t + 2) jm2 of
                  (Ret result, t5, jm5) \<Rightarrow>
                    runSingleModelBenchmark w jobID model rest (appendSlice results result)
                      (Suc step) t5 jm5
                | (Err err, t5, jm5) \<Rightarrow>
                    (Err (''concurrency '' @ Itoa concurrency @ '' failed: '' @ err), step, t5, jm5)
                | (Panic p, t5, jm5) \<Rightarrow> (Panic p, step, t5, jm5)
                | (Blocked, t5, jm5) \<Rightarrow> (Blocked, step, t5, jm5))))"

text \<open>
  \<open>runBenchmarkWithProgress\<close>, in three parts: up to the first model's rounds, the
  cancellation check after them, and the block for the second model. With a second
  model the function ends in the type assertion \<open>comparison.(*Comparison)\<close> on the
  \<open>map[string]interface{}\<close> that \<open>generateComparison\<close> returns, which panics.
\<close>

definition secondModel ::
  "asyncWorld \<Rightarrow> string \<Rightarrow> BenchmarkRequest \<Rightarrow> Model \<Rightarrow> nat \<Rightarrow> nat \<Rightarrow> JobManager \<Rightarrow>
   ComparisonResponse outcome \<times> nat \<times> JobManager" where
  "secondModel w jobID request m2 step t jm =
     (case onProgress jobID
             (UpdateProgress (clock w (t + 1)) (int step) (Model.Name m2) 0
                ''Starting Model 2 benchmark'') jm of
        (Blocked, jm1) \<Rightarrow> (Blocked, t + 2, jm1)
      | (_, jm1) \<Rightarrow>
          (case runSingleModelBenchmark w jobID m2 (elems (ConcurrencyLevels request)) NilSlice step
                  (t + 2) jm1 of
             (Err e, step2, t2, jm2) \<Rightarrow> (Err (''model 2 benchmark failed: '' @ e), t2, jm2)
           | (Panic p, step2, t2, jm2) \<Rightarrow> (Panic p, t2, jm2)
           | (Blocked, step2, t2, jm2) \<Rightarrow> (Blocked, t2, jm2)
           | (Ret model2Results, step2, t2, jm2) \<Rightarrow>
               (case cancelSignalled jobID (interleaved w t2 jm2) of
                  (True, jm3) \<Rightarrow> (Err ''job cancelled after model 2'', Suc t2, jm3)
                | (False, jm3) \<Rightarrow>
                    (case onProgress jobID
                            (UpdateProgress (clock w (t2 + 1)) (int step2) [] 0
                               ''Generating comparison results'') jm3 of
                       (Blocked, jm4) \<Rightarrow> (Blocked, t2 + 2, jm4)
                     | (_, jm4) \<Rightarrow>
                         (Panic ''interface conversion: interface {} is map[string]interface {}, not *server.Comparison'',
                          t2 + 2, jm4)))))"

definition afterModel1 ::
  "asyncWorld \<Rightarrow> string \<Rightarrow> BenchmarkRequest \<Rightarrow> BenchmarkResult \<Rightarrow> nat \<Rightarrow> nat \<Rightarrow> JobManager \<Rightarrow>
   ComparisonResponse outcome \<times> nat \<times> JobManager" where
  "afterModel1 w jobID request model1Results step t jm =
     (case cancelSignalled jobID (interleaved w t jm) of
        (True, jm1) \<Rightarrow> (Err ''job cancelled after model 1'', Suc t, jm1)
      | (False, jm1) \<Rightarrow>
          (case BenchmarkRequest.Model2 request of
             None \<Rightarrow>
               (Ret \<lparr>Model1 = Some model1Results, Model2 = None, Comparison = None\<rparr>, Suc t, jm1)
           | Some m2 \<Rightarrow> secondModel w jobID request m2 step t jm1))"

definition runBenchmarkWithProgress ::
  "asyncWorld \<Rightarrow> string \<Rightarrow> BenchmarkRequest \<Rightarrow> nat \<Rightarrow> JobManager \<Rightarrow>
   ComparisonResponse outcome \<times> nat \<times> JobManager" where
  "runBenchmarkWithProgress w jobID request t jm =
     (case cancelSignalled jobID (interleaved w t jm) of
        (True, jm1) \<Rightarrow> (Err ''job cancelled before execution'', Suc t, jm1)
      | (False, jm1) \<Rightarrow>
          (case onProgress jobID
                  (UpdateProgress (clock w (t + 1)) 0 (Model.Name (BenchmarkRequest.Model1 request)) 0
                     ''Starting Model 1 benchmark'') jm1 of
             (Blocked, jm2) \<Rightarrow> (Blocked, t + 2, jm2)
           | (_, jm2) \<Rightarrow>
               (case runSingleModelBenchmark w jobID (BenchmarkRequest.Model1 request)
                       (elems (ConcurrencyLevels request)) NilSlice 0 (t + 2) jm2 of
                  (Err e, step, t3, jm3) \<Rightarrow> (Err (''model 1 benchmark failed: '' @ e), t3, jm3)
                | (Panic p, step, t3, jm3) \<Rightarrow> (Panic p, t3, jm3)
                | (Blocked, step, t3, jm3) \<Rightarrow> (Blocked, t3, jm3)
                | (Ret model1Results, step, t3, jm3) \<Rightarrow>
                    afterModel1 w jobID request model1Results step t3 jm3)))"

text \<open>
  The locked section at the end of \<open>executeJob\<close>: \<open>jm.mutex.Lock()\<close>, the timestamp, then
  the status with the error or the results, and the tracker's \<open>Fail\<close> or \<open>Complete\<close>,
  called with \<open>jm.mutex\<close> held.
\<close>

definition stampJob ::
  "int \<Rightarrow> string + ComparisonResponse \<Rightarrow> string \<Rightarrow> JobManager \<Rightarrow> unit outcome \<times> JobManager" where
  "stampJob now result jobID jm =
     (if mutex jm = Locked then (Blocked, jm)
      else
        case map_of (jobs jm) jobID of
          None \<Rightarrow> (Ret (), jm)
        | Some job \<Rightarrow>
            let job1 = (case result of
                          Inl e \<Rightarrow> job\<lparr>CompletedAt := Some now, Status := ''failed'', Error := Some e\<rparr>
                        | Inr results \<Rightarrow> job\<lparr>CompletedAt := Some now, Status := ''completed'',
                                              Results := Some results\<rparr>)
            in (case (case result of
                        Inl e \<Rightarrow> Fail now ''Benchmark execution failed'' e (Progress job1) (hub jm)
                      | Inr results \<Rightarrow> Complete now (Some results) (Progress job1) (hub jm)) of
                  (Blocked, pt, h) \<Rightarrow>
                    (Blocked, jm\<lparr>jobs := AList.update jobID (job1\<lparr>Progress := pt\<rparr>) (jobs jm),
                                 mutex := Locked, hub := h\<rparr>)
                | (_, pt, h) \<Rightarrow>
                    (Ret (), jm\<lparr>jobs := AList.update jobID (job1\<lparr>Progress := pt\<rparr>) (jobs jm),
                                hub := h\<rparr>)))"

text \<open>
  \<open>executeJob\<close>: the status broadcast, the run, then the locked section that stamps the
  job. A panic is recovered by the deferred function before the lock is taken, so it
  only reaches the tracker.
\<close>

definition executeJob :: "asyncWorld \<Rightarrow> string \<Rightarrow> nat \<Rightarrow> JobManager \<Rightarrow> unit outcome \<times> JobManager" where
  "executeJob w jobID t jm =
     (case map_of (jobs jm) jobID of
        None \<Rightarrow> (Ret (), jm)
      | Some job0 \<Rightarrow>
          (case onProgress jobID (SetStatus (clock w t) ''running'' ''Benchmark started'') jm of
             (Blocked, jm1) \<Rightarrow> (Blocked, jm1)
           | (_, jm1) \<Rightarrow>
               (case runBenchmarkWithProgress w jobID (Request job0) (Suc t) jm1 of
                  (Panic p, t2, jm2) \<Rightarrow>
                    onProgress jobID (Fail (clock w t2) ''Internal error'' (''Panic: '' @ p)) jm2
                | (Blocked, t2, jm2) \<Rightarrow> (Blocked, jm2)
                | (Err e, t2, jm2) \<Rightarrow> stampJob (clock w t2) (Inl e) jobID jm2
                | (Ret results, t2, jm2) \<Rightarrow> stampJob (clock w t2) (Inr results) jobID jm2)))"

section \<open>Strings (\<open>strings.TrimSpace\<close>, \<open>strings.Fields\<close>)\<close>

text \<open>
  A Go string is its bytes, and so is \<open>string\<close> here. \<open>unicode.IsSpace\<close> holds of the six
  ASCII blanks and of \<open>U+0085\<close>, \<open>U+00A0\<close>, \<open>U+1680\<close>, \<open>U+2000\<close> to \<open>U+200A\<close>, \<open>U+2028\<close>,
  \<open>U+2029\<close>, \<open>U+202F\<close>, \<open>U+205F\<close> and \<open>U+3000\<close>. \<open>spaceWidth s\<close> is the number of bytes of the
  white-space rune that \<open>s\<close> starts with in UTF-8, and \<open>0\<close> when it starts with none;
  \<open>trailingSpaceWidth\<close> is the same at the end of \<open>s\<close>.
\<close>

definition asciiSpace :: "nat \<Rightarrow> bool" where
  "asciiSpace b = (b = 9 \<or> b = 10 \<or> b = 11 \<or> b = 12 \<or> b = 13 \<or> b = 32)"

definition space2 :: "nat \<Rightarrow> nat \<Rightarrow> bool" where
  "space2 b0 b1 = (b0 = 0xC2 \<and> (b1 = 0x85 \<or> b1 = 0xA0))"

definition space3 :: "nat \<Rightarrow> nat \<Rightarrow> nat \<Rightarrow> bool" where
  "space3 b0 b1 b2 =
     ((b0 = 0xE1 \<and> b1 = 0x9A \<and> b2 = 0x80) \<or>
      (b0 = 0xE2 \<and> b1 = 0x80 \<and> ((0x80 \<le> b2 \<and> b2 \<le> 0x8A) \<or> b2 = 0xA8 \<or> b2 = 0xA9 \<or> b2 = 0xAF)) \<or>
      (b0 = 0xE2 \<and> b1 = 0x81 \<and> b2 = 0x9F) \<or>
      (b0 = 0xE3 \<and> b1 = 0x80 \<and> b2 = 0x80))"

fun spaceWidth :: "string \<Rightarrow> nat" where
  "spaceWidth [] = 0"
| "spaceWidth [c0] = (if asciiSpace (of_char c0) then 1 else 0)"
| "spaceWidth [c0, c1] =
     (if asciiSpace (of_char c0) then 1
      else if space2 (of_char c0) (of_char c1) then 2 else 0)"
| "spaceWidth (c0 # c1 # c2 # rest) =
     (if asciiSpace (of_char c0) then 1
      else if space2 (of_char c0) (of_char c1) then 2
      else if space3 (of_char c0) (of_char c1) (of_char c2) then 3 else 0)"

definition trailingSpaceWidth :: "string \<Rightarrow> nat" where
  "trailingSpaceWidth s =
     (case rev s of
        [] \<Rightarrow> 0
      | [c0] \<Rightarrow> (if asciiSpace (of_char c0) then 1 else 0)
      | [c1, c0] \<Rightarrow>
          (if asciiSpace (of_char c1) then 1
           else if space2 (of_char c0) (of_char c1) then 2 else 0)
      | c2 # c1 # c0 # rest \<Rightarrow>
          (if asciiSpace (of_char c2) then 1
           else if space2 (of_char c1) (of_char c2) then 2
           else if space3 (of_char c0) (of_char c1) (of_char c2) then 3 else 0))"

fun TrimLeftSpace :: "string \<Rightarrow> string" where
  "TrimLeftSpace [] = []"
| "TrimLeftSpace (c # cs) =
     (if spaceWidth (c # cs) > 0 then TrimLeftSpace (drop (spaceWidth (c # cs) - 1) cs)
      else c # cs)"

function TrimRightSpace :: "string \<Rightarrow> string" where
  "TrimRightSpace s =
     (if s \<noteq> [] \<and> trailingSpaceWidth s > 0
      then TrimRightSpace (take (length s - trailingSpaceWidth s) s) else s)"
  by pat_completeness auto
termination
  by (relation "measure length") auto

declare TrimRightSpace.simps [simp del]

definition TrimSpace :: "string \<Rightarrow> string" where
  "TrimSpace s = TrimRightSpace (TrimLeftSpace s)"

text \<open>\<open>fieldsFrom cur s\<close> scans \<open>s\<close> with the field \<open>cur\<close> begun so far.\<close>

fun fieldsFrom :: "string \<Rightarrow> string \<Rightarrow> string list" where
  "fieldsFrom cur [] = (if cur = [] then [] else [cur])"
| "fieldsFrom cur (c # cs) =
     (if spaceWidth (c # cs) > 0
      then (if cur = [] then [] else [cur]) @ fieldsFrom [] (drop (spaceWidth (c # cs) - 1) cs)
      else fieldsFrom (cur @ [c]) cs)"

definition Fields :: "string \<Rightarrow> string list" where
  "Fields s = fieldsFrom [] s"

section \<open>Token estimation and the end of a stream (package \<open>api\<close>)\<close>

text \<open>
  \<open>int(float64(wordCount)*1.3)\<close> is written in integers: the \<open>float64\<close> nearest to
  \<open>1.3\<close> lies \<open>4.5e-17\<close> above it, so for every count a string can have the product
  truncates to the integer part of \<open>13 * wordCount / 10\<close>; likewise
  \<open>int(float64(charCount)/3.0)\<close> is \<open>charCount div 3\<close>.
\<close>

definition estimateTokens :: "string \<Rightarrow> int" where
  "estimateTokens content0 =
     (if content0 = [] then 0
      else
        let content = TrimSpace content0 in
        if length content = 0 then 0
        else
          let words = Fields content;
              wordCount = int (length words)
          in if wordCount > 0 then max 1 ((13 * wordCount) div 10)
             else
               let charCount = int (length content)
               in max 1 (charCount div 3))"

record Usage =
  PromptTokens :: int
  CompletionTokens :: int

text \<open>
  One response of the stream: the \<open>Delta.Content\<close> of each choice, the usage block
  when the provider sent one, and the seconds elapsed since the request started when
  it was received. A stream is the responses received before \<open>io.EOF\<close>; a receive
  error or a cancelled context ends it earlier.
\<close>

record StreamResponse =
  Choices :: "string list"
  Usage :: "Usage option"
  receivedAt :: float64

datatype recv = Response StreamResponse | RecvError string | ContextCancelled

record streamState =
  timeToFirstToken :: float64
  firstTokenSeen :: bool
  lastUsage :: "Usage option"
  accumulatedContent :: string
  estimatedTokens :: int

definition streamStart :: streamState where
  "streamStart = \<lparr>timeToFirstToken = Finite 0, firstTokenSeen = False, lastUsage = None,
                   accumulatedContent = [], estimatedTokens = 0\<rparr>"

text \<open>The body of the \<open>for\<close> loop for one received response.\<close>

definition onResponse :: "StreamResponse \<Rightarrow> streamState \<Rightarrow> streamState" where
  "onResponse resp st =
     (let st1 = (if \<not> firstTokenSeen st \<and> length (Choices resp) > 0 \<and>
                    TrimSpace (hd (Choices resp)) \<noteq> []
                 then st\<lparr>timeToFirstToken := receivedAt resp, firstTokenSeen := True\<rparr>
                 else st);
          st2 = (if length (Choices resp) > 0 \<and> hd (Choices resp) \<noteq> []
                 then st1\<lparr>accumulatedContent := accumulatedContent st1 @ hd (Choices resp),
                          estimatedTokens := estimatedTokens st1 + estimateTokens (hd (Choices resp))\<rparr>
                 else st1)
      in (case Usage resp of None \<Rightarrow> st2 | Some u \<Rightarrow> st2\<lparr>lastUsage := Some u\<rparr>))"

text \<open>
  \<open>AskOpenAi\<close> from the first \<open>stream.Recv()\<close> on: \<open>Inl\<close> is the error return, \<open>Inr\<close> the
  triple (time to first token, completion tokens, prompt tokens).
\<close>

fun receive :: "recv list \<Rightarrow> streamState \<Rightarrow> string + streamState" where
  "receive [] st = Inr st"
| "receive (ContextCancelled # rest) st = Inl ''context canceled''"
| "receive (RecvError e # rest) st = Inl (''stream error: '' @ e)"
| "receive (Response resp # rest) st = receive rest (onResponse resp st)"

definition AskOpenAi :: "recv list \<Rightarrow> string + (float64 \<times> int \<times> int)" where
  "AskOpenAi stream =
     (case receive stream streamStart of
        Inl err \<Rightarrow> Inl err
      | Inr st \<Rightarrow>
          (case lastUsage st of
             Some u \<Rightarrow> Inr (timeToFirstToken st, CompletionTokens u, PromptTokens u)
           | None \<Rightarrow> Inr (timeToFirstToken st, estimatedTokens st, 0)))"

section \<open>Request validation (\<open>handlers.go\<close>, \<open>async_handlers.go\<close>)\<close>

text \<open>The loop over \<open>req.ConcurrencyLevels\<close>, from index \<open>i\<close>.\<close>

fun checkLevels :: "nat \<Rightarrow> int list \<Rightarrow> string option" where
  "checkLevels i [] = None"
| "checkLevels i (concurrency # rest) =
     (if concurrency < 1 then
        Some (''concurrencyLevels['' @ showNat i @ ''] must be at least 1, got '' @ Itoa concurrency)
      else if concurrency > 100 then
        Some (''concurrencyLevels['' @ showNat i @ ''] must not exceed 100, got '' @ Itoa concurrency)
      else checkLevels (Suc i) rest)"

text \<open>\<open>validateBenchmarkRequest\<close>: \<open>None\<close> is the \<open>nil\<close> error.\<close>

definition validateBenchmarkRequest :: "BenchmarkRequest \<Rightarrow> string option" where
  "validateBenchmarkRequest req =
     (let m1 = BenchmarkRequest.Model1 req in
      if Model.ID m1 = [] then Some ''model1.id is required''
      else if Model.Name m1 = [] then Some ''model1.name is required''
      else if BaseURL m1 = [] then Some ''model1.baseUrl is required''
      else
        (case (case BenchmarkRequest.Model2 req of
                 None \<Rightarrow> None
               | Some m2 \<Rightarrow>
                   if Model.ID m2 = [] then Some ''model2.id is required when model2 is provided''
                   else if Model.Name m2 = [] then Some ''model2.name is required when model2 is provided''
                   else if BaseURL m2 = [] then Some ''model2.baseUrl is required when model2 is provided''
                   else if Model.ID m1 = Model.ID m2 then
                     Some (''model1 and model2 must be different (both are '' @ Model.ID m1 @ '')'')
                   else None) of
           Some e \<Rightarrow> Some e
         | None \<Rightarrow>
             if length (elems (ConcurrencyLevels req)) = 0 then Some ''concurrencyLevels cannot be empty''
             else
               (case checkLevels 0 (elems (ConcurrencyLevels req)) of
                  Some e \<Rightarrow> Some e
                | None \<Rightarrow>
                    if MaxTokens req < 1 then
                      Some (''maxTokens must be at least 1, got '' @ Itoa (MaxTokens req))
                    else if MaxTokens req > 4096 then
                      Some (''maxTokens must not exceed 4096, got '' @ Itoa (MaxTokens req))
                    else if length (TrimSpace (Prompt req)) = 0 then Some ''prompt cannot be empty''
                    else if length (Prompt req) > 10000 then
                      Some (''prompt too long (max 10000 characters), got '' @ showNat (length (Prompt req)))
                    else if NumWords req > 0 then
                      (if NumWords req < 10 then
                         Some (''numWords must be at least 10 for random prompts, got '' @ Itoa (NumWords req))
                       else if NumWords req > 10000 then
                         Some (''numWords must not exceed 10000, got '' @ Itoa (NumWords req))
                       else None)
                    else None)))"

text \<open>
  \<open>AsyncBenchmarkHandler\<close>, from the result of \<open>c.ShouldBindJSON\<close> on (\<open>Inl\<close> its
  error): the response written and the registry afterwards. The handler writes no
  response when \<open>CreateJob\<close> or \<open>StartJob\<close> never returns.
\<close>

datatype httpResponse =
    ErrorResponse int string string
  | Accepted string

definition AsyncBenchmarkHandler ::
  "string + BenchmarkRequest \<Rightarrow> string \<Rightarrow> int \<Rightarrow> JobManager \<Rightarrow> httpResponse outcome \<times> JobManager" where
  "AsyncBenchmarkHandler bound uuid now jobManager =
     (case bound of
        Inl err \<Rightarrow>
          (Ret (ErrorResponse 400 ''Bad Request'' (''Invalid request payload: '' @ err)), jobManager)
      | Inr req \<Rightarrow>
          (case validateBenchmarkRequest req of
             Some validationErr \<Rightarrow> (Ret (ErrorResponse 400 ''Validation Error'' validationErr), jobManager)
           | None \<Rightarrow>
               (case JM_CreateJob uuid now req jobManager of
                  (Ret jobID, jm1) \<Rightarrow>
                    (case StartJob jobID now jm1 of
                       (Ret u, jm2) \<Rightarrow> (Ret (Accepted jobID), jm2)
                     | (Err err, jm2) \<Rightarrow>
                         (Ret (ErrorResponse 500 ''Job Start Error''
                                 (''Failed to start benchmark job: '' @ err)), jm2)
                     | (_, jm2) \<Rightarrow> (Blocked, jm2))
                | (_, jm1) \<Rightarrow> (Blocked, jm1))))"

section \<open>Serialization (\<open>SimpleJob.ToJSON\<close>, \<open>sanitizeFloat\<close>)\<close>

subsection \<open>\<open>encoding/json\<close>\<close>

text \<open>
  The encoded payload. A number keeps the \<open>float64\<close> it was written from, so that a
  payload free of NaN and infinities is a property to prove and not one of the type;
  \<open>JTime\<close> is the RFC 3339 text of an instant.
\<close>

datatype json =
    JNull
  | JBool bool
  | JInt int
  | JNumber float64
  | JString string
  | JTime int
  | JArray "json list"
  | JObject "(string \<times> json) list"

text \<open>\<open>json.Marshal\<close> of a float: \<open>UnsupportedValueError\<close> (\<open>None\<close>) for NaN and the
  infinities.\<close>

definition marshalFloat :: "float64 \<Rightarrow> json option" where
  "marshalFloat f = (if finite64 f then Some (JNumber f) else None)"

text \<open>All of a list of encodings, or the first failure.\<close>

fun sequence :: "'a option list \<Rightarrow> 'a list option" where
  "sequence [] = Some []"
| "sequence (None # rest) = None"
| "sequence (Some x # rest) = (case sequence rest of None \<Rightarrow> None | Some xs \<Rightarrow> Some (x # xs))"

definition marshalObject :: "(string \<times> json option) list \<Rightarrow> json option" where
  "marshalObject members =
     (case sequence (map snd members) of
        None \<Rightarrow> None
      | Some vs \<Rightarrow> Some (JObject (zip (map fst members) vs)))"

definition marshalRound :: "ConcurrencyResult \<Rightarrow> json option" where
  "marshalRound r =
     marshalObject
       [(''concurrency'', Some (JInt (ConcurrencyResult.Concurrency r))),
        (''generationThroughput'', marshalFloat (GenerationThroughput r)),
        (''promptThroughput'', marshalFloat (ConcurrencyResult.PromptThroughput r)),
        (''minTtft'', marshalFloat (MinTTFT r)),
        (''maxTtft'', marshalFloat (MaxTTFT r))]"

definition marshalRounds :: "ConcurrencyResult slice \<Rightarrow> json option" where
  "marshalRounds rs =
     (case rs of
        NilSlice \<Rightarrow> Some JNull
      | Slice xs \<Rightarrow> map_option JArray (sequence (map marshalRound xs)))"

definition marshalBenchmarkResult :: "BenchmarkResult option \<Rightarrow> json option" where
  "marshalBenchmarkResult b =
     (case b of
        None \<Rightarrow> Some JNull
      | Some r \<Rightarrow>
          marshalObject
            [(''model'', Some (JString (BenchmarkResult.Model r))),
             (''results'', marshalRounds (BenchmarkResult.Results r)),
             (''timestamp'', Some (JTime (BenchmarkResult.Timestamp r)))])"

definition marshalComparison :: "Comparison \<Rightarrow> json option" where
  "marshalComparison cmp =
     marshalObject
       [(''winner'', Some (JString (Winner cmp))),
        (''differences'',
           marshalObject (map (\<lambda>(metric, diff). (metric, marshalFloat diff)) (Differences cmp)))]"

text \<open>\<open>model2\<close> and \<open>comparison\<close> carry \<open>omitempty\<close>.\<close>

definition marshalResponse :: "ComparisonResponse \<Rightarrow> json option" where
  "marshalResponse r =
     marshalObject
       ([(''model1'', marshalBenchmarkResult (ComparisonResponse.Model1 r))] @
        (case ComparisonResponse.Model2 r of None \<Rightarrow> []
         | Some m2 \<Rightarrow> [(''model2'', marshalBenchmarkResult (Some m2))]) @
        (case ComparisonResponse.Comparison r of None \<Rightarrow> []
         | Some cmp \<Rightarrow> [(''comparison'', marshalComparison cmp)]))"

text \<open>
  \<open>json.Marshal\<close> of a value held in an \<open>interface{}\<close>. The object written from a map
  lists its members in the order of the association list; \<open>encoding/json\<close> writes them
  sorted by key, and the order of the members of an object carries no information.
\<close>

fun marshalValue :: "gvalue \<Rightarrow> json option"
  and marshalEntries :: "(string \<times> gvalue) list \<Rightarrow> (string \<times> json) list option"
  and marshalItems :: "gvalue list \<Rightarrow> json list option" where
  "marshalValue VNil = Some JNull"
| "marshalValue (VBool b) = Some (JBool b)"
| "marshalValue (VInt i) = Some (JInt i)"
| "marshalValue (VString s) = Some (JString s)"
| "marshalValue (VFloat64 f) = marshalFloat f"
| "marshalValue (VFloat32 f) = marshalFloat f"
| "marshalValue (VTime t) = Some (JTime t)"
| "marshalValue (VMap m) = map_option JObject (marshalEntries m)"
| "marshalValue (VSlice xs) = map_option JArray (marshalItems xs)"
| "marshalValue (VResults rs) = marshalRounds rs"
| "marshalValue (VResponse r) = marshalResponse r"
| "marshalEntries [] = Some []"
| "marshalEntries ((key, v) # rest) =
     (case marshalValue v of
        None \<Rightarrow> None
      | Some j \<Rightarrow> (case marshalEntries rest of None \<Rightarrow> None | Some js \<Rightarrow> Some ((key, j) # js)))"
| "marshalItems [] = Some []"
| "marshalItems (v # rest) =
     (case marshalValue v of
        None \<Rightarrow> None
      | Some j \<Rightarrow> (case marshalItems rest of None \<Rightarrow> None | Some js \<Rightarrow> Some (j # js)))"

definition marshalModel :: "Model \<Rightarrow> json" where
  "marshalModel m =
     JObject ([(''id'', JString (Model.ID m)), (''name'', JString (Model.Name m)),
               (''provider'', JString (Provider m)), (''baseUrl'', JString (BaseURL m))] @
              (if APIKey m = [] then [] else [(''apiKey'', JString (APIKey m))]))"

definition marshalRequest :: "BenchmarkRequest \<Rightarrow> json" where
  "marshalRequest req =
     JObject ([(''model1'', marshalModel (BenchmarkRequest.Model1 req)),
               (''model2'', (case BenchmarkRequest.Model2 req of None \<Rightarrow> JNull
                             | Some m2 \<Rightarrow> marshalModel m2)),
               (''concurrencyLevels'', (case ConcurrencyLevels req of NilSlice \<Rightarrow> JNull
                                        | Slice levels \<Rightarrow> JArray (map JInt levels))),
               (''maxTokens'', JInt (MaxTokens req)),
               (''prompt'', JString (Prompt req))] @
              (if NumWords req = 0 then [] else [(''numWords'', JInt (NumWords req))]))"

text \<open>\<open>json.Marshal\<close> of a \<open>SimpleJob\<close>, following its field tags.\<close>

definition marshalJob :: "SimpleJob \<Rightarrow> json option" where
  "marshalJob job =
     marshalObject
       ([(''id'', Some (JString (SimpleJob.ID job))),
         (''status'', Some (JString (SimpleJob.Status job))),
         (''progress'', Some (JInt (SimpleJob.Progress job))),
         (''message'', Some (JString (SimpleJob.Message job)))] @
        (if Result job = VNil then [] else [(''result'', marshalValue (Result job))]) @
        (if SimpleJob.Error job = [] then [] else [(''error'', Some (JString (SimpleJob.Error job)))]) @
        [(''createdAt'', Some (JTime (SimpleJob.CreatedAt job)))] @
        (case SimpleJob.CompletedAt job of None \<Rightarrow> []
         | Some t \<Rightarrow> [(''completedAt'', Some (JTime t))]) @
        [(''request'', Some (marshalRequest (SimpleJob.Request job)))])"

subsection \<open>The sanitizers of \<open>simple_job_manager.go\<close>\<close>

definition sanitizeFloatValue :: "gvalue \<Rightarrow> gvalue" where
  "sanitizeFloatValue v =
     (case v of
        VFloat64 f \<Rightarrow> if IsNaN f \<or> IsInf f 0 then VNil else v
      | VFloat32 f \<Rightarrow> if IsNaN f \<or> IsInf f 0 then VNil else v
      | _ \<Rightarrow> v)"

text \<open>
  \<open>sanitizeBenchmarkResult\<close> walks a \<open>map[string]interface{}\<close>; \<open>sanitizeArray\<close> is its
  inner loop over a \<open>[]interface{}\<close>, which descends into the maps among the items
  only.
\<close>

fun sanitizeBenchmarkResult :: "(string \<times> gvalue) list \<Rightarrow> (string \<times> gvalue) list"
  and sanitizeArray :: "gvalue list \<Rightarrow> gvalue list" where
  "sanitizeBenchmarkResult [] = []"
| "sanitizeBenchmarkResult ((key, VMap v) # rest) =
     (key, VMap (sanitizeBenchmarkResult v)) # sanitizeBenchmarkResult rest"
| "sanitizeBenchmarkResult ((key, VSlice v) # rest) =
     (key, VSlice (sanitizeArray v)) # sanitizeBenchmarkResult rest"
| "sanitizeBenchmarkResult ((key, value) # rest) =
     (key, sanitizeFloatValue value) # sanitizeBenchmarkResult rest"
| "sanitizeArray [] = []"
| "sanitizeArray (VMap itemMap # rest) = VMap (sanitizeBenchmarkResult itemMap) # sanitizeArray rest"
| "sanitizeArray (item # rest) = sanitizeFloatValue item # sanitizeArray rest"

text \<open>
  \<open>sanitizeAnyValue\<close>. An integer converted to \<open>float64\<close> is never infinite, so the
  integer cases return their argument. The \<open>default\<close> case compares the \<open>%v\<close> text of
  the value with \<open>+Inf\<close>, \<open>-Inf\<close>, \<open>Inf\<close> and \<open>NaN\<close>: a string prints as itself, and the
  text of a boolean, an instant, a slice of structs or a struct is none of the four.
\<close>

fun sanitizeAnyValue :: "gvalue \<Rightarrow> gvalue"
  and sanitizeAnyEntries :: "(string \<times> gvalue) list \<Rightarrow> (string \<times> gvalue) list"
  and sanitizeAnyItems :: "gvalue list \<Rightarrow> gvalue list" where
  "sanitizeAnyValue VNil = VNil"
| "sanitizeAnyValue (VMap v) = VMap (sanitizeAnyEntries v)"
| "sanitizeAnyValue (VSlice v) = VSlice (sanitizeAnyItems v)"
| "sanitizeAnyValue (VFloat64 f) = (if IsNaN f \<or> IsInf f 0 then VNil else VFloat64 f)"
| "sanitizeAnyValue (VFloat32 f) = (if IsNaN f \<or> IsInf f 0 then VNil else VFloat32 f)"
| "sanitizeAnyValue (VInt i) = VInt i"
| "sanitizeAnyValue (VString str) =
     (if str = ''+Inf'' \<or> str = ''-Inf'' \<or> str = ''Inf'' \<or> str = ''NaN'' then VNil else VString str)"
| "sanitizeAnyValue v = v"
| "sanitizeAnyEntries [] = []"
| "sanitizeAnyEntries ((key, val) # rest) = (key, sanitizeAnyValue val) # sanitizeAnyEntries rest"
| "sanitizeAnyItems [] = []"
| "sanitizeAnyItems (item # rest) = sanitizeAnyValue item # sanitizeAnyItems rest"

subsection \<open>\<open>ToJSON\<close>\<close>

definition zeroModel :: Model where
  "zeroModel = \<lparr>Model.ID = [], Name = [], Provider = [], BaseURL = [], APIKey = []\<rparr>"

definition zeroRequest :: BenchmarkRequest where
  "zeroRequest = \<lparr>BenchmarkRequest.Model1 = zeroModel, BenchmarkRequest.Model2 = None,
                   ConcurrencyLevels = NilSlice, MaxTokens = 0, Prompt = [], NumWords = 0\<rparr>"

text \<open>The last resort of \<open>ToJSON\<close>: the job without its result, and with the zero value
  of \<open>BenchmarkRequest\<close> for its request.\<close>

definition minimalJob :: "SimpleJob \<Rightarrow> SimpleJob" where
  "minimalJob job =
     \<lparr>SimpleJob.ID = SimpleJob.ID job, SimpleJob.Status = SimpleJob.Status job,
      SimpleJob.Progress = SimpleJob.Progress job, SimpleJob.Message = SimpleJob.Message job,
      Result = VNil,
      SimpleJob.Error = ''Results contain invalid values and could not be serialized'',
      SimpleJob.CreatedAt = SimpleJob.CreatedAt job,
      SimpleJob.CompletedAt = SimpleJob.CompletedAt job,
      SimpleJob.Request = zeroRequest, ctx = None, cancelFunc = None\<rparr>"

text \<open>\<open>ToJSON\<close> returns \<open>(data, err)\<close>: \<open>Some data\<close> when \<open>err\<close> is \<open>nil\<close>.\<close>

definition ToJSON :: "SimpleJob \<Rightarrow> json option" where
  "ToJSON job =
     (let jobCopy = (case Result job of
                       VMap resultMap \<Rightarrow> job\<lparr>Result := VMap (sanitizeBenchmarkResult resultMap)\<rparr>
                     | _ \<Rightarrow> job)
      in case marshalJob jobCopy of
           Some data \<Rightarrow> Some data
         | None \<Rightarrow>
             (case marshalJob (job\<lparr>Result := sanitizeAnyValue (Result job)\<rparr>) of
                Some data \<Rightarrow> Some data
              | None \<Rightarrow> marshalJob (minimalJob job)))"

text \<open>A payload none of whose numbers is NaN or infinite.\<close>

fun finiteJson :: "json \<Rightarrow> bool"
  and finiteMembers :: "(string \<times> json) list \<Rightarrow> bool"
  and finiteElements :: "json list \<Rightarrow> bool" where
  "finiteJson (JNumber f) = finite64 f"
| "finiteJson (JArray xs) = finiteElements xs"
| "finiteJson (JObject m) = finiteMembers m"
| "finiteJson j = True"
| "finiteMembers [] = True"
| "finiteMembers ((key, j) # rest) = (finiteJson j \<and> finiteMembers rest)"
| "finiteElements [] = True"
| "finiteElements (j # rest) = (finiteJson j \<and> finiteElements rest)"

subsection \<open>\<open>sanitizeFloat\<close> of \<open>handlers.go\<close>\<close>

text \<open>\<open>math.MaxFloat64\<close>.\<close>

definition MaxFloat64 :: real where
  "MaxFloat64 = (2 ^ 53 - 1) * 2 ^ 971"

definition sanitizeFloat :: "float64 \<Rightarrow> float64" where
  "sanitizeFloat v =
     (if IsInf v 1 then Finite MaxFloat64
      else if IsInf v (- 1) then Finite 0
      else if IsNaN v then Finite 0
      else v)"

text \<open>The record \<open>runSingleBenchmarkWithContext\<close> appends for a round that returned
  \<open>result\<close>.\<close>

definition sanitizedRound :: "int \<Rightarrow> SpeedResult \<Rightarrow> ConcurrencyResult" where
  "sanitizedRound concurrency result =
     \<lparr>ConcurrencyResult.Concurrency = concurrency,
      GenerationThroughput = sanitizeFloat (GenerationSpeed result),
      ConcurrencyResult.PromptThroughput = sanitizeFloat (SpeedResult.PromptThroughput result),
      MinTTFT = sanitizeFloat (MinTtft result),
      MaxTTFT = sanitizeFloat (MaxTtft result)\<rparr>"

section \<open>Example inputs\<close>

definition exampleModel :: Model where
  "exampleModel = \<lparr>Model.ID = ''modelA'', Name = ''modelA'', Provider = ''OpenAI'',
                    BaseURL = ''http://localhost:8000/v1'', APIKey = ''key''\<rparr>"

text \<open>The request of the spec's scenario: one model, levels 1 and 2, 50 tokens.\<close>

definition exampleRequest :: BenchmarkRequest where
  "exampleRequest = \<lparr>BenchmarkRequest.Model1 = exampleModel, BenchmarkRequest.Model2 = None,
                      ConcurrencyLevels = Slice [1, 2], MaxTokens = 50, Prompt = ''hello'',
                      NumWords = 0\<rparr>"

text \<open>An SSE registry with one job whose run has stored its context.\<close>

definition runningManager :: SimpleJobManager where
  "runningManager = SetJobContext ''job-1'' 1 (CreateJob ''job-1'' 0 exampleRequest NewSimpleJobManager)"

text \<open>A WebSocket registry with one job, as created and as started.\<close>

definition queuedManager :: JobManager where
  "queuedManager = snd (JM_CreateJob ''job-1'' 0 exampleRequest (NewJobManager []))"

definition startedManager :: JobManager where
  "startedManager = snd (StartJob ''job-1'' 1 queuedManager)"

text \<open>A world in which a user cancels \<open>job-1\<close> just before the first round's
  cancellation check, and the registry \<open>StartBenchmark\<close> hands to \<open>RunBenchmark\<close>.\<close>

definition cancelWorld :: world where
  "cancelWorld = \<lparr>vcapServices = True, MeasureLatency = Inr (Finite 0),
                   getAPIKeyForModel = (\<lambda>m. ''key''), Run = (\<lambda>k. Inl ''connection refused''),
                   others = (\<lambda>p jm. if p = 1 then snd (CancelJob ''job-1'' 5 jm) else jm)\<rparr>"

definition createdManager :: SimpleJobManager where
  "createdManager = CreateJob ''job-1'' 0 exampleRequest NewSimpleJobManager"

text \<open>A world for \<open>executeJob\<close> in which nothing else happens.\<close>

definition idleWorld :: asyncWorld where
  "idleWorld = \<lparr>runRound = (\<lambda>k. Inl ''connection refused''), clock = (\<lambda>t. 10 + int t),
                 interleaved = (\<lambda>t jm. jm)\<rparr>"

section \<open>Sequences of manager operations\<close>

datatype operation =
    OpCreateJob string int BenchmarkRequest
  | OpSetJobContext string nat
  | OpUpdateJobProgress string int string
  | OpCompleteJob string gvalue int
  | OpFailJob string string int
  | OpCancelJob string int
  | OpAddJob string nat
  | OpRemoveJob string
  | OpCleanupOldJobs int

fun perform :: "operation \<Rightarrow> SimpleJobManager \<Rightarrow> SimpleJobManager" where
  "perform (OpCreateJob jobID now request) jm = CreateJob jobID now request jm"
| "perform (OpSetJobContext jobID c) jm = SetJobContext jobID c jm"
| "perform (OpUpdateJobProgress jobID progress message) jm = UpdateJobProgress jobID progress message jm"
| "perform (OpCompleteJob jobID result now) jm = CompleteJob jobID result now jm"
| "perform (OpFailJob jobID errorMsg now) jm = FailJob jobID errorMsg now jm"
| "perform (OpCancelJob jobID now) jm = snd (CancelJob jobID now jm)"
| "perform (OpAddJob jobID c) jm = AddJob jobID c jm"
| "perform (OpRemoveJob jobID) jm = RemoveJob jobID jm"
| "perform (OpCleanupOldJobs now) jm = CleanupOldJobs now jm"

fun performAll :: "operation list \<Rightarrow> SimpleJobManager \<Rightarrow> SimpleJobManager" where
  "performAll [] jm = jm"
| "performAll (op # ops) jm = performAll ops (perform op jm)"

fun isAddJob :: "operation \<Rightarrow> bool" where
  "isAddJob (OpAddJob jobID c) = True"
| "isAddJob _ = False"

datatype asyncOperation =
    AsyncCreateJob string int BenchmarkRequest
  | AsyncStartJob string int
  | AsyncCancelJob string int
  | AsyncExecuteJob asyncWorld string nat
  | AsyncCleanupOldJobs int int

fun performAsync :: "asyncOperation \<Rightarrow> JobManager \<Rightarrow> JobManager" where
  "performAsync (AsyncCreateJob jobID now request) jm = snd (JM_CreateJob jobID now request jm)"
| "performAsync (AsyncStartJob jobID now) jm = snd (StartJob jobID now jm)"
| "performAsync (AsyncCancelJob jobID now) jm = snd (JM_CancelJob jobID now jm)"
| "performAsync (AsyncExecuteJob w jobID t) jm = snd (executeJob w jobID t jm)"
| "performAsync (AsyncCleanupOldJobs now maxAge) jm = snd (JM_CleanupOldJobs now maxAge jm)"

fun performAllAsync :: "asyncOperation list \<Rightarrow> JobManager \<Rightarrow> JobManager" where
  "performAllAsync [] jm = jm"
| "performAllAsync (op # ops) jm = performAllAsync ops (performAsync op jm)"

text \<open>The property of claim C10 for one job: the completion timestamp is set exactly
  when the status is terminal.\<close>

definition stamped :: "SimpleJob \<Rightarrow> bool" where
  "stamped job = ((SimpleJob.CompletedAt job \<noteq> None) = terminal (SimpleJob.Status job))"

definition allStamped :: "SimpleJobManager \<Rightarrow> bool" where
  "allStamped jm = list_all (\<lambda>(jobID, job). stamped job) (SimpleJobManager.jobs jm)"

definition stampedAsync :: "BenchmarkJob \<Rightarrow> bool" where
  "stampedAsync job = ((BenchmarkJob.CompletedAt job \<noteq> None) = terminal (BenchmarkJob.Status job))"

definition allStampedAsync :: "JobManager \<Rightarrow> bool" where
  "allStampedAsync jm = list_all (\<lambda>(jobID, job). stampedAsync job) (jobs jm)"

text \<open>What the other goroutines do while \<open>executeJob\<close> runs keeps the property.\<close>

fun respectful :: "asyncOperation \<Rightarrow> bool" where
  "respectful (AsyncExecuteJob w jobID t) =
     (\<forall>p jm. allStampedAsync jm \<longrightarrow> allStampedAsync (interleaved w p jm))"
| "respectful _ = True"

definition statusOf :: "JobManager \<Rightarrow> string \<Rightarrow> string option" where
  "statusOf jm jobID = map_option BenchmarkJob.Status (map_of (jobs jm) jobID)"

definition sseStatusOf :: "SimpleJobManager \<Rightarrow> string \<Rightarrow> string option" where
  "sseStatusOf jm jobID = map_option SimpleJob.Status (map_of (SimpleJobManager.jobs jm) jobID)"

text \<open>
  Claim C7 in the spec's words: the declared ranges are violated when some
  concurrency level is outside \<open>1..100\<close> or the list is empty, \<open>maxTokens\<close> is outside
  \<open>1..4096\<close>, the prompt is empty or longer than 10000, or a nonzero \<open>numWords\<close> is
  outside \<open>10..10000\<close>.
\<close>

definition declaredRangesViolated :: "BenchmarkRequest \<Rightarrow> bool" where
  "declaredRangesViolated req =
     (list_ex (\<lambda>c. c < 1 \<or> c > 100) (elems (ConcurrencyLevels req)) \<or>
      elems (ConcurrencyLevels req) = [] \<or>
      MaxTokens req < 1 \<or> MaxTokens req > 4096 \<or>
      Prompt req = [] \<or> length (Prompt req) > 10000 \<or>
      (NumWords req \<noteq> 0 \<and> (NumWords req < 10 \<or> NumWords req > 10000)))"

text \<open>Two requests: one asks for \<open>-5\<close> random words, one names no model id.\<close>

definition negativeWordsRequest :: BenchmarkRequest where
  "negativeWordsRequest = exampleRequest\<lparr>NumWords := - 5\<rparr>"

definition anonymousRequest :: BenchmarkRequest where
  "anonymousRequest = exampleRequest\<lparr>BenchmarkRequest.Model1 := exampleModel\<lparr>Model.ID := []\<rparr>\<rparr>"

section \<open>Sequences of tracker calls\<close>

datatype trackerCall =
    CallUpdateProgress int int string int string
  | CallSetStatus int string string
  | CallComplete int "ComparisonResponse option"
  | CallFail int string string
  | CallCancel int string

text \<open>The tracker and hub that a call leaves, whether it returns or not.\<close>

fun call :: "trackerCall \<Rightarrow> ProgressTracker \<times> Hub \<Rightarrow> ProgressTracker \<times> Hub" where
  "call (CallUpdateProgress now step model concurrency currentStep) (pt, h) =
     snd (UpdateProgress now step model concurrency currentStep pt h)"
| "call (CallSetStatus now status message) (pt, h) = snd (SetStatus now status message pt h)"
| "call (CallComplete now results) (pt, h) = snd (Complete now results pt h)"
| "call (CallFail now errorMsg details) (pt, h) = snd (Fail now errorMsg details pt h)"
| "call (CallCancel now reason) (pt, h) = snd (Cancel now reason pt h)"

fun callAll :: "trackerCall list \<Rightarrow> ProgressTracker \<times> Hub \<Rightarrow> ProgressTracker \<times> Hub" where
  "callAll [] s = s"
| "callAll (c # cs) s = callAll cs (call c s)"

text \<open>A clock reading that is at least one second after Go's zero time, as every
  reading of a real clock is.\<close>

definition wallClock :: "int \<Rightarrow> bool" where
  "wallClock now = (zeroTime + Second \<le> now)"

text \<open>The progress messages of a job among those handed to the hub.\<close>

definition progressMessages :: "string \<Rightarrow> Hub \<Rightarrow> WebSocketMessage list" where
  "progressMessages jobID h =
     filter (\<lambda>m. Type m = MessageTypeProgress \<and> WebSocketMessage.JobID m = jobID) h"

text \<open>A result whose prompt throughput is \<open>+Inf\<close>, as a round answered within five
  milliseconds gives.\<close>

definition instantRound :: ConcurrencyResult where
  "instantRound = \<lparr>ConcurrencyResult.Concurrency = 1, GenerationThroughput = Finite 20,
                    ConcurrencyResult.PromptThroughput = PosInf, MinTTFT = Finite 0, MaxTTFT = Finite 0\<rparr>"

text \<open>
  The tracker of \<open>job-1\<close> as its first progress update leaves it, and a world for
  \<open>executeJob\<close> in which every round succeeds and nothing else happens.
\<close>

definition stuckTracker :: ProgressTracker where
  "stuckTracker = (NewProgressTracker ''job-1'' 2 0)\<lparr>ProgressTracker.mutex := Locked,
                                                       CurrentModel := ''modelA''\<rparr>"

definition steadySpeed :: SpeedResult where
  "steadySpeed = \<lparr>SpeedResult.Concurrency = 1, GenerationSpeed = Finite 20,
                   SpeedResult.PromptThroughput = Finite 100, MaxTtft = Finite 0.5, MinTtft = Finite 0.25\<rparr>"

definition steadyWorld :: asyncWorld where
  "steadyWorld = \<lparr>runRound = (\<lambda>k. Inr steadySpeed), clock = (\<lambda>t. 10 + int t),
                   interleaved = (\<lambda>t jm. jm)\<rparr>"

text \<open>
  The registry after the goroutine of \<open>job-1\<close> has run as far as it gets in that
  world, and after a user has then asked to cancel the job.
\<close>

definition stuckManager :: JobManager where
  "stuckManager = snd (executeJob steadyWorld ''job-1'' 0 startedManager)"

definition deadlockedManager :: JobManager where
  "deadlockedManager = snd (JM_CancelJob ''job-1'' 20 stuckManager)"

text \<open>The status message that \<open>executeJob\<close> broadcasts first.\<close>

definition startedMessage :: WebSocketMessage where
  "startedMessage =
     NewStatusMessage ''job-1'' 10
       \<lparr>StatusUpdate.JobID = ''job-1'', StatusUpdate.Status = ''running'',
        StatusUpdate.Message = ''Benchmark started'', CreatedAt = 0, UpdatedAt = 10\<rparr>"


section \<open>The payload the spec asks for\<close>

text \<open>
  Claim C4 in the spec's words: the encoding of a result in which each float that is
  NaN or infinite is \<open>null\<close> and every other value is written as it is.
\<close>

definition nullFloat :: "float64 \<Rightarrow> json" where
  "nullFloat f = (if finite64 f then JNumber f else JNull)"

definition nulledRound :: "ConcurrencyResult \<Rightarrow> json" where
  "nulledRound r =
     JObject [(''concurrency'', JInt (ConcurrencyResult.Concurrency r)),
              (''generationThroughput'', nullFloat (GenerationThroughput r)),
              (''promptThroughput'', nullFloat (ConcurrencyResult.PromptThroughput r)),
              (''minTtft'', nullFloat (MinTTFT r)),
              (''maxTtft'', nullFloat (MaxTTFT r))]"

definition nulledRounds :: "ConcurrencyResult slice \<Rightarrow> json" where
  "nulledRounds rs = (case rs of NilSlice \<Rightarrow> JNull | Slice xs \<Rightarrow> JArray (map nulledRound xs))"

definition nulledBenchmarkResult :: "BenchmarkResult option \<Rightarrow> json" where
  "nulledBenchmarkResult b =
     (case b of
        None \<Rightarrow> JNull
      | Some r \<Rightarrow> JObject [(''model'', JString (BenchmarkResult.Model r)),
                           (''results'', nulledRounds (BenchmarkResult.Results r)),
                           (''timestamp'', JTime (BenchmarkResult.Timestamp r))])"

definition nulledComparison :: "Comparison \<Rightarrow> json" where
  "nulledComparison cmp =
     JObject [(''winner'', JString (Winner cmp)),
              (''differences'', JObject (map (\<lambda>(metric, diff). (metric, nullFloat diff)) (Differences cmp)))]"

definition nulledResponse :: "ComparisonResponse \<Rightarrow> json" where
  "nulledResponse r =
     JObject ([(''model1'', nulledBenchmarkResult (ComparisonResponse.Model1 r))] @
              (case ComparisonResponse.Model2 r of None \<Rightarrow> []
               | Some m2 \<Rightarrow> [(''model2'', nulledBenchmarkResult (Some m2))]) @
              (case ComparisonResponse.Comparison r of None \<Rightarrow> []
               | Some cmp \<Rightarrow> [(''comparison'', nulledComparison cmp)]))"

fun nulled :: "gvalue \<Rightarrow> json"
  and nulledEntries :: "(string \<times> gvalue) list \<Rightarrow> (string \<times> json) list"
  and nulledItems :: "gvalue list \<Rightarrow> json list" where
  "nulled VNil = JNull"
| "nulled (VBool b) = JBool b"
| "nulled (VInt i) = JInt i"
| "nulled (VString s) = JString s"
| "nulled (VFloat64 f) = nullFloat f"
| "nulled (VFloat32 f) = nullFloat f"
| "nulled (VTime t) = JTime t"
| "nulled (VMap m) = JObject (nulledEntries m)"
| "nulled (VSlice xs) = JArray (nulledItems xs)"
| "nulled (VResults rs) = nulledRounds rs"
| "nulled (VResponse r) = nulledResponse r"
| "nulledEntries [] = []"
| "nulledEntries ((key, v) # rest) = (key, nulled v) # nulledEntries rest"
| "nulledItems [] = []"
| "nulledItems (v # rest) = nulled v # nulledItems rest"

text \<open>
  The field \<open>result\<close> carries \<open>omitempty\<close>: a result that is \<open>nil\<close>, or that is itself such
  a float, leaves no member in the payload.
\<close>

fun leftOut :: "gvalue \<Rightarrow> bool" where
  "leftOut VNil = True"
| "leftOut (VFloat64 f) = (\<not> finite64 f)"
| "leftOut (VFloat32 f) = (\<not> finite64 f)"
| "leftOut v = False"

text \<open>
  The payload of a job around the members that stand for its result, the payload with
  the floats of the result replaced in this way, and the reduced payload.
\<close>

definition payloadWith :: "SimpleJob \<Rightarrow> (string \<times> json) list \<Rightarrow> json" where
  "payloadWith job result =
     JObject ([(''id'', JString (SimpleJob.ID job)),
               (''status'', JString (SimpleJob.Status job)),
               (''progress'', JInt (SimpleJob.Progress job)),
               (''message'', JString (SimpleJob.Message job))] @
              result @
              (if SimpleJob.Error job = [] then [] else [(''error'', JString (SimpleJob.Error job))]) @
              [(''createdAt'', JTime (SimpleJob.CreatedAt job))] @
              (case SimpleJob.CompletedAt job of None \<Rightarrow> [] | Some t \<Rightarrow> [(''completedAt'', JTime t)]) @
              [(''request'', marshalRequest (SimpleJob.Request job))])"

definition nulledPayload :: "SimpleJob \<Rightarrow> json" where
  "nulledPayload job =
     payloadWith job (if leftOut (Result job) then [] else [(''result'', nulled (Result job))])"

definition reducedPayload :: "SimpleJob \<Rightarrow> json" where
  "reducedPayload job =
     JObject ([(''id'', JString (SimpleJob.ID job)),
               (''status'', JString (SimpleJob.Status job)),
               (''progress'', JInt (SimpleJob.Progress job)),
               (''message'', JString (SimpleJob.Message job)),
               (''error'', JString ''Results contain invalid values and could not be serialized''),
               (''createdAt'', JTime (SimpleJob.CreatedAt job))] @
              (case SimpleJob.CompletedAt job of None \<Rightarrow> [] | Some t \<Rightarrow> [(''completedAt'', JTime t)]) @
              [(''request'',
                JObject [(''model1'', JObject [(''id'', JString []), (''name'', JString []),
                                               (''provider'', JString []), (''baseUrl'', JString [])]),
                         (''model2'', JNull), (''concurrencyLevels'', JNull),
                         (''maxTokens'', JInt 0), (''prompt'', JString [])])])"

text \<open>
  The floats that no sanitizer reaches are those inside the typed structs
  (\<open>[]ConcurrencyResult\<close>, \<open>ComparisonResponse\<close>); \<open>typedFinite v\<close> says that all of them
  are finite in \<open>v\<close>. \<open>plainText v\<close> says that no string in \<open>v\<close> is spelled like a float
  that is not finite.
\<close>

fun typedFinite :: "gvalue \<Rightarrow> bool"
  and typedFiniteEntries :: "(string \<times> gvalue) list \<Rightarrow> bool"
  and typedFiniteItems :: "gvalue list \<Rightarrow> bool" where
  "typedFinite (VMap m) = typedFiniteEntries m"
| "typedFinite (VSlice xs) = typedFiniteItems xs"
| "typedFinite (VResults rs) = list_all finiteRound (elems rs)"
| "typedFinite (VResponse r) = finiteResponse r"
| "typedFinite v = True"
| "typedFiniteEntries [] = True"
| "typedFiniteEntries ((key, v) # rest) = (typedFinite v \<and> typedFiniteEntries rest)"
| "typedFiniteItems [] = True"
| "typedFiniteItems (v # rest) = (typedFinite v \<and> typedFiniteItems rest)"

fun plainText :: "gvalue \<Rightarrow> bool"
  and plainTextEntries :: "(string \<times> gvalue) list \<Rightarrow> bool"
  and plainTextItems :: "gvalue list \<Rightarrow> bool" where
  "plainText (VString str) = (str \<noteq> ''+Inf'' \<and> str \<noteq> ''-Inf'' \<and> str \<noteq> ''Inf'' \<and> str \<noteq> ''NaN'')"
| "plainText (VMap m) = plainTextEntries m"
| "plainText (VSlice xs) = plainTextItems xs"
| "plainText v = True"
| "plainTextEntries [] = True"
| "plainTextEntries ((key, v) # rest) = (plainText v \<and> plainTextEntries rest)"
| "plainTextItems [] = True"
| "plainTextItems (v # rest) = (plainText v \<and> plainTextItems rest)"

text \<open>The result \<open>RunBenchmark\<close> stores for a round answered within five milliseconds,
  and the job that carries it.\<close>

definition instantResult :: gvalue where
  "instantResult = finalResult (exampleRequest\<lparr>ConcurrencyLevels := Slice [1]\<rparr>) (Finite 0)
                     (Slice [instantRound]) NilSlice"

definition instantJob :: SimpleJob where
  "instantJob = \<lparr>SimpleJob.ID = ''job-1'', SimpleJob.Status = ''completed'', SimpleJob.Progress = 100,
                  SimpleJob.Message = ''Benchmark completed successfully'', Result = instantResult,
                  SimpleJob.Error = [], SimpleJob.CreatedAt = 0, SimpleJob.CompletedAt = Some 9,
                  SimpleJob.Request = exampleRequest\<lparr>ConcurrencyLevels := Slice [1]\<rparr>,
                  ctx = Some 1, cancelFunc = Some 1\<rparr>"

text \<open>A job whose result holds its floats directly in a map.\<close>

definition looseJob :: SimpleJob where
  "looseJob = instantJob\<lparr>Result := VMap [(''latency'', VFloat64 NaN), (''speed'', VFloat64 (Finite 20)),
                                          (''history'', VSlice [VSlice [VFloat64 PosInf]])]\<rparr>"

text \<open>A job that carries the result \<open>RunBenchmark\<close> stores for a round of ordinary
  speed.\<close>

definition steadyRound :: ConcurrencyResult where
  "steadyRound = \<lparr>ConcurrencyResult.Concurrency = 1, GenerationThroughput = Finite 20,
                   ConcurrencyResult.PromptThroughput = Finite 100, MinTTFT = Finite 0.25,
                   MaxTTFT = Finite 0.5\<rparr>"

definition steadyJob :: SimpleJob where
  "steadyJob = instantJob\<lparr>Result := finalResult (exampleRequest\<lparr>ConcurrencyLevels := Slice [1]\<rparr>)
                                       (Finite 0.05) (Slice [steadyRound]) NilSlice\<rparr>"

text \<open>What \<open>SpeedMeasurement.Run\<close> returns for such a round.\<close>

definition instantSpeed :: SpeedResult where
  "instantSpeed = \<lparr>SpeedResult.Concurrency = 1, GenerationSpeed = Finite 20,
                    SpeedResult.PromptThroughput = PosInf, MaxTtft = Finite 0, MinTtft = Finite 0\<rparr>"

section \<open>The example registries\<close>

lemma runningManager_job:
  "map_of (SimpleJobManager.jobs runningManager) ''job-1'' =
     Some \<lparr>SimpleJob.ID = ''job-1'', SimpleJob.Status = ''running'', SimpleJob.Progress = 0,
           SimpleJob.Message = ''Starting benchmark...'', Result = VNil, SimpleJob.Error = [],
           SimpleJob.CreatedAt = 0, SimpleJob.CompletedAt = None, SimpleJob.Request = exampleRequest,
           ctx = Some 1, cancelFunc = Some 1\<rparr>"
  by (simp add: runningManager_def SetJobContext_def CreateJob_def NewSimpleJobManager_def)

lemma runningManager_count: "activeJobCount runningManager = 1"
  by (simp add: runningManager_def SetJobContext_def CreateJob_def NewSimpleJobManager_def)

lemma createdManager_job:
  "map_of (SimpleJobManager.jobs createdManager) ''job-1'' =
     Some \<lparr>SimpleJob.ID = ''job-1'', SimpleJob.Status = ''running'', SimpleJob.Progress = 0,
           SimpleJob.Message = ''Starting benchmark...'', Result = VNil, SimpleJob.Error = [],
           SimpleJob.CreatedAt = 0, SimpleJob.CompletedAt = None, SimpleJob.Request = exampleRequest,
           ctx = None, cancelFunc = None\<rparr>"
  by (simp add: createdManager_def CreateJob_def NewSimpleJobManager_def)

lemma queuedManager_value:
  "queuedManager =
     \<lparr>jobs = [(''job-1'',
         \<lparr>BenchmarkJob.ID = ''job-1'', BenchmarkJob.Status = ''queued'',
          BenchmarkJob.Request = exampleRequest,
          BenchmarkJob.Progress = NewProgressTracker ''job-1'' 2 0,
          BenchmarkJob.Results = None, BenchmarkJob.Error = None, BenchmarkJob.CreatedAt = 0,
          StartedAt = None, BenchmarkJob.CompletedAt = None, cancelChan = 0\<rparr>)],
      mutex = Unlocked, hub = []\<rparr>"
  by (simp add: queuedManager_def JM_CreateJob_def NewJobManager_def totalStepsOf_def exampleRequest_def)

lemma startedManager_value:
  "startedManager =
     \<lparr>jobs = [(''job-1'',
         \<lparr>BenchmarkJob.ID = ''job-1'', BenchmarkJob.Status = ''running'',
          BenchmarkJob.Request = exampleRequest,
          BenchmarkJob.Progress = NewProgressTracker ''job-1'' 2 0,
          BenchmarkJob.Results = None, BenchmarkJob.Error = None, BenchmarkJob.CreatedAt = 0,
          StartedAt = Some 1, BenchmarkJob.CompletedAt = None, cancelChan = 0\<rparr>)],
      mutex = Unlocked, hub = []\<rparr>"
  by (simp add: startedManager_def StartJob_def queuedManager_value)

lemma queuedManager_job:
  "map_of (jobs queuedManager) ''job-1'' =
     Some \<lparr>BenchmarkJob.ID = ''job-1'', BenchmarkJob.Status = ''queued'',
           BenchmarkJob.Request = exampleRequest,
           BenchmarkJob.Progress = NewProgressTracker ''job-1'' 2 0,
           BenchmarkJob.Results = None, BenchmarkJob.Error = None, BenchmarkJob.CreatedAt = 0,
           StartedAt = None, BenchmarkJob.CompletedAt = None, cancelChan = 0\<rparr>"
  by (simp add: queuedManager_value)

lemma startedManager_job:
  "map_of (jobs startedManager) ''job-1'' =
     Some \<lparr>BenchmarkJob.ID = ''job-1'', BenchmarkJob.Status = ''running'',
           BenchmarkJob.Request = exampleRequest,
           BenchmarkJob.Progress = NewProgressTracker ''job-1'' 2 0,
           BenchmarkJob.Results = None, BenchmarkJob.Error = None, BenchmarkJob.CreatedAt = 0,
           StartedAt = Some 1, BenchmarkJob.CompletedAt = None, cancelChan = 0\<rparr>"
  by (simp add: startedManager_value)

lemma Sub_zeroTime: "wallClock now \<Longrightarrow> Sub now zeroTime \<ge> Second"
  by (simp add: wallClock_def Sub_def Let_def zeroTime_def Second_def maxDuration_def minDuration_def)

lemma stuckManager_value:
  "executeJob steadyWorld ''job-1'' 0 startedManager =
     (Blocked,
      \<lparr>jobs = [(''job-1'',
         \<lparr>BenchmarkJob.ID = ''job-1'', BenchmarkJob.Status = ''running'',
          BenchmarkJob.Request = exampleRequest,
          BenchmarkJob.Progress = stuckTracker,
          BenchmarkJob.Results = None, BenchmarkJob.Error = None, BenchmarkJob.CreatedAt = 0,
          StartedAt = Some 1, BenchmarkJob.CompletedAt = None, cancelChan = 0\<rparr>)],
       mutex = Unlocked, hub = [startedMessage]\<rparr>)"
  by (simp add: executeJob_def startedManager_value onProgress_def SetStatus_def Let_def
      NewProgressTracker_def broadcastStatus_def BroadcastIfEncoded_def encodes_def
      runBenchmarkWithProgress_def cancelSignalled_def steadyWorld_def UpdateProgress_def
      broadcastProgress_def GetProgress_def Sub_def zeroTime_def Second_def maxDuration_def
      minDuration_def exampleRequest_def exampleModel_def stuckTracker_def startedMessage_def
      NewStatusMessage_def)

lemma deadlockedManager_value:
  "JM_CancelJob ''job-1'' 20 stuckManager =
     (Blocked,
      \<lparr>jobs = [(''job-1'',
         \<lparr>BenchmarkJob.ID = ''job-1'', BenchmarkJob.Status = ''cancelled'',
          BenchmarkJob.Request = exampleRequest,
          BenchmarkJob.Progress = stuckTracker,
          BenchmarkJob.Results = None, BenchmarkJob.Error = None, BenchmarkJob.CreatedAt = 0,
          StartedAt = Some 1, BenchmarkJob.CompletedAt = Some 20, cancelChan = 1\<rparr>)],
       mutex = Locked, hub = [startedMessage]\<rparr>)"
  by (simp add: stuckManager_def stuckManager_value JM_CancelJob_def Let_def Cancel_def
      stuckTracker_def trySend_def)

lemma deadlockedManager_locked: "JobManager.mutex deadlockedManager = Locked"
  by (simp add: deadlockedManager_def deadlockedManager_value)

section \<open>Cancellation is accepted only while the job runs\<close>

lemma CancelJob_accepts_iff:
  "fst (CancelJob jobID now jm) =
     (\<exists>job c. map_of (SimpleJobManager.jobs jm) jobID = Some job \<and> SimpleJob.Status job = ''running''
        \<and> cancelFunc job = Some c)"
  by (auto simp: CancelJob_def split: option.splits)

lemma CancelJob_effect:
  assumes "map_of (SimpleJobManager.jobs jm) jobID = Some job" and "SimpleJob.Status job = ''running''"
    and "cancelFunc job = Some c"
  shows "snd (CancelJob jobID now jm) =
           jm\<lparr>SimpleJobManager.jobs := AList.update jobID
                  (job\<lparr>SimpleJob.Status := ''cancelled'', SimpleJob.Message := ''Job cancelled by user'',
                       SimpleJob.Error := ''Job cancelled by user'', SimpleJob.CompletedAt := Some now\<rparr>)
                  (SimpleJobManager.jobs jm),
              activeJobCount := activeJobCount jm - 1,
              ctxDone := insert c (ctxDone jm)\<rparr>"
  using assms by (simp add: CancelJob_def callCancel_def)

lemma CancelJob_refusal: "\<not> fst (CancelJob jobID now jm) \<Longrightarrow> snd (CancelJob jobID now jm) = jm"
  by (auto simp: CancelJob_def split: option.splits if_splits)

text \<open>What the tracker's methods do when its lock is free.\<close>

lemma Cancel_free:
  "ProgressTracker.mutex pt = Unlocked \<Longrightarrow>
   Cancel now reason pt h =
     (Ret (), pt\<lparr>ProgressTracker.Status := ''cancelled''\<rparr>,
      h @ [NewCancellationMessage (ProgressTracker.JobID pt) now
             \<lparr>CancellationMessage.JobID = ProgressTracker.JobID pt,
              CancellationMessage.Status = ''cancelled'',
              CancellationMessage.Message = ''Benchmark cancelled'',
              Cancelled = now, Reason = reason\<rparr>])"
  by (cases pt) (simp add: Cancel_def Let_def BroadcastIfEncoded_def encodes_def NewCancellationMessage_def)

lemma JM_CancelJob_accepts_iff:
  assumes "JobManager.mutex am = Unlocked"
    and "\<forall>job. map_of (jobs am) jobID = Some job \<longrightarrow> ProgressTracker.mutex (Progress job) = Unlocked"
  shows "(fst (JM_CancelJob jobID now am) = Ret ()) =
           (\<exists>job. map_of (jobs am) jobID = Some job \<and> BenchmarkJob.Status job = ''running'')"
  using assms by (auto simp: JM_CancelJob_def Let_def Cancel_free split: option.splits)

lemma JM_CancelJob_effect:
  assumes "JobManager.mutex am = Unlocked"
    and "map_of (jobs am) jobID = Some job" and "BenchmarkJob.Status job = ''running''"
    and "ProgressTracker.mutex (Progress job) = Unlocked"
  shows "snd (JM_CancelJob jobID now am) =
           am\<lparr>jobs := AList.update jobID
                  (job\<lparr>cancelChan := trySend (cancelChan job), BenchmarkJob.Status := ''cancelled'',
                       BenchmarkJob.CompletedAt := Some now,
                       Progress := (Progress job)\<lparr>ProgressTracker.Status := ''cancelled''\<rparr>\<rparr>) (jobs am),
              hub := hub am @
                [NewCancellationMessage (ProgressTracker.JobID (Progress job)) now
                   \<lparr>CancellationMessage.JobID = ProgressTracker.JobID (Progress job),
                    CancellationMessage.Status = ''cancelled'',
                    CancellationMessage.Message = ''Benchmark cancelled'',
                    Cancelled = now, Reason = ''User requested cancellation''\<rparr>]\<rparr>"
  using assms by (simp add: JM_CancelJob_def Let_def Cancel_free)

lemma JM_CancelJob_refusal:
  assumes "JobManager.mutex am = Unlocked"
    and "\<forall>job. map_of (jobs am) jobID = Some job \<longrightarrow> ProgressTracker.mutex (Progress job) = Unlocked"
    and "fst (JM_CancelJob jobID now am) \<noteq> Ret ()"
  shows "(\<exists>e. fst (JM_CancelJob jobID now am) = Err e) \<and> snd (JM_CancelJob jobID now am) = am"
  using assms by (auto simp: JM_CancelJob_def Let_def Cancel_free split: option.splits if_splits)

text \<open>
  Claim C5, as amended. \<open>CancelJob\<close> of the SSE manager returns \<open>true\<close> exactly for a job
  that is in the registry with status \<open>running\<close> and whose cancel function is stored;
  it then closes the job's context, sets the status to \<open>cancelled\<close> with the two
  texts and the completion timestamp, and takes one off the active counter, and that
  is all it changes. In every other case it returns \<open>false\<close> and the state is the one
  it was given. The WebSocket manager's \<open>CancelJob\<close>, which has no counter, when its own
  lock and the lock of the job's tracker are free, returns \<open>nil\<close> exactly for a job
  that is registered and \<open>running\<close>: it buffers the signal, marks the job \<open>cancelled\<close>
  with the timestamp and hands the cancellation message to the hub; for any other job
  it returns an error and the state it was given.
\<close>

theorem CancelJob_exactly_while_cancellable:
  "(fst (CancelJob jobID now jm) =
      (\<exists>job c. map_of (SimpleJobManager.jobs jm) jobID = Some job \<and> SimpleJob.Status job = ''running''
         \<and> cancelFunc job = Some c))
   \<and> (\<forall>job c. map_of (SimpleJobManager.jobs jm) jobID = Some job \<and> SimpleJob.Status job = ''running''
          \<and> cancelFunc job = Some c \<longrightarrow>
        snd (CancelJob jobID now jm) =
          jm\<lparr>SimpleJobManager.jobs := AList.update jobID
                 (job\<lparr>SimpleJob.Status := ''cancelled'', SimpleJob.Message := ''Job cancelled by user'',
                      SimpleJob.Error := ''Job cancelled by user'', SimpleJob.CompletedAt := Some now\<rparr>)
                 (SimpleJobManager.jobs jm),
             activeJobCount := activeJobCount jm - 1,
             ctxDone := insert c (ctxDone jm)\<rparr>)
   \<and> (\<not> fst (CancelJob jobID now jm) \<longrightarrow> snd (CancelJob jobID now jm) = jm)
   \<and> (JobManager.mutex am = Unlocked
       \<and> (\<forall>job. map_of (jobs am) jobID = Some job \<longrightarrow> ProgressTracker.mutex (Progress job) = Unlocked) \<longrightarrow>
        ((fst (JM_CancelJob jobID now am) = Ret ()) =
           (\<exists>job. map_of (jobs am) jobID = Some job \<and> BenchmarkJob.Status job = ''running''))
        \<and> (\<forall>job. map_of (jobs am) jobID = Some job \<and> BenchmarkJob.Status job = ''running'' \<longrightarrow>
              snd (JM_CancelJob jobID now am) =
                am\<lparr>jobs := AList.update jobID
                       (job\<lparr>cancelChan := trySend (cancelChan job), BenchmarkJob.Status := ''cancelled'',
                            BenchmarkJob.CompletedAt := Some now,
                            Progress := (Progress job)\<lparr>ProgressTracker.Status := ''cancelled''\<rparr>\<rparr>) (jobs am),
                   hub := hub am @
                     [NewCancellationMessage (ProgressTracker.JobID (Progress job)) now
                        \<lparr>CancellationMessage.JobID = ProgressTracker.JobID (Progress job),
                         CancellationMessage.Status = ''cancelled'',
                         CancellationMessage.Message = ''Benchmark cancelled'',
                         Cancelled = now, Reason = ''User requested cancellation''\<rparr>]\<rparr>)
        \<and> (fst (JM_CancelJob jobID now am) \<noteq> Ret () \<longrightarrow>
              (\<exists>e. fst (JM_CancelJob jobID now am) = Err e) \<and> snd (JM_CancelJob jobID now am) = am))"
proof (intro conjI allI impI)
  show "fst (CancelJob jobID now jm) =
      (\<exists>job c. map_of (SimpleJobManager.jobs jm) jobID = Some job \<and> SimpleJob.Status job = ''running''
         \<and> cancelFunc job = Some c)"
    by (rule CancelJob_accepts_iff)
next
  fix job c
  assume "map_of (SimpleJobManager.jobs jm) jobID = Some job \<and> SimpleJob.Status job = ''running''
          \<and> cancelFunc job = Some c"
  then show "snd (CancelJob jobID now jm) =
          jm\<lparr>SimpleJobManager.jobs := AList.update jobID
                 (job\<lparr>SimpleJob.Status := ''cancelled'', SimpleJob.Message := ''Job cancelled by user'',
                      SimpleJob.Error := ''Job cancelled by user'', SimpleJob.CompletedAt := Some now\<rparr>)
                 (SimpleJobManager.jobs jm),
             activeJobCount := activeJobCount jm - 1,
             ctxDone := insert c (ctxDone jm)\<rparr>"
    by (simp add: CancelJob_effect)
next
  assume "\<not> fst (CancelJob jobID now jm)"
  then show "snd (CancelJob jobID now jm) = jm" by (rule CancelJob_refusal)
next
  assume free: "JobManager.mutex am = Unlocked
       \<and> (\<forall>job. map_of (jobs am) jobID = Some job \<longrightarrow> ProgressTracker.mutex (Progress job) = Unlocked)"
  then show "(fst (JM_CancelJob jobID now am) = Ret ()) =
           (\<exists>job. map_of (jobs am) jobID = Some job \<and> BenchmarkJob.Status job = ''running'')"
    by (simp add: JM_CancelJob_accepts_iff)
next
  fix job
  assume free: "JobManager.mutex am = Unlocked
       \<and> (\<forall>job. map_of (jobs am) jobID = Some job \<longrightarrow> ProgressTracker.mutex (Progress job) = Unlocked)"
    and run: "map_of (jobs am) jobID = Some job \<and> BenchmarkJob.Status job = ''running''"
  then show "snd (JM_CancelJob jobID now am) =
                am\<lparr>jobs := AList.update jobID
                       (job\<lparr>cancelChan := trySend (cancelChan job), BenchmarkJob.Status := ''cancelled'',
                            BenchmarkJob.CompletedAt := Some now,
                            Progress := (Progress job)\<lparr>ProgressTracker.Status := ''cancelled''\<rparr>\<rparr>) (jobs am),
                   hub := hub am @
                     [NewCancellationMessage (ProgressTracker.JobID (Progress job)) now
                        \<lparr>CancellationMessage.JobID = ProgressTracker.JobID (Progress job),
                         CancellationMessage.Status = ''cancelled'',
                         CancellationMessage.Message = ''Benchmark cancelled'',
                         Cancelled = now, Reason = ''User requested cancellation''\<rparr>]\<rparr>"
    by (simp add: JM_CancelJob_effect)
next
  assume free: "JobManager.mutex am = Unlocked
       \<and> (\<forall>job. map_of (jobs am) jobID = Some job \<longrightarrow> ProgressTracker.mutex (Progress job) = Unlocked)"
    and no: "fst (JM_CancelJob jobID now am) \<noteq> Ret ()"
  then show "\<exists>e. fst (JM_CancelJob jobID now am) = Err e"
    using JM_CancelJob_refusal [of am jobID now] by blast
next
  assume free: "JobManager.mutex am = Unlocked
       \<and> (\<forall>job. map_of (jobs am) jobID = Some job \<longrightarrow> ProgressTracker.mutex (Progress job) = Unlocked)"
    and no: "fst (JM_CancelJob jobID now am) \<noteq> Ret ()"
  then show "snd (JM_CancelJob jobID now am) = am"
    using JM_CancelJob_refusal [of am jobID now] by blast
qed

theorem CancelJob_exactly_while_cancellable_witness:
  "fst (CancelJob ''job-1'' 5 runningManager)
   \<and> sseStatusOf (snd (CancelJob ''job-1'' 5 runningManager)) ''job-1'' = Some ''cancelled''
   \<and> activeJobCount (snd (CancelJob ''job-1'' 5 runningManager)) = 0
   \<and> 1 \<in> ctxDone (snd (CancelJob ''job-1'' 5 runningManager))
   \<and> \<not> fst (CancelJob ''job-1'' 5 NewSimpleJobManager)
   \<and> snd (CancelJob ''job-1'' 5 NewSimpleJobManager) = NewSimpleJobManager
   \<and> JobManager.mutex startedManager = Unlocked
   \<and> fst (JM_CancelJob ''job-1'' 5 startedManager) = Ret ()
   \<and> statusOf (snd (JM_CancelJob ''job-1'' 5 startedManager)) ''job-1'' = Some ''cancelled''
   \<and> length (hub (snd (JM_CancelJob ''job-1'' 5 startedManager))) = 1
   \<and> JobManager.mutex queuedManager = Unlocked
   \<and> fst (JM_CancelJob ''job-1'' 5 queuedManager) \<noteq> Ret ()
   \<and> snd (JM_CancelJob ''job-1'' 5 queuedManager) = queuedManager"
proof -
  note sse = CancelJob_exactly_while_cancellable [of "''job-1''" 5 runningManager startedManager]
  note new = CancelJob_exactly_while_cancellable [of "''job-1''" 5 NewSimpleJobManager queuedManager]
  have running: "map_of (SimpleJobManager.jobs runningManager) ''job-1'' =
      Some \<lparr>SimpleJob.ID = ''job-1'', SimpleJob.Status = ''running'', SimpleJob.Progress = 0,
           SimpleJob.Message = ''Starting benchmark...'', Result = VNil, SimpleJob.Error = [],
           SimpleJob.CreatedAt = 0, SimpleJob.CompletedAt = None, SimpleJob.Request = exampleRequest,
           ctx = Some 1, cancelFunc = Some 1\<rparr>"
    by (rule runningManager_job)
  from sse running have a: "fst (CancelJob ''job-1'' 5 runningManager)" by simp
  from sse running have a': "snd (CancelJob ''job-1'' 5 runningManager) =
      runningManager\<lparr>SimpleJobManager.jobs := AList.update ''job-1''
         (\<lparr>SimpleJob.ID = ''job-1'', SimpleJob.Status = ''running'', SimpleJob.Progress = 0,
           SimpleJob.Message = ''Starting benchmark...'', Result = VNil, SimpleJob.Error = [],
           SimpleJob.CreatedAt = 0, SimpleJob.CompletedAt = None, SimpleJob.Request = exampleRequest,
           ctx = Some 1, cancelFunc = Some 1\<rparr>
            \<lparr>SimpleJob.Status := ''cancelled'', SimpleJob.Message := ''Job cancelled by user'',
             SimpleJob.Error := ''Job cancelled by user'', SimpleJob.CompletedAt := Some 5\<rparr>)
         (SimpleJobManager.jobs runningManager),
        activeJobCount := activeJobCount runningManager - 1,
        ctxDone := insert 1 (ctxDone runningManager)\<rparr>"
    by simp
  from a' have b: "sseStatusOf (snd (CancelJob ''job-1'' 5 runningManager)) ''job-1'' = Some ''cancelled''"
    by (simp add: sseStatusOf_def update_conv')
  from a' have c: "activeJobCount (snd (CancelJob ''job-1'' 5 runningManager)) = 0"
    by (simp add: runningManager_count)
  from a' have d: "1 \<in> ctxDone (snd (CancelJob ''job-1'' 5 runningManager))" by simp
  have "map_of (SimpleJobManager.jobs NewSimpleJobManager) ''job-1'' = None"
    by (simp add: NewSimpleJobManager_def)
  with new have e: "\<not> fst (CancelJob ''job-1'' 5 NewSimpleJobManager)" by simp
  with new have f: "snd (CancelJob ''job-1'' 5 NewSimpleJobManager) = NewSimpleJobManager" by blast
  have sfree: "JobManager.mutex startedManager = Unlocked
       \<and> (\<forall>job. map_of (jobs startedManager) ''job-1'' = Some job \<longrightarrow>
             ProgressTracker.mutex (Progress job) = Unlocked)"
    by (simp add: startedManager_value NewProgressTracker_def)
  with sse startedManager_job have g: "fst (JM_CancelJob ''job-1'' 5 startedManager) = Ret ()"
    by simp
  from sse sfree startedManager_job
  have h: "statusOf (snd (JM_CancelJob ''job-1'' 5 startedManager)) ''job-1'' = Some ''cancelled''
           \<and> length (hub (snd (JM_CancelJob ''job-1'' 5 startedManager))) = 1"
    by (simp add: statusOf_def update_conv' startedManager_value)
  have qfree: "JobManager.mutex queuedManager = Unlocked
       \<and> (\<forall>job. map_of (jobs queuedManager) ''job-1'' = Some job \<longrightarrow>
             ProgressTracker.mutex (Progress job) = Unlocked)"
    by (simp add: queuedManager_value NewProgressTracker_def)
  with new queuedManager_job have i: "fst (JM_CancelJob ''job-1'' 5 queuedManager) \<noteq> Ret ()"
    by simp
  with new qfree have j: "snd (JM_CancelJob ''job-1'' 5 queuedManager) = queuedManager" by blast
  from a b c d e f sfree g h qfree i j show ?thesis by blast
qed

text \<open>
  Claim C5 as stated fails on a job that \<open>CreateJob\<close> has just registered: its status
  is \<open>running\<close>, but no cancel function is stored before \<open>RunBenchmark\<close> starts, and
  \<open>CancelJob\<close> returns \<open>false\<close> and changes nothing.
\<close>

theorem running_job_without_cancel_function_is_refused:
  "sseStatusOf createdManager ''job-1'' = Some ''running''
   \<and> CancelJob ''job-1'' 1 createdManager = (False, createdManager)
   \<and> sseStatusOf (snd (CancelJob ''job-1'' 1 createdManager)) ''job-1'' = Some ''running''"
  by (simp add: sseStatusOf_def createdManager_job CancelJob_def)

section \<open>Status transitions\<close>

lemma cancelled_job:
  "map_of (jobs (snd (JM_CancelJob ''job-1'' 2 startedManager))) ''job-1'' =
     Some \<lparr>BenchmarkJob.ID = ''job-1'', BenchmarkJob.Status = ''cancelled'',
           BenchmarkJob.Request = exampleRequest,
           BenchmarkJob.Progress = (NewProgressTracker ''job-1'' 2 0)\<lparr>ProgressTracker.Status := ''cancelled''\<rparr>,
           BenchmarkJob.Results = None, BenchmarkJob.Error = None, BenchmarkJob.CreatedAt = 0,
           StartedAt = Some 1, BenchmarkJob.CompletedAt = Some 2, cancelChan = 1\<rparr>"
  by (simp add: JM_CancelJob_def startedManager_value Cancel_def trySend_def Let_def
      NewProgressTracker_def BroadcastIfEncoded_def encodes_def NewCancellationMessage_def)

lemma cancel_returns:
  "fst (JM_CancelJob ''job-1'' 2 startedManager) = Ret ()
   \<and> JobManager.mutex (snd (JM_CancelJob ''job-1'' 2 startedManager)) = Unlocked"
  by (simp add: JM_CancelJob_def startedManager_value Cancel_def Let_def NewProgressTracker_def)

lemma executed_job:
  "fst (executeJob idleWorld ''job-1'' 0 (snd (JM_CancelJob ''job-1'' 2 startedManager))) = Ret ()
   \<and> map_of (jobs (snd (executeJob idleWorld ''job-1'' 0 (snd (JM_CancelJob ''job-1'' 2 startedManager))))) ''job-1'' =
     Some \<lparr>BenchmarkJob.ID = ''job-1'', BenchmarkJob.Status = ''failed'',
           BenchmarkJob.Request = exampleRequest,
           BenchmarkJob.Progress = (NewProgressTracker ''job-1'' 2 0)\<lparr>ProgressTracker.Status := ''failed''\<rparr>,
           BenchmarkJob.Results = None,
           BenchmarkJob.Error = Some ''job cancelled before execution'',
           BenchmarkJob.CreatedAt = 0, StartedAt = Some 1, BenchmarkJob.CompletedAt = Some 12,
           cancelChan = 0\<rparr>"
  using cancel_returns
  by (simp add: executeJob_def cancelled_job onProgress_def SetStatus_def Let_def
      update_conv' runBenchmarkWithProgress_def cancelSignalled_def idleWorld_def Fail_def
      stampJob_def NewProgressTracker_def)

text \<open>
  Claim C1 (not met by the code). A job of the WebSocket manager goes
  \<open>queued\<close>, \<open>running\<close>, \<open>cancelled\<close> and then, when its goroutine finds the
  cancellation signal, \<open>failed\<close>: \<open>executeJob\<close> stamps the status without looking at
  the one it replaces. In the SSE manager \<open>FailJob\<close> and \<open>CompleteJob\<close> likewise
  replace the status \<open>cancelled\<close> that \<open>CancelJob\<close> has set.
\<close>

theorem terminal_status_overwritten:
  "statusOf queuedManager ''job-1'' = Some ''queued''
   \<and> statusOf startedManager ''job-1'' = Some ''running''
   \<and> fst (JM_CancelJob ''job-1'' 2 startedManager) = Ret ()
   \<and> statusOf (snd (JM_CancelJob ''job-1'' 2 startedManager)) ''job-1'' = Some ''cancelled''
   \<and> fst (executeJob idleWorld ''job-1'' 0 (snd (JM_CancelJob ''job-1'' 2 startedManager))) = Ret ()
   \<and> statusOf (snd (executeJob idleWorld ''job-1'' 0 (snd (JM_CancelJob ''job-1'' 2 startedManager)))) ''job-1''
        = Some ''failed''
   \<and> sseStatusOf (snd (CancelJob ''job-1'' 5 runningManager)) ''job-1'' = Some ''cancelled''
   \<and> sseStatusOf (FailJob ''job-1'' ''Job cancelled by user'' 6 (snd (CancelJob ''job-1'' 5 runningManager))) ''job-1''
        = Some ''failed''
   \<and> sseStatusOf (CompleteJob ''job-1'' VNil 6 (snd (CancelJob ''job-1'' 5 runningManager))) ''job-1''
        = Some ''completed''"
  by (simp add: statusOf_def sseStatusOf_def queuedManager_job startedManager_job cancelled_job
       cancel_returns executed_job CancelJob_def runningManager_job FailJob_def CompleteJob_def
       update_conv')

text \<open>
  Claim C2 (not met by the code). \<open>RunBenchmark\<close> is started for a fresh job and a user
  cancels the job before the first round's check. \<open>CancelJob\<close> closes the context;
  the loop then sees \<open>ctx.Done()\<close> and calls \<open>FailJob\<close>, so the job ends with status
  \<open>failed\<close> and the message \<open>Benchmark failed\<close>, the text of every failure; only the
  \<open>Error\<close> field says that the user cancelled.
\<close>

theorem observed_cancellation_ends_failed:
  "map_of (SimpleJobManager.jobs (RunBenchmark cancelWorld ''job-1'' exampleRequest 1 6 createdManager)) ''job-1''
     = Some \<lparr>SimpleJob.ID = ''job-1'', SimpleJob.Status = ''failed'', SimpleJob.Progress = 20,
           SimpleJob.Message = ''Benchmark failed'', Result = VNil,
           SimpleJob.Error = ''Job cancelled by user'',
           SimpleJob.CreatedAt = 0, SimpleJob.CompletedAt = Some 6, SimpleJob.Request = exampleRequest,
           ctx = Some 1, cancelFunc = Some 1\<rparr>
   \<and> 1 \<in> ctxDone (RunBenchmark cancelWorld ''job-1'' exampleRequest 1 6 createdManager)"
  by (simp add: RunBenchmark_def cancelWorld_def SetJobContext_def createdManager_job update_conv'
      UpdateJobProgress_def exampleRequest_def CancelJob_def callCancel_def FailJob_def Let_def)

section \<open>The active-job counter\<close>

text \<open>
  Claim C3 (not met by the code). Two jobs are created, the first completes and is
  removed: \<open>CompleteJob\<close> and \<open>RemoveJob\<close> each take one off the counter, which is then
  \<open>0\<close> while the second job is still running. The same happens when the first job is
  cancelled and its run then calls \<open>FailJob\<close>. And \<open>CleanupOldJobs\<close> deletes a running
  job that is older than an hour without touching the counter, which is then \<open>1\<close>
  with no job left.
\<close>

theorem active_counter_drifts:
  "GetActiveJobCount (performAll [OpCreateJob ''job-1'' 0 exampleRequest,
                                  OpCreateJob ''job-2'' 1 exampleRequest,
                                  OpCompleteJob ''job-1'' VNil 2,
                                  OpRemoveJob ''job-1''] NewSimpleJobManager) = 0
   \<and> ListActiveJobs (performAll [OpCreateJob ''job-1'' 0 exampleRequest,
                                 OpCreateJob ''job-2'' 1 exampleRequest,
                                 OpCompleteJob ''job-1'' VNil 2,
                                 OpRemoveJob ''job-1''] NewSimpleJobManager) = [''job-2'']
   \<and> GetActiveJobCount (performAll [OpCreateJob ''job-1'' 0 exampleRequest,
                                    OpSetJobContext ''job-1'' 1,
                                    OpCreateJob ''job-2'' 1 exampleRequest,
                                    OpCancelJob ''job-1'' 2,
                                    OpFailJob ''job-1'' ''Job cancelled by user'' 3]
                          NewSimpleJobManager) = 0
   \<and> ListActiveJobs (performAll [OpCreateJob ''job-1'' 0 exampleRequest,
                                 OpSetJobContext ''job-1'' 1,
                                 OpCreateJob ''job-2'' 1 exampleRequest,
                                 OpCancelJob ''job-1'' 2,
                                 OpFailJob ''job-1'' ''Job cancelled by user'' 3]
                       NewSimpleJobManager) = [''job-2'']
   \<and> GetActiveJobCount (performAll [OpCreateJob ''job-1'' 0 exampleRequest,
                                    OpCleanupOldJobs (2 * hour)] NewSimpleJobManager) = 1
   \<and> ListActiveJobs (performAll [OpCreateJob ''job-1'' 0 exampleRequest,
                                 OpCleanupOldJobs (2 * hour)] NewSimpleJobManager) = []"
  by (simp add: GetActiveJobCount_def ListActiveJobs_def CreateJob_def CompleteJob_def
      RemoveJob_def CleanupOldJobs_def NewSimpleJobManager_def hour_def SetJobContext_def
      CancelJob_def FailJob_def callCancel_def)

section \<open>Completion timestamps\<close>

lemma list_all_update:
  "list_all P al \<Longrightarrow> P (k, v) \<Longrightarrow> list_all P (AList.update k v al)"
  by (induction al) auto

lemma list_all_delete:
  "list_all P al \<Longrightarrow> list_all P (AList.delete k al)"
  by (induction al) auto

lemma list_all_map_of:
  "list_all P al \<Longrightarrow> map_of al k = Some v \<Longrightarrow> P (k, v)"
  by (auto simp: list_all_iff dest: map_of_SomeD)

text \<open>
  Claim C10 (not met by the code). \<open>AddJob\<close> sets the status of a registered job to
  \<open>running\<close> whatever it was and leaves the rest of the job: after \<open>CreateJob\<close> and
  \<open>CompleteJob\<close> the job is \<open>completed\<close> with its timestamp, and after \<open>AddJob\<close> it is
  \<open>running\<close> with the same timestamp, at 100 percent.
\<close>

theorem AddJob_revives_completed_job:
  "GetJob (performAll [OpCreateJob ''job-1'' 0 exampleRequest, OpCompleteJob ''job-1'' VNil 7]
             NewSimpleJobManager) ''job-1''
     = Some \<lparr>SimpleJob.ID = ''job-1'', SimpleJob.Status = ''completed'', SimpleJob.Progress = 100,
             SimpleJob.Message = ''Benchmark completed successfully'', Result = VNil,
             SimpleJob.Error = [], SimpleJob.CreatedAt = 0, SimpleJob.CompletedAt = Some 7,
             SimpleJob.Request = exampleRequest, ctx = None, cancelFunc = None\<rparr>
   \<and> GetJob (performAll [OpCreateJob ''job-1'' 0 exampleRequest, OpCompleteJob ''job-1'' VNil 7,
                         OpAddJob ''job-1'' 1] NewSimpleJobManager) ''job-1''
     = Some \<lparr>SimpleJob.ID = ''job-1'', SimpleJob.Status = ''running'', SimpleJob.Progress = 100,
             SimpleJob.Message = ''Benchmark completed successfully'', Result = VNil,
             SimpleJob.Error = [], SimpleJob.CreatedAt = 0, SimpleJob.CompletedAt = Some 7,
             SimpleJob.Request = exampleRequest, ctx = Some 1, cancelFunc = Some 1\<rparr>
   \<and> \<not> terminal ''running''
   \<and> \<not> stamped \<lparr>SimpleJob.ID = ''job-1'', SimpleJob.Status = ''running'', SimpleJob.Progress = 100,
             SimpleJob.Message = ''Benchmark completed successfully'', Result = VNil,
             SimpleJob.Error = [], SimpleJob.CreatedAt = 0, SimpleJob.CompletedAt = Some 7,
             SimpleJob.Request = exampleRequest, ctx = Some 1, cancelFunc = Some 1\<rparr>"
  by (simp add: GetJob_def CreateJob_def CompleteJob_def AddJob_def NewSimpleJobManager_def
      stamped_def terminal_def)

subsection \<open>The operations that keep the timestamp in step with the status\<close>

text \<open>
  Every other operation of the SSE manager, and every operation of the WebSocket
  manager, whether it returns or not, leaves each job with a completion timestamp
  exactly when its status is terminal.
\<close>

lemma allStamped_CreateJob: "allStamped jm \<Longrightarrow> allStamped (CreateJob jobID now request jm)"
  by (simp add: allStamped_def CreateJob_def list_all_update stamped_def terminal_def)

lemma allStamped_SetJobContext: "allStamped jm \<Longrightarrow> allStamped (SetJobContext jobID c jm)"
  by (auto simp: allStamped_def SetJobContext_def stamped_def split: option.splits
      intro!: list_all_update dest: list_all_map_of)

lemma allStamped_UpdateJobProgress:
  "allStamped jm \<Longrightarrow> allStamped (UpdateJobProgress jobID progress message jm)"
  by (auto simp: allStamped_def UpdateJobProgress_def stamped_def split: option.splits
      intro!: list_all_update dest: list_all_map_of)

lemma allStamped_CompleteJob: "allStamped jm \<Longrightarrow> allStamped (CompleteJob jobID result now jm)"
  by (auto simp: allStamped_def CompleteJob_def stamped_def terminal_def split: option.splits
      intro!: list_all_update)

lemma allStamped_FailJob: "allStamped jm \<Longrightarrow> allStamped (FailJob jobID errorMsg now jm)"
  by (auto simp: allStamped_def FailJob_def stamped_def terminal_def split: option.splits
      intro!: list_all_update)

lemma allStamped_CancelJob: "allStamped jm \<Longrightarrow> allStamped (snd (CancelJob jobID now jm))"
  by (auto simp: allStamped_def CancelJob_def stamped_def terminal_def split: option.splits
      intro!: list_all_update)

lemma allStamped_RemoveJob: "allStamped jm \<Longrightarrow> allStamped (RemoveJob jobID jm)"
  by (auto simp: allStamped_def RemoveJob_def split: option.splits intro!: list_all_delete)

lemma allStamped_CleanupOldJobs: "allStamped jm \<Longrightarrow> allStamped (CleanupOldJobs now jm)"
  by (auto simp: allStamped_def CleanupOldJobs_def list_all_iff)

lemma allStamped_perform: "allStamped jm \<Longrightarrow> \<not> isAddJob op \<Longrightarrow> allStamped (perform op jm)"
  by (cases op)
     (simp_all add: allStamped_CreateJob allStamped_SetJobContext allStamped_UpdateJobProgress
        allStamped_CompleteJob allStamped_FailJob allStamped_CancelJob allStamped_RemoveJob
        allStamped_CleanupOldJobs)

lemma allStamped_performAll:
  "allStamped jm \<Longrightarrow> list_all (\<lambda>op. \<not> isAddJob op) ops \<Longrightarrow> allStamped (performAll ops jm)"
  by (induction ops arbitrary: jm) (auto simp: allStamped_perform)

lemma allStamped_New: "allStamped NewSimpleJobManager"
  by (simp add: allStamped_def NewSimpleJobManager_def)

lemma stamped_without_AddJob:
  assumes "list_all (\<lambda>op. \<not> isAddJob op) ops"
    and "GetJob (performAll ops NewSimpleJobManager) jobID = Some job"
  shows "(SimpleJob.CompletedAt job \<noteq> None) = terminal (SimpleJob.Status job)"
proof -
  have "allStamped (performAll ops NewSimpleJobManager)"
    using assms(1) by (simp add: allStamped_performAll allStamped_New)
  with assms(2) have "stamped job"
    using list_all_map_of by (fastforce simp: allStamped_def GetJob_def)
  then show ?thesis by (simp add: stamped_def)
qed

lemma allStampedAsync_onProgress:
  "allStampedAsync jm \<Longrightarrow> allStampedAsync (snd (onProgress jobID method jm))"
  by (auto simp: allStampedAsync_def onProgress_def stampedAsync_def split: option.splits prod.splits
      intro!: list_all_update dest: list_all_map_of)

lemma allStampedAsync_cancelSignalled:
  "allStampedAsync jm \<Longrightarrow> allStampedAsync (snd (cancelSignalled jobID jm))"
  by (auto simp: allStampedAsync_def cancelSignalled_def stampedAsync_def split: option.splits
      intro!: list_all_update dest: list_all_map_of)

lemma allStampedAsync_signal:
  assumes "\<And>p jm. allStampedAsync jm \<Longrightarrow> allStampedAsync (interleaved w p jm)"
    and "allStampedAsync jm"
  shows "allStampedAsync (snd (cancelSignalled jobID (interleaved w p jm)))"
  using assms allStampedAsync_cancelSignalled by blast

lemma allStampedAsync_runConcurrency:
  assumes "\<And>p jm. allStampedAsync jm \<Longrightarrow> allStampedAsync (interleaved w p jm)"
    and "allStampedAsync jm"
  shows "allStampedAsync (snd (snd (runConcurrencyBenchmark w jobID model concurrency step t jm)))"
proof -
  obtain r1 jm1 where u1:
    "onProgress jobID (UpdateProgress (clock w t) (int step) (Model.Name model) 0
        (''Running benchmark with concurrency '' @ Itoa concurrency)) jm = (r1, jm1)"
    by fastforce
  with allStampedAsync_onProgress [OF assms(2), of jobID] have jm1: "allStampedAsync jm1"
    by (metis snd_conv)
  then have jm2: "allStampedAsync (interleaved w (t + 1) jm1)" by (rule assms(1))
  obtain r3 jm3 where u3:
    "onProgress jobID (UpdateProgress (clock w (t + 2)) (int step) (Model.Name model) 100
        (''Completed benchmark with concurrency '' @ Itoa concurrency)) (interleaved w (t + 1) jm1)
       = (r3, jm3)"
    by fastforce
  with allStampedAsync_onProgress [OF jm2, of jobID] have jm3: "allStampedAsync jm3"
    by (metis snd_conv)
  show ?thesis
    using u1 jm1 jm2 u3 jm3
    by (cases r1; cases r3; cases "runRound w step")
       (simp_all add: runConcurrencyBenchmark_def Let_def)
qed

lemma allStampedAsync_runSingle:
  assumes "\<And>p jm. allStampedAsync jm \<Longrightarrow> allStampedAsync (interleaved w p jm)"
  shows "allStampedAsync jm \<Longrightarrow>
         allStampedAsync (snd (snd (snd (runSingleModelBenchmark w jobID model levels results step t jm))))"
proof (induction levels arbitrary: results step t jm)
  case Nil
  then show ?case by simp
next
  case (Cons concurrency rest)
  obtain s jm1 where c: "cancelSignalled jobID (interleaved w t jm) = (s, jm1)"
    by fastforce
  with allStampedAsync_signal [OF assms Cons.prems, of jobID t]
  have jm1: "allStampedAsync jm1" by simp
  obtain r2 jm2 where u:
    "onProgress jobID (UpdateProgress (clock w (t + 1)) (int step) (Model.Name model) concurrency
        (''Testing '' @ Model.Name model @ '' with concurrency '' @ Itoa concurrency)) jm1 = (r2, jm2)"
    by fastforce
  with allStampedAsync_onProgress [OF jm1, of jobID] have jm2: "allStampedAsync jm2"
    by (metis snd_conv)
  obtain r5 t5 jm5 where b:
    "runConcurrencyBenchmark w jobID model concurrency step (t + 2) jm2 = (r5, t5, jm5)"
    by (metis prod_cases3)
  with allStampedAsync_runConcurrency [OF assms jm2, of jobID model concurrency step "t + 2"]
  have jm5: "allStampedAsync jm5" by simp
  show ?case
    using c jm1 u jm2 b jm5 Cons.IH [OF jm5]
    by (cases s; cases r2; cases r5) simp_all
qed

lemma allStampedAsync_secondModel:
  assumes "\<And>p jm. allStampedAsync jm \<Longrightarrow> allStampedAsync (interleaved w p jm)"
    and "allStampedAsync jm"
  shows "allStampedAsync (snd (snd (secondModel w jobID request m2 step t jm)))"
proof -
  obtain r1 jm1 where u1:
    "onProgress jobID (UpdateProgress (clock w (t + 1)) (int step) (Model.Name m2) 0
        ''Starting Model 2 benchmark'') jm = (r1, jm1)"
    by fastforce
  with allStampedAsync_onProgress [OF assms(2), of jobID] have jm1: "allStampedAsync jm1"
    by (metis snd_conv)
  obtain out step2 t2 jm2 where r:
    "runSingleModelBenchmark w jobID m2 (elems (ConcurrencyLevels request)) NilSlice step (t + 2) jm1
       = (out, step2, t2, jm2)"
    by (metis prod_cases4)
  with allStampedAsync_runSingle [OF assms(1) jm1, of jobID m2 "elems (ConcurrencyLevels request)"
         NilSlice step "t + 2"]
  have jm2: "allStampedAsync jm2" by simp
  obtain s jm3 where c: "cancelSignalled jobID (interleaved w t2 jm2) = (s, jm3)"
    by fastforce
  with allStampedAsync_signal [OF assms(1) jm2, of jobID t2]
  have jm3: "allStampedAsync jm3" by simp
  obtain r4 jm4 where u4:
    "onProgress jobID (UpdateProgress (clock w (t2 + 1)) (int step2) [] 0
        ''Generating comparison results'') jm3 = (r4, jm4)"
    by fastforce
  with allStampedAsync_onProgress [OF jm3, of jobID] have jm4: "allStampedAsync jm4"
    by (metis snd_conv)
  show ?thesis
    using u1 jm1 r jm2 c jm3 u4 jm4
    by (cases r1; cases out; cases s; cases r4) (simp_all add: secondModel_def)
qed

lemma allStampedAsync_afterModel1:
  assumes "\<And>p jm. allStampedAsync jm \<Longrightarrow> allStampedAsync (interleaved w p jm)"
    and "allStampedAsync jm"
  shows "allStampedAsync (snd (snd (afterModel1 w jobID request model1Results step t jm)))"
proof -
  obtain s jm1 where c: "cancelSignalled jobID (interleaved w t jm) = (s, jm1)"
    by fastforce
  with allStampedAsync_signal [OF assms, of jobID t]
  have jm1: "allStampedAsync jm1" by simp
  show ?thesis
    using c jm1 allStampedAsync_secondModel [OF assms(1) jm1]
    by (cases s; cases "BenchmarkRequest.Model2 request") (simp_all add: afterModel1_def)
qed

lemma allStampedAsync_runBenchmark:
  assumes "\<And>p jm. allStampedAsync jm \<Longrightarrow> allStampedAsync (interleaved w p jm)"
    and "allStampedAsync jm"
  shows "allStampedAsync (snd (snd (runBenchmarkWithProgress w jobID request t jm)))"
proof -
  obtain s jm1 where c: "cancelSignalled jobID (interleaved w t jm) = (s, jm1)"
    by fastforce
  with allStampedAsync_signal [OF assms, of jobID t]
  have jm1: "allStampedAsync jm1" by simp
  obtain r2 jm2 where u:
    "onProgress jobID (UpdateProgress (clock w (t + 1)) 0 (Model.Name (BenchmarkRequest.Model1 request)) 0
        ''Starting Model 1 benchmark'') jm1 = (r2, jm2)"
    by fastforce
  with allStampedAsync_onProgress [OF jm1, of jobID] have jm2: "allStampedAsync jm2"
    by (metis snd_conv)
  obtain out step t3 jm3 where r:
    "runSingleModelBenchmark w jobID (BenchmarkRequest.Model1 request) (elems (ConcurrencyLevels request))
       NilSlice 0 (t + 2) jm2 = (out, step, t3, jm3)"
    by (metis prod_cases4)
  with allStampedAsync_runSingle [OF assms(1) jm2, of jobID "BenchmarkRequest.Model1 request"
         "elems (ConcurrencyLevels request)" NilSlice 0 "t + 2"]
  have jm3: "allStampedAsync jm3" by simp
  show ?thesis
    using c jm1 u jm2 r jm3 allStampedAsync_afterModel1 [OF assms(1) jm3]
    by (cases s; cases r2; cases out) (simp_all add: runBenchmarkWithProgress_def)
qed

lemma allStampedAsync_stampJob:
  "allStampedAsync jm \<Longrightarrow> allStampedAsync (snd (stampJob now result jobID jm))"
  by (cases result)
     (auto simp: stampJob_def Let_def allStampedAsync_def stampedAsync_def terminal_def
        split: option.splits prod.splits outcome.splits intro!: list_all_update)

lemma allStampedAsync_executeJob:
  assumes "\<And>p jm. allStampedAsync jm \<Longrightarrow> allStampedAsync (interleaved w p jm)"
    and "allStampedAsync jm"
  shows "allStampedAsync (snd (executeJob w jobID t jm))"
proof (cases "map_of (jobs jm) jobID")
  case None
  with assms(2) show ?thesis by (simp add: executeJob_def)
next
  case (Some job0)
  obtain r1 jm1 where u:
    "onProgress jobID (SetStatus (clock w t) ''running'' ''Benchmark started'') jm = (r1, jm1)"
    by fastforce
  with allStampedAsync_onProgress [OF assms(2), of jobID] have jm1: "allStampedAsync jm1"
    by (metis snd_conv)
  obtain out t2 jm2 where r: "runBenchmarkWithProgress w jobID (Request job0) (Suc t) jm1 = (out, t2, jm2)"
    by (metis prod_cases3)
  with allStampedAsync_runBenchmark [OF assms(1) jm1, of jobID "Request job0" "Suc t"]
  have jm2: "allStampedAsync jm2" by simp
  show ?thesis
    using Some u jm1 r jm2
    by (cases r1; cases out)
       (simp_all add: executeJob_def allStampedAsync_onProgress allStampedAsync_stampJob)
qed

lemma allStampedAsync_CreateJob:
  "allStampedAsync jm \<Longrightarrow> allStampedAsync (snd (JM_CreateJob jobID now request jm))"
  by (simp add: allStampedAsync_def JM_CreateJob_def list_all_update stampedAsync_def terminal_def)

lemma allStampedAsync_StartJob: "allStampedAsync jm \<Longrightarrow> allStampedAsync (snd (StartJob jobID now jm))"
  by (auto simp: allStampedAsync_def StartJob_def stampedAsync_def terminal_def split: option.splits
      intro!: list_all_update dest: list_all_map_of)

lemma allStampedAsync_CancelJob: "allStampedAsync jm \<Longrightarrow> allStampedAsync (snd (JM_CancelJob jobID now jm))"
  by (auto simp: allStampedAsync_def JM_CancelJob_def Let_def stampedAsync_def terminal_def
      split: option.splits prod.splits outcome.splits intro!: list_all_update)

lemma allStampedAsync_Cleanup:
  "allStampedAsync jm \<Longrightarrow> allStampedAsync (snd (JM_CleanupOldJobs now maxAge jm))"
  by (auto simp: allStampedAsync_def JM_CleanupOldJobs_def list_all_iff)

lemma allStampedAsync_perform:
  "allStampedAsync jm \<Longrightarrow> respectful op \<Longrightarrow> allStampedAsync (performAsync op jm)"
  by (cases op)
     (simp_all add: allStampedAsync_CreateJob allStampedAsync_StartJob allStampedAsync_CancelJob
        allStampedAsync_Cleanup allStampedAsync_executeJob)

lemma allStampedAsync_performAll:
  "allStampedAsync jm \<Longrightarrow> list_all respectful ops \<Longrightarrow> allStampedAsync (performAllAsync ops jm)"
  by (induction ops arbitrary: jm) (auto simp: allStampedAsync_perform)

lemma stamped_in_the_WebSocket_manager:
  assumes "list_all respectful aops"
    and "map_of (jobs (performAllAsync aops (NewJobManager h))) jobID = Some job"
  shows "(BenchmarkJob.CompletedAt job \<noteq> None) = terminal (BenchmarkJob.Status job)"
proof -
  have "allStampedAsync (NewJobManager h)"
    by (simp add: allStampedAsync_def NewJobManager_def)
  then have "allStampedAsync (performAllAsync aops (NewJobManager h))"
    using assms(1) by (rule allStampedAsync_performAll)
  with assms(2) have "stampedAsync job"
    using list_all_map_of by (fastforce simp: allStampedAsync_def)
  then show ?thesis by (simp add: stampedAsync_def)
qed

section \<open>Cancellation before the job starts\<close>

text \<open>
  Claim C6, as amended. A job that has been created and not yet started is \<open>queued\<close>,
  and \<open>CancelJob\<close> refuses it: it returns the error that the job is not running and
  the registry is the one it was given, so the job is still \<open>queued\<close>, with no
  results, and \<open>StartJob\<close> still moves it to \<open>running\<close>. This holds for every registry
  whose lock is free when the job is created. The SSE manager behaves the same way
  between \<open>CreateJob\<close> and the start of \<open>RunBenchmark\<close>: no cancel function is stored
  yet and \<open>CancelJob\<close> returns \<open>false\<close>.
\<close>

theorem cancel_before_start_is_refused:
  assumes "JobManager.mutex jm = Unlocked"
  shows
  "fst (JM_CreateJob jobID now request jm) = Ret jobID
   \<and> JM_CancelJob jobID t (snd (JM_CreateJob jobID now request jm))
     = (Err (''job '' @ jobID @ '' is not running (current: queued)''),
        snd (JM_CreateJob jobID now request jm))
   \<and> statusOf (snd (JM_CreateJob jobID now request jm)) jobID = Some ''queued''
   \<and> (\<exists>job. JM_GetJob (snd (JM_CreateJob jobID now request jm)) jobID = Ret (Some job)
          \<and> BenchmarkJob.Results job = None)
   \<and> fst (StartJob jobID t' (snd (JM_CancelJob jobID t (snd (JM_CreateJob jobID now request jm))))) = Ret ()
   \<and> statusOf (snd (StartJob jobID t' (snd (JM_CancelJob jobID t (snd (JM_CreateJob jobID now request jm))))))
        jobID = Some ''running''
   \<and> CancelJob jobID t (CreateJob jobID now request sm) = (False, CreateJob jobID now request sm)"
  using assms
  by (simp add: JM_CancelJob_def JM_CreateJob_def update_conv' statusOf_def JM_GetJob_def StartJob_def
      CancelJob_def CreateJob_def)

theorem cancel_before_start_is_refused_witness:
  "JobManager.mutex (NewJobManager []) = Unlocked
   \<and> JM_CancelJob ''job-1'' 1 (snd (JM_CreateJob ''job-1'' 0 exampleRequest (NewJobManager [])))
     = (Err ''job job-1 is not running (current: queued)'',
        snd (JM_CreateJob ''job-1'' 0 exampleRequest (NewJobManager [])))
   \<and> statusOf (snd (JM_CreateJob ''job-1'' 0 exampleRequest (NewJobManager []))) ''job-1'' = Some ''queued''"
proof -
  have free: "JobManager.mutex (NewJobManager []) = Unlocked"
    by (simp add: NewJobManager_def)
  from cancel_before_start_is_refused [OF free, of "''job-1''" 0 exampleRequest 1]
  have "JM_CancelJob ''job-1'' 1 (snd (JM_CreateJob ''job-1'' 0 exampleRequest (NewJobManager [])))
     = (Err (''job '' @ ''job-1'' @ '' is not running (current: queued)''),
        snd (JM_CreateJob ''job-1'' 0 exampleRequest (NewJobManager [])))
   \<and> statusOf (snd (JM_CreateJob ''job-1'' 0 exampleRequest (NewJobManager []))) ''job-1'' = Some ''queued''"
    by blast
  with free show ?thesis by simp
qed

text \<open>Claim C6 as stated fails: the cancelled job of the scenario stays \<open>queued\<close>.\<close>

theorem queued_job_is_not_cancelled:
  "fst (JM_CancelJob ''job-1'' 1 queuedManager) = Err ''job job-1 is not running (current: queued)''
   \<and> statusOf (snd (JM_CancelJob ''job-1'' 1 queuedManager)) ''job-1'' = Some ''queued''
   \<and> statusOf (snd (JM_CancelJob ''job-1'' 1 queuedManager)) ''job-1'' \<noteq> Some ''cancelled''"
  by (simp add: JM_CancelJob_def queuedManager_value statusOf_def)

section \<open>Validation\<close>

lemma checkLevels_None:
  "(checkLevels i levels = None) = list_all (\<lambda>c. 1 \<le> c \<and> c \<le> 100) levels"
  by (induction levels arbitrary: i) auto

text \<open>
  Claim C7, as amended. \<open>validateBenchmarkRequest\<close> accepts a request exactly when
  model 1 has an id, a name and a base URL, model 2 (when given) has them too and
  another id than model 1, the level list is not empty and every level is in
  \<open>1..100\<close>, \<open>maxTokens\<close> is in \<open>1..4096\<close>, the prompt is not blank and has at most
  10000 bytes, and \<open>numWords\<close> is either not positive or in \<open>10..10000\<close>. A rejected
  request gets the 400 response and the registry is untouched, whatever the state of
  its lock; an accepted one is registered and started when the registry's lock is
  free, and gets no response, the registry staying as it was, when the lock is held.
\<close>

theorem validation_accepts_exactly:
  "(validateBenchmarkRequest req = None) =
     (Model.ID (BenchmarkRequest.Model1 req) \<noteq> [] \<and> Model.Name (BenchmarkRequest.Model1 req) \<noteq> []
      \<and> BaseURL (BenchmarkRequest.Model1 req) \<noteq> []
      \<and> (case BenchmarkRequest.Model2 req of None \<Rightarrow> True
          | Some m2 \<Rightarrow> Model.ID m2 \<noteq> [] \<and> Model.Name m2 \<noteq> [] \<and> BaseURL m2 \<noteq> []
                       \<and> Model.ID (BenchmarkRequest.Model1 req) \<noteq> Model.ID m2)
      \<and> elems (ConcurrencyLevels req) \<noteq> []
      \<and> list_all (\<lambda>c. 1 \<le> c \<and> c \<le> 100) (elems (ConcurrencyLevels req))
      \<and> 1 \<le> MaxTokens req \<and> MaxTokens req \<le> 4096
      \<and> TrimSpace (Prompt req) \<noteq> [] \<and> length (Prompt req) \<le> 10000
      \<and> (NumWords req \<le> 0 \<or> (10 \<le> NumWords req \<and> NumWords req \<le> 10000)))
   \<and> (validateBenchmarkRequest req \<noteq> None \<longrightarrow>
        snd (AsyncBenchmarkHandler (Inr req) jobID now jm) = jm
        \<and> (\<exists>e. fst (AsyncBenchmarkHandler (Inr req) jobID now jm)
                  = Ret (ErrorResponse 400 ''Validation Error'' e)))
   \<and> (validateBenchmarkRequest req = None \<and> JobManager.mutex jm = Unlocked \<longrightarrow>
        fst (AsyncBenchmarkHandler (Inr req) jobID now jm) = Ret (Accepted jobID)
        \<and> statusOf (snd (AsyncBenchmarkHandler (Inr req) jobID now jm)) jobID = Some ''running'')
   \<and> (validateBenchmarkRequest req = None \<and> JobManager.mutex jm = Locked \<longrightarrow>
        AsyncBenchmarkHandler (Inr req) jobID now jm = (Blocked, jm))"
proof (intro conjI)
  show "(validateBenchmarkRequest req = None) =
     (Model.ID (BenchmarkRequest.Model1 req) \<noteq> [] \<and> Model.Name (BenchmarkRequest.Model1 req) \<noteq> []
      \<and> BaseURL (BenchmarkRequest.Model1 req) \<noteq> []
      \<and> (case BenchmarkRequest.Model2 req of None \<Rightarrow> True
          | Some m2 \<Rightarrow> Model.ID m2 \<noteq> [] \<and> Model.Name m2 \<noteq> [] \<and> BaseURL m2 \<noteq> []
                       \<and> Model.ID (BenchmarkRequest.Model1 req) \<noteq> Model.ID m2)
      \<and> elems (ConcurrencyLevels req) \<noteq> []
      \<and> list_all (\<lambda>c. 1 \<le> c \<and> c \<le> 100) (elems (ConcurrencyLevels req))
      \<and> 1 \<le> MaxTokens req \<and> MaxTokens req \<le> 4096
      \<and> TrimSpace (Prompt req) \<noteq> [] \<and> length (Prompt req) \<le> 10000
      \<and> (NumWords req \<le> 0 \<or> (10 \<le> NumWords req \<and> NumWords req \<le> 10000)))"
    using checkLevels_None [of 0 "elems (ConcurrencyLevels req)"]
    by (auto simp: validateBenchmarkRequest_def Let_def split: option.splits)
next
  show "validateBenchmarkRequest req \<noteq> None \<longrightarrow>
        snd (AsyncBenchmarkHandler (Inr req) jobID now jm) = jm
        \<and> (\<exists>e. fst (AsyncBenchmarkHandler (Inr req) jobID now jm)
                  = Ret (ErrorResponse 400 ''Validation Error'' e))"
    by (auto simp: AsyncBenchmarkHandler_def)
next
  show "validateBenchmarkRequest req = None \<and> JobManager.mutex jm = Unlocked \<longrightarrow>
        fst (AsyncBenchmarkHandler (Inr req) jobID now jm) = Ret (Accepted jobID)
        \<and> statusOf (snd (AsyncBenchmarkHandler (Inr req) jobID now jm)) jobID = Some ''running''"
    by (simp add: AsyncBenchmarkHandler_def StartJob_def JM_CreateJob_def update_conv' statusOf_def)
next
  show "validateBenchmarkRequest req = None \<and> JobManager.mutex jm = Locked \<longrightarrow>
        AsyncBenchmarkHandler (Inr req) jobID now jm = (Blocked, jm)"
    by (simp add: AsyncBenchmarkHandler_def JM_CreateJob_def)
qed

lemma TrimSpace_hello: "TrimSpace ''hello'' = ''hello''"
  by (simp add: TrimSpace_def TrimRightSpace.simps [of "''hello''"] trailingSpaceWidth_def
      asciiSpace_def space2_def space3_def)

lemma example_valid: "validateBenchmarkRequest exampleRequest = None"
  by (simp add: validateBenchmarkRequest_def exampleRequest_def exampleModel_def TrimSpace_hello)

lemma negative_valid: "validateBenchmarkRequest negativeWordsRequest = None"
  by (simp add: validateBenchmarkRequest_def negativeWordsRequest_def exampleRequest_def
      exampleModel_def TrimSpace_hello)

lemma anonymous_invalid: "validateBenchmarkRequest anonymousRequest = Some ''model1.id is required''"
  by (simp add: validateBenchmarkRequest_def anonymousRequest_def exampleRequest_def exampleModel_def)

theorem validation_accepts_exactly_witness:
  "validateBenchmarkRequest exampleRequest = None
   \<and> JobManager.mutex (NewJobManager []) = Unlocked
   \<and> fst (AsyncBenchmarkHandler (Inr exampleRequest) ''job-1'' 0 (NewJobManager [])) = Ret (Accepted ''job-1'')
   \<and> validateBenchmarkRequest anonymousRequest \<noteq> None
   \<and> snd (AsyncBenchmarkHandler (Inr anonymousRequest) ''job-1'' 0 (NewJobManager [])) = NewJobManager []
   \<and> JobManager.mutex deadlockedManager = Locked
   \<and> fst (AsyncBenchmarkHandler (Inr exampleRequest) ''job-2'' 30 deadlockedManager) = Blocked"
proof -
  have free: "JobManager.mutex (NewJobManager []) = Unlocked"
    by (simp add: NewJobManager_def)
  from validation_accepts_exactly [of exampleRequest "''job-1''" 0 "NewJobManager []"] example_valid free
  have a: "fst (AsyncBenchmarkHandler (Inr exampleRequest) ''job-1'' 0 (NewJobManager []))
             = Ret (Accepted ''job-1'')"
    by blast
  from validation_accepts_exactly [of anonymousRequest "''job-1''" 0 "NewJobManager []"] anonymous_invalid
  have b: "snd (AsyncBenchmarkHandler (Inr anonymousRequest) ''job-1'' 0 (NewJobManager [])) = NewJobManager []"
    by simp
  from validation_accepts_exactly [of exampleRequest "''job-2''" 30 deadlockedManager]
       example_valid deadlockedManager_locked
  have c: "fst (AsyncBenchmarkHandler (Inr exampleRequest) ''job-2'' 30 deadlockedManager) = Blocked"
    by simp
  from example_valid free a anonymous_invalid b deadlockedManager_locked c show ?thesis by simp
qed

text \<open>
  Claim C7 as stated fails in both directions: a request for \<open>-5\<close> random words
  violates the declared range of \<open>numWords\<close> and is accepted, and a request within
  all the declared ranges whose model has no id is rejected.
\<close>

theorem validation_is_not_the_declared_ranges:
  "declaredRangesViolated negativeWordsRequest
   \<and> validateBenchmarkRequest negativeWordsRequest = None
   \<and> fst (AsyncBenchmarkHandler (Inr negativeWordsRequest) ''job-1'' 0 (NewJobManager []))
        = Ret (Accepted ''job-1'')
   \<and> \<not> declaredRangesViolated anonymousRequest
   \<and> validateBenchmarkRequest anonymousRequest = Some ''model1.id is required''
   \<and> snd (AsyncBenchmarkHandler (Inr anonymousRequest) ''job-1'' 0 (NewJobManager [])) = NewJobManager []"
  by (simp add: negative_valid anonymous_invalid AsyncBenchmarkHandler_def StartJob_def JM_CreateJob_def
      NewJobManager_def)
     (simp add: declaredRangesViolated_def negativeWordsRequest_def anonymousRequest_def exampleRequest_def)

section \<open>Token estimation\<close>

lemma spaceWidth_take:
  "spaceWidth (take n s) > 0 \<Longrightarrow> spaceWidth s > 0"
  by (induction s rule: spaceWidth.induct) (auto simp: take_Cons' split: if_splits)

lemma TrimLeftSpace_head:
  "TrimLeftSpace s = [] \<or> spaceWidth (TrimLeftSpace s) = 0"
  by (induction s rule: TrimLeftSpace.induct) auto

lemma TrimRightSpace_take:
  "\<exists>n. TrimRightSpace s = take n s"
proof (induction s rule: TrimRightSpace.induct)
  case (1 s)
  show ?case
  proof (cases "s \<noteq> [] \<and> trailingSpaceWidth s > 0")
    case True
    with 1 obtain n where "TrimRightSpace (take (length s - trailingSpaceWidth s) s)
                            = take n (take (length s - trailingSpaceWidth s) s)"
      by blast
    with True show ?thesis
      by (subst TrimRightSpace.simps) (auto simp: min_def)
  next
    case False
    then have "TrimRightSpace s = take (length s) s"
      by (subst TrimRightSpace.simps) auto
    then show ?thesis by blast
  qed
qed

lemma fieldsFrom_nonempty:
  "cur \<noteq> [] \<Longrightarrow> fieldsFrom cur s \<noteq> []"
  by (induction s arbitrary: cur) auto

lemma Fields_nonempty:
  "s \<noteq> [] \<Longrightarrow> spaceWidth s = 0 \<Longrightarrow> Fields s \<noteq> []"
  by (cases s) (auto simp: Fields_def fieldsFrom_nonempty)

lemma Fields_TrimSpace:
  assumes "TrimSpace s \<noteq> []"
  shows "Fields (TrimSpace s) \<noteq> []"
proof -
  obtain n where n: "TrimSpace s = take n (TrimLeftSpace s)"
    using TrimRightSpace_take [of "TrimLeftSpace s"] by (auto simp: TrimSpace_def)
  with assms have "TrimLeftSpace s \<noteq> []" by auto
  with TrimLeftSpace_head [of s] have "spaceWidth (TrimLeftSpace s) = 0" by simp
  with spaceWidth_take [of n "TrimLeftSpace s"] n have "spaceWidth (TrimSpace s) = 0"
    by auto
  with assms show ?thesis by (rule Fields_nonempty)
qed

lemma estimateTokens_by_words:
  "estimateTokens content =
     (if TrimSpace content = [] then 0
      else max 1 ((13 * int (length (Fields (TrimSpace content)))) div 10))"
proof (cases "TrimSpace content = []")
  case True
  then show ?thesis by (simp add: estimateTokens_def)
next
  case False
  then have "content \<noteq> []"
    by (auto simp: TrimSpace_def TrimRightSpace.simps [of "[]"])
  moreover from False have "Fields (TrimSpace content) \<noteq> []" by (rule Fields_TrimSpace)
  ultimately show ?thesis using False by (simp add: estimateTokens_def Let_def)
qed

lemma TrimSpace_unbroken: "TrimSpace ''abcdefghijkl'' = ''abcdefghijkl''"
  by (simp add: TrimSpace_def TrimRightSpace.simps [of "''abcdefghijkl''"] trailingSpaceWidth_def
      asciiSpace_def space2_def space3_def)

lemma Fields_unbroken: "Fields ''abcdefghijkl'' = [''abcdefghijkl'']"
  by (simp add: Fields_def asciiSpace_def space2_def space3_def)

text \<open>
  Claim C9 (not met by the code). A fragment of twelve letters without a blank is one
  field, so the estimate is \<open>max(1, int(1 * 1.3)) = 1\<close>, where one token per three
  characters would give \<open>4\<close>. By \<open>estimateTokens_by_words\<close> this is so for every
  fragment: after \<open>TrimSpace\<close> a non-empty fragment always has a field, and the branch
  that counts characters is never taken.
\<close>

theorem unbroken_fragment_is_one_token:
  "estimateTokens ''abcdefghijkl'' = 1 \<and> int (length ''abcdefghijkl'') div 3 = 4"
  by (simp add: estimateTokens_by_words TrimSpace_unbroken Fields_unbroken)


text \<open>The rest of claim C9 holds: the counts returned at the end of a stream are the
  provider's when a usage block was received, and otherwise the running estimate
  with no prompt tokens.\<close>

lemma AskOpenAi_counts:
  assumes "receive stream streamStart = Inr st"
  shows "AskOpenAi stream =
           Inr (timeToFirstToken st,
                (case lastUsage st of Some u \<Rightarrow> CompletionTokens u | None \<Rightarrow> estimatedTokens st),
                (case lastUsage st of Some u \<Rightarrow> PromptTokens u | None \<Rightarrow> 0))"
  using assms by (simp add: AskOpenAi_def split: option.splits)

lemma onResponse_estimate:
  "estimatedTokens (onResponse resp st) =
     estimatedTokens st + (if Choices resp = [] then 0 else estimateTokens (hd (Choices resp)))"
  by (auto simp: onResponse_def Let_def estimateTokens_def split: option.splits)

section \<open>Progress messages and the tracker's lock\<close>

lemma locked_tracker_blocks:
  assumes "ProgressTracker.mutex pt = Locked"
  shows "UpdateProgress now step model concurrency currentStep pt h = (Blocked, pt, h)"
    and "SetStatus now status message pt h = (Blocked, pt, h)"
    and "Complete now results pt h = (Blocked, pt, h)"
    and "Fail now errorMsg details pt h = (Blocked, pt, h)"
    and "Cancel now reason pt h = (Blocked, pt, h)"
    and "GetProgress now pt = Blocked"
  using assms
  by (simp_all add: UpdateProgress_def SetStatus_def Complete_def Fail_def Cancel_def GetProgress_def)

lemma UpdateProgress_deadlock:
  assumes "ProgressTracker.mutex pt = Unlocked"
    and "Sub now (lastBroadcast pt) \<ge> throttleInterval pt"
  shows "UpdateProgress now step model concurrency currentStep pt h =
           (Blocked,
            pt\<lparr>ProgressTracker.mutex := Locked, CurrentStep := step, CurrentModel := model,
               CurrentConcurrency := concurrency\<rparr>, h)"
  using assms by (simp add: UpdateProgress_def Let_def broadcastProgress_def GetProgress_def)

lemma UpdateProgress_within_interval:
  assumes "ProgressTracker.mutex pt = Unlocked"
    and "Sub now (lastBroadcast pt) < throttleInterval pt"
  shows "UpdateProgress now step model concurrency currentStep pt h =
           (Ret (), pt\<lparr>CurrentStep := step, CurrentModel := model, CurrentConcurrency := concurrency\<rparr>, h)"
  using assms by (cases pt) (simp add: UpdateProgress_def Let_def)

lemma UpdateProgress_hub:
  "snd (snd (UpdateProgress now step model concurrency currentStep pt h)) = h"
  by (simp add: UpdateProgress_def Let_def broadcastProgress_def GetProgress_def)

lemma UpdateProgress_lastBroadcast:
  "lastBroadcast (fst (snd (UpdateProgress now step model concurrency currentStep pt h))) = lastBroadcast pt"
  by (simp add: UpdateProgress_def Let_def broadcastProgress_def GetProgress_def)

text \<open>
  No call changes \<open>lastBroadcast\<close> or the interval, so the tracker of a job never
  leaves the state in which the next progress update is due.
\<close>

lemma call_due:
  assumes "lastBroadcast (fst s) = zeroTime \<and> throttleInterval (fst s) = Second"
  shows "lastBroadcast (fst (call c s)) = zeroTime \<and> throttleInterval (fst (call c s)) = Second"
  using assms
  by (cases s; cases c)
     (simp_all add: UpdateProgress_def SetStatus_def Complete_def Fail_def Cancel_def Let_def
        broadcastProgress_def GetProgress_def)

lemma locked_call: "ProgressTracker.mutex (fst s) = Locked \<Longrightarrow> call c s = s"
  by (cases s; cases c) (simp_all add: locked_tracker_blocks)

lemma locked_callAll: "ProgressTracker.mutex (fst s) = Locked \<Longrightarrow> callAll cs s = s"
  by (induction cs arbitrary: s) (simp_all add: locked_call)

lemma due_update_locks:
  assumes "lastBroadcast pt = zeroTime" and "throttleInterval pt = Second" and "wallClock now"
  shows "fst (UpdateProgress now step model concurrency currentStep pt h) = Blocked
         \<and> ProgressTracker.mutex (fst (snd (UpdateProgress now step model concurrency currentStep pt h)))
             = Locked"
proof (cases "ProgressTracker.mutex pt")
  case Locked
  then show ?thesis by (simp add: locked_tracker_blocks)
next
  case Unlocked
  moreover have "Sub now (lastBroadcast pt) \<ge> throttleInterval pt"
    using assms by (simp add: Sub_zeroTime)
  ultimately show ?thesis by (simp add: UpdateProgress_deadlock)
qed

lemma call_progressMessages:
  "progressMessages jobID (snd (call c s)) = progressMessages jobID (snd s)"
  by (cases s; cases c)
     (simp_all add: UpdateProgress_hub SetStatus_def Complete_def Fail_def Cancel_def Let_def
        broadcastStatus_def BroadcastIfEncoded_def progressMessages_def
        NewStatusMessage_def NewCompletionMessage_def NewErrorMessage_def NewCancellationMessage_def
        MessageTypeProgress_def MessageTypeStatus_def MessageTypeComplete_def MessageTypeError_def
        MessageTypeCancelled_def)

text \<open>
  Whatever calls are made on a tracker, at whatever times, the hub never receives a
  progress message from it.
\<close>

lemma no_progress_message_is_broadcast:
  "progressMessages jobID (snd (callAll cs s)) = progressMessages jobID (snd s)"
  by (induction cs arbitrary: s) (simp_all add: call_progressMessages)

text \<open>
  On the tracker of a new job, the first progress update made at a wall-clock time
  never returns, and whatever is called after it leaves the hub as it was then.
\<close>

lemma nothing_after_the_first_update:
  assumes "wallClock now"
  shows "callAll (before @ CallUpdateProgress now step model concurrency currentStep # after)
           (NewProgressTracker jobID totalSteps start, h)
         = call (CallUpdateProgress now step model concurrency currentStep)
             (callAll before (NewProgressTracker jobID totalSteps start, h))"
proof -
  have due: "lastBroadcast (fst (callAll cs s)) = zeroTime \<and> throttleInterval (fst (callAll cs s)) = Second"
    if "lastBroadcast (fst s) = zeroTime \<and> throttleInterval (fst s) = Second" for cs s
    using that by (induction cs arbitrary: s) (simp_all add: call_due)
  have split: "callAll (xs @ ys) s = callAll ys (callAll xs s)" for xs ys s
    by (induction xs arbitrary: s) simp_all
  obtain pt1 h1 where s1: "callAll before (NewProgressTracker jobID totalSteps start, h) = (pt1, h1)"
    by fastforce
  have "lastBroadcast (fst (callAll before (NewProgressTracker jobID totalSteps start, h))) = zeroTime
        \<and> throttleInterval (fst (callAll before (NewProgressTracker jobID totalSteps start, h))) = Second"
    by (rule due) (simp add: NewProgressTracker_def)
  with s1 have "lastBroadcast pt1 = zeroTime" and "throttleInterval pt1 = Second" by simp_all
  with assms have "ProgressTracker.mutex
      (fst (call (CallUpdateProgress now step model concurrency currentStep) (pt1, h1))) = Locked"
    using due_update_locks [of pt1 now step model concurrency currentStep h1] by simp
  then have "callAll after (call (CallUpdateProgress now step model concurrency currentStep) (pt1, h1))
             = call (CallUpdateProgress now step model concurrency currentStep) (pt1, h1)"
    by (rule locked_callAll)
  with s1 show ?thesis by (simp add: split)
qed

text \<open>
  Claim C8 (not met by the code). \<open>UpdateProgress\<close> calls \<open>broadcastProgress\<close> while it
  holds the tracker's lock, and \<open>broadcastProgress\<close> begins with \<open>GetProgress\<close>, which
  waits for the same lock. So no call of \<open>UpdateProgress\<close>, on any tracker at any
  time, hands a message to the hub. On the tracker of a new job, whose last broadcast
  is Go's zero time, the first progress update is due: it never returns and leaves
  the lock held, and every later \<open>SetStatus\<close>, \<open>Fail\<close>, \<open>Cancel\<close>, \<open>Complete\<close> and
  \<open>GetProgress\<close> waits for ever and broadcasts nothing. For \<open>job-1\<close>, created and
  started with two levels in a world where every round would succeed, the goroutine
  stops in its first update after the one status message: the job stays \<open>running\<close>
  without a completion timestamp, and a \<open>CancelJob\<close> of it then never returns either,
  hands no cancellation message to the hub and keeps the registry's lock, so that
  \<open>GetJob\<close> and \<open>CreateJob\<close> do not return any more.
\<close>

theorem progress_update_never_returns:
  "snd (snd (UpdateProgress now step model concurrency currentStep pt h)) = h
   \<and> UpdateProgress 12 0 ''modelA'' 0 ''Starting Model 1 benchmark'' (NewProgressTracker ''job-1'' 2 0) []
       = (Blocked, stuckTracker, [])
   \<and> SetStatus 13 ''running'' ''Benchmark started'' stuckTracker [] = (Blocked, stuckTracker, [])
   \<and> Fail 13 ''Benchmark execution failed'' ''connection refused'' stuckTracker [] = (Blocked, stuckTracker, [])
   \<and> Cancel 13 ''User requested cancellation'' stuckTracker [] = (Blocked, stuckTracker, [])
   \<and> Complete 13 None stuckTracker [] = (Blocked, stuckTracker, [])
   \<and> GetProgress 13 stuckTracker = Blocked
   \<and> fst (executeJob steadyWorld ''job-1'' 0 startedManager) = Blocked
   \<and> hub stuckManager = [startedMessage]
   \<and> map_option BenchmarkJob.Progress (map_of (jobs stuckManager) ''job-1'') = Some stuckTracker
   \<and> statusOf stuckManager ''job-1'' = Some ''running''
   \<and> map_option BenchmarkJob.CompletedAt (map_of (jobs stuckManager) ''job-1'') = Some None
   \<and> fst (JM_CancelJob ''job-1'' 20 stuckManager) = Blocked
   \<and> hub deadlockedManager = [startedMessage]
   \<and> JobManager.mutex deadlockedManager = Locked
   \<and> JM_GetJob deadlockedManager ''job-1'' = Blocked
   \<and> fst (JM_CreateJob ''job-2'' 30 exampleRequest deadlockedManager) = Blocked"
proof -
  have locked: "ProgressTracker.mutex stuckTracker = Locked"
    by (simp add: stuckTracker_def)
  have first: "UpdateProgress 12 0 ''modelA'' 0 ''Starting Model 1 benchmark''
                 (NewProgressTracker ''job-1'' 2 0) [] = (Blocked, stuckTracker, [])"
    by (simp add: UpdateProgress_def Let_def broadcastProgress_def GetProgress_def NewProgressTracker_def
        stuckTracker_def Sub_def zeroTime_def Second_def maxDuration_def minDuration_def)
  have stuck: "fst (executeJob steadyWorld ''job-1'' 0 startedManager) = Blocked
     \<and> hub stuckManager = [startedMessage]
     \<and> map_option BenchmarkJob.Progress (map_of (jobs stuckManager) ''job-1'') = Some stuckTracker
     \<and> statusOf stuckManager ''job-1'' = Some ''running''
     \<and> map_option BenchmarkJob.CompletedAt (map_of (jobs stuckManager) ''job-1'') = Some None"
    by (simp add: stuckManager_def stuckManager_value statusOf_def)
  have dead: "fst (JM_CancelJob ''job-1'' 20 stuckManager) = Blocked
     \<and> hub deadlockedManager = [startedMessage]
     \<and> JobManager.mutex deadlockedManager = Locked
     \<and> JM_GetJob deadlockedManager ''job-1'' = Blocked
     \<and> fst (JM_CreateJob ''job-2'' 30 exampleRequest deadlockedManager) = Blocked"
    by (simp add: deadlockedManager_def deadlockedManager_value JM_GetJob_def JM_CreateJob_def)
  from UpdateProgress_hub [of now step model concurrency currentStep pt h] first
       locked_tracker_blocks [OF locked] stuck dead
  show ?thesis by simp
qed

text \<open>
  The rest of claim C8 holds while the tracker's lock is free: a progress update that
  comes less than the interval after \<open>lastBroadcast\<close> changes the step, model and
  concurrency and hands nothing to the hub (lemma \<open>UpdateProgress_within_interval\<close>),
  and the status and terminal messages are handed to the hub at once, the completion
  message when it encodes.
\<close>

lemma status_messages_when_free:
  assumes "ProgressTracker.mutex pt = Unlocked"
  shows "\<exists>m. SetStatus now status message pt h = (Ret (), pt\<lparr>ProgressTracker.Status := status\<rparr>, h @ [m])
              \<and> Type m = MessageTypeStatus \<and> Timestamp m = now"
    and "\<exists>m. Fail now errorMsg details pt h = (Ret (), pt\<lparr>ProgressTracker.Status := ''failed''\<rparr>, h @ [m])
              \<and> Type m = MessageTypeError \<and> Timestamp m = now"
    and "\<exists>m. Cancel now reason pt h = (Ret (), pt\<lparr>ProgressTracker.Status := ''cancelled''\<rparr>, h @ [m])
              \<and> Type m = MessageTypeCancelled \<and> Timestamp m = now"
    and "(case results of None \<Rightarrow> True | Some r \<Rightarrow> finiteResponse r) \<Longrightarrow>
         \<exists>m. Complete now results pt h =
               (Ret (), pt\<lparr>ProgressTracker.Status := ''completed'', CurrentStep := TotalSteps pt\<rparr>, h @ [m])
              \<and> Type m = MessageTypeComplete \<and> Timestamp m = now"
    and "\<not> (case results of None \<Rightarrow> True | Some r \<Rightarrow> finiteResponse r) \<Longrightarrow>
         Complete now results pt h =
           (Ret (), pt\<lparr>ProgressTracker.Status := ''completed'', CurrentStep := TotalSteps pt\<rparr>, h)"
  using assms
  by (cases pt;
      simp add: SetStatus_def Fail_def Cancel_def Complete_def Let_def broadcastStatus_def
        BroadcastIfEncoded_def encodes_def NewStatusMessage_def NewErrorMessage_def
        NewCancellationMessage_def NewCompletionMessage_def Seconds_def)+

section \<open>Serialization of job results\<close>

subsection \<open>What \<open>json.Marshal\<close> returns\<close>

lemma sequence_map_Some: "sequence (map Some ys) = Some ys"
  by (induction ys) auto

lemma sequence_None: "(sequence xs = None) = (None \<in> set xs)"
  by (induction xs rule: sequence.induct) (auto split: option.splits)

lemma sequence_map:
  "sequence (map f xs) = (if list_all (\<lambda>x. f x \<noteq> None) xs then Some (map (\<lambda>x. the (f x)) xs) else None)"
proof (induction xs)
  case Nil
  then show ?case by simp
next
  case (Cons x xs)
  then show ?case by (cases "f x") (auto split: option.splits)
qed

lemma marshalFloat_nulled:
  "marshalFloat f = (if finite64 f then Some (nullFloat f) else None)"
  by (simp add: marshalFloat_def nullFloat_def)

lemma marshalRound_nulled:
  "marshalRound r = (if finiteRound r then Some (nulledRound r) else None)"
  by (simp add: marshalRound_def marshalObject_def marshalFloat_nulled finiteRound_def nulledRound_def)

lemma marshalRounds_nulled:
  "marshalRounds rs = (if list_all finiteRound (elems rs) then Some (nulledRounds rs) else None)"
proof (cases rs)
  case NilSlice
  then show ?thesis by (simp add: marshalRounds_def nulledRounds_def)
next
  case (Slice xs)
  have "list_all (\<lambda>x. marshalRound x \<noteq> None) xs = list_all finiteRound xs"
    by (simp add: marshalRound_nulled)
  moreover have "list_all finiteRound xs \<Longrightarrow> map (\<lambda>x. the (marshalRound x)) xs = map nulledRound xs"
    by (induction xs) (simp_all add: marshalRound_nulled)
  ultimately show ?thesis
    using Slice by (simp add: marshalRounds_def nulledRounds_def sequence_map)
qed

lemma marshalBenchmarkResult_nulled:
  "marshalBenchmarkResult b =
     (if finiteBenchmarkResult b then Some (nulledBenchmarkResult b) else None)"
  by (cases b)
     (simp_all add: marshalBenchmarkResult_def finiteBenchmarkResult_def nulledBenchmarkResult_def
        marshalObject_def marshalRounds_nulled)

lemma marshalDifferences_nulled:
  "marshalObject (map (\<lambda>(metric, diff). (metric, marshalFloat diff)) ds) =
     (if list_all (\<lambda>(metric, diff). finite64 diff) ds
      then Some (JObject (map (\<lambda>(metric, diff). (metric, nullFloat diff)) ds)) else None)"
proof (induction ds)
  case Nil
  then show ?case by (simp add: marshalObject_def)
next
  case (Cons d ds)
  then show ?case
    by (cases d) (auto simp: marshalObject_def marshalFloat_nulled split: option.splits if_splits)
qed

lemma marshalComparison_nulled:
  "marshalComparison cmp =
     (if list_all (\<lambda>(metric, diff). finite64 diff) (Differences cmp)
      then Some (nulledComparison cmp) else None)"
  unfolding marshalComparison_def marshalDifferences_nulled
  by (simp add: nulledComparison_def marshalObject_def)

lemma marshalResponse_nulled:
  "marshalResponse r = (if finiteResponse r then Some (nulledResponse r) else None)"
  by (cases "ComparisonResponse.Model2 r"; cases "ComparisonResponse.Comparison r")
     (simp_all add: marshalResponse_def nulledResponse_def finiteResponse_def marshalObject_def
        marshalBenchmarkResult_nulled marshalComparison_nulled finiteBenchmarkResult_def)

text \<open>When a value encodes, its encoding is the one the spec asks for; and it does not
  encode when a typed struct in it holds a float that is not finite.\<close>

lemma marshal_is_nulled:
  "marshalValue v = Some j \<Longrightarrow> j = nulled v"
  "marshalEntries es = Some ms \<Longrightarrow> ms = nulledEntries es"
  "marshalItems xs = Some js \<Longrightarrow> js = nulledItems xs"
  by (induction v and es and xs arbitrary: j and ms and js
      rule: marshalValue_marshalEntries_marshalItems.induct)
     (auto simp: marshalFloat_nulled marshalRounds_nulled marshalResponse_nulled
       split: option.splits if_splits)

lemma marshal_typedFinite:
  "marshalValue v = Some j \<Longrightarrow> typedFinite v"
  "marshalEntries es = Some ms \<Longrightarrow> typedFiniteEntries es"
  "marshalItems xs = Some js \<Longrightarrow> typedFiniteItems xs"
  by (induction v and es and xs arbitrary: j and ms and js
      rule: marshalValue_marshalEntries_marshalItems.induct)
     (auto simp: marshalRounds_nulled marshalResponse_nulled split: option.splits if_splits)

lemma untyped_fails: "\<not> typedFinite v \<Longrightarrow> marshalValue v = None"
  using marshal_typedFinite(1) [of v] by (cases "marshalValue v") auto

subsection \<open>What the sanitizers change\<close>

lemma nulled_sanitizeFloatValue: "nulled (sanitizeFloatValue v) = nulled v"
  by (cases v) (auto simp: sanitizeFloatValue_def nullFloat_def elim: IsNaN.elims IsInf.elims)

lemma typedFinite_sanitizeFloatValue: "typedFinite (sanitizeFloatValue v) = typedFinite v"
  by (cases v) (auto simp: sanitizeFloatValue_def)

lemma nulled_sanitizeBenchmarkResult:
  "nulledEntries (sanitizeBenchmarkResult m) = nulledEntries m"
  "nulledItems (sanitizeArray xs) = nulledItems xs"
  by (induction m and xs rule: sanitizeBenchmarkResult_sanitizeArray.induct)
     (simp_all add: nulled_sanitizeFloatValue del: nulled.simps(1-7,10,11))

lemma typedFinite_sanitizeBenchmarkResult:
  "typedFiniteEntries (sanitizeBenchmarkResult m) = typedFiniteEntries m"
  "typedFiniteItems (sanitizeArray xs) = typedFiniteItems xs"
  by (induction m and xs rule: sanitizeBenchmarkResult_sanitizeArray.induct)
     (simp_all add: typedFinite_sanitizeFloatValue)

lemma not_finite: "(IsNaN f \<or> IsInf f 0) = (\<not> finite64 f)"
  by (cases f) simp_all

lemma nulled_sanitizeAnyValue:
  "plainText v \<Longrightarrow> nulled (sanitizeAnyValue v) = nulled v"
  "plainTextEntries es \<Longrightarrow> nulledEntries (sanitizeAnyEntries es) = nulledEntries es"
  "plainTextItems xs \<Longrightarrow> nulledItems (sanitizeAnyItems xs) = nulledItems xs"
  by (induction v and es and xs rule: sanitizeAnyValue_sanitizeAnyEntries_sanitizeAnyItems.induct)
     (simp_all add: not_finite nullFloat_def)

lemma typedFinite_sanitizeAnyValue:
  "typedFinite (sanitizeAnyValue v) = typedFinite v"
  "typedFiniteEntries (sanitizeAnyEntries es) = typedFiniteEntries es"
  "typedFiniteItems (sanitizeAnyItems xs) = typedFiniteItems xs"
  by (induction v and es and xs rule: sanitizeAnyValue_sanitizeAnyEntries_sanitizeAnyItems.induct)
     simp_all

lemma sanitizeAnyValue_marshals:
  "typedFinite v \<Longrightarrow> marshalValue (sanitizeAnyValue v) \<noteq> None"
  "typedFiniteEntries es \<Longrightarrow> marshalEntries (sanitizeAnyEntries es) \<noteq> None"
  "typedFiniteItems xs \<Longrightarrow> marshalItems (sanitizeAnyItems xs) \<noteq> None"
  by (induction v and es and xs rule: sanitizeAnyValue_sanitizeAnyEntries_sanitizeAnyItems.induct)
     (auto simp: not_finite marshalFloat_def marshalRounds_nulled marshalResponse_nulled)

lemma sanitizeAnyValue_nil:
  "plainText v \<Longrightarrow> (sanitizeAnyValue v = VNil) = leftOut v"
  by (cases v) (simp_all add: not_finite)


subsection \<open>\<open>ToJSON\<close>\<close>

lemma payloadWith_Result: "payloadWith (job\<lparr>Result := x\<rparr>) result = payloadWith job result"
  by (simp add: payloadWith_def)

lemma marshalJob_Some:
  "marshalValue (Result job) = Some j \<Longrightarrow>
   marshalJob job = Some (payloadWith job (if Result job = VNil then [] else [(''result'', j)]))"
  by (cases "SimpleJob.CompletedAt job")
     (simp_all add: marshalJob_def marshalObject_def payloadWith_def)

lemma marshalJob_None:
  "marshalValue (Result job) = None \<Longrightarrow> marshalJob job = None"
  by (cases "SimpleJob.CompletedAt job"; cases "Result job = VNil")
     (auto simp: marshalJob_def marshalObject_def)

lemma marshalJob_minimal: "marshalJob (minimalJob job) = Some (reducedPayload job)"
  by (cases "SimpleJob.CompletedAt job")
     (simp_all add: marshalJob_def minimalJob_def marshalObject_def reducedPayload_def
        marshalRequest_def zeroRequest_def marshalModel_def zeroModel_def)

text \<open>The result that \<open>ToJSON\<close> encodes first.\<close>

lemma first_pass:
  "nulled (case r of VMap m \<Rightarrow> VMap (sanitizeBenchmarkResult m) | _ \<Rightarrow> r) = nulled r"
  "typedFinite (case r of VMap m \<Rightarrow> VMap (sanitizeBenchmarkResult m) | _ \<Rightarrow> r) = typedFinite r"
  "((case r of VMap m \<Rightarrow> VMap (sanitizeBenchmarkResult m) | _ \<Rightarrow> r) = VNil) = (r = VNil)"
  by (cases r; simp add: nulled_sanitizeBenchmarkResult typedFinite_sanitizeBenchmarkResult)+

lemma first_pass_job:
  "(case Result job of VMap m \<Rightarrow> job\<lparr>Result := VMap (sanitizeBenchmarkResult m)\<rparr> | _ \<Rightarrow> job) =
     job\<lparr>Result := (case Result job of VMap m \<Rightarrow> VMap (sanitizeBenchmarkResult m) | _ \<Rightarrow> Result job)\<rparr>"
  by (cases "Result job") simp_all

lemma encoded_not_leftOut: "marshalValue r = Some j \<Longrightarrow> leftOut r = (r = VNil)"
  by (cases r) (auto simp: marshalFloat_def split: if_splits)

lemma ToJSON_nulled:
  assumes "typedFinite (Result job)" and "plainText (Result job)"
  shows "ToJSON job = Some (nulledPayload job)"
proof -
  let ?r = "Result job"
  let ?r1 = "case ?r of VMap m \<Rightarrow> VMap (sanitizeBenchmarkResult m) | _ \<Rightarrow> ?r"
  show ?thesis
  proof (cases "marshalValue ?r1")
    case (Some j)
    then have j: "j = nulled ?r" using marshal_is_nulled(1) [of ?r1 j] by (simp add: first_pass)
    have out: "leftOut ?r = (?r = VNil)"
    proof (cases "\<exists>m. ?r = VMap m")
      case True
      then show ?thesis by auto
    next
      case False
      then have "?r1 = ?r" by (cases ?r) simp_all
      with Some show ?thesis by (simp add: encoded_not_leftOut)
    qed
    from Some have "marshalJob (job\<lparr>Result := ?r1\<rparr>) =
        Some (payloadWith job (if ?r = VNil then [] else [(''result'', j)]))"
      using marshalJob_Some [of "job\<lparr>Result := ?r1\<rparr>" j]
      by (simp add: payloadWith_Result first_pass)
    with j out show ?thesis
      by (simp add: ToJSON_def first_pass_job nulledPayload_def)
  next
    case None
    then have first: "marshalJob (job\<lparr>Result := ?r1\<rparr>) = None"
      by (simp add: marshalJob_None)
    obtain j where j: "marshalValue (sanitizeAnyValue ?r) = Some j"
      using sanitizeAnyValue_marshals(1) [OF assms(1)] by auto
    then have "j = nulled ?r"
      using marshal_is_nulled(1) [of "sanitizeAnyValue ?r" j] assms(2)
      by (simp add: nulled_sanitizeAnyValue)
    with j have "marshalJob (job\<lparr>Result := sanitizeAnyValue ?r\<rparr>) =
        Some (payloadWith job (if leftOut ?r then [] else [(''result'', nulled ?r)]))"
      using marshalJob_Some [of "job\<lparr>Result := sanitizeAnyValue ?r\<rparr>" j] assms(2)
      by (simp add: payloadWith_Result sanitizeAnyValue_nil)
    with first show ?thesis
      by (simp add: ToJSON_def first_pass_job nulledPayload_def)
  qed
qed

lemma ToJSON_reduced:
  assumes "\<not> typedFinite (Result job)"
  shows "ToJSON job = Some (reducedPayload job)"
proof -
  let ?r = "Result job"
  let ?r1 = "case ?r of VMap m \<Rightarrow> VMap (sanitizeBenchmarkResult m) | _ \<Rightarrow> ?r"
  have "marshalValue ?r1 = None"
    using assms by (intro untyped_fails) (simp add: first_pass)
  then have first: "marshalJob (job\<lparr>Result := ?r1\<rparr>) = None"
    by (simp add: marshalJob_None)
  have "marshalValue (sanitizeAnyValue ?r) = None"
    using assms by (intro untyped_fails) (simp add: typedFinite_sanitizeAnyValue)
  then have second: "marshalJob (job\<lparr>Result := sanitizeAnyValue ?r\<rparr>) = None"
    by (simp add: marshalJob_None)
  from first second show ?thesis
    by (simp add: ToJSON_def first_pass_job marshalJob_minimal)
qed

text \<open>No payload holds a number that is NaN or infinite.\<close>

lemma finiteMembers_append: "finiteMembers (xs @ ys) = (finiteMembers xs \<and> finiteMembers ys)"
  by (induction xs) auto

lemma finiteElements_ints: "finiteElements (map JInt xs)"
  by (induction xs) auto

lemma marshalRequest_finite: "finiteJson (marshalRequest req)"
  by (cases "ConcurrencyLevels req")
     (auto simp: marshalRequest_def marshalModel_def finiteElements_ints split: option.splits)

lemma nulledRounds_finite: "finiteJson (nulledRounds rs)"
proof (cases rs)
  case NilSlice
  then show ?thesis by (simp add: nulledRounds_def)
next
  case (Slice xs)
  have "finiteElements (map nulledRound xs)"
    by (induction xs) (simp_all add: nulledRound_def nullFloat_def)
  with Slice show ?thesis by (simp add: nulledRounds_def)
qed

lemma nulledBenchmarkResult_finite: "finiteJson (nulledBenchmarkResult b)"
  by (cases b) (simp_all add: nulledBenchmarkResult_def nulledRounds_finite)

lemma nulledDifferences_finite:
  "finiteMembers (map (\<lambda>(metric, diff). (metric, nullFloat diff)) ds)"
  by (induction ds) (auto simp: nullFloat_def)

lemma nulledResponse_finite: "finiteJson (nulledResponse r)"
  by (cases "ComparisonResponse.Model2 r"; cases "ComparisonResponse.Comparison r")
     (simp_all add: nulledResponse_def nulledBenchmarkResult_finite nulledComparison_def
        nulledDifferences_finite)

lemma nulled_finite:
  "finiteJson (nulled v)"
  "finiteMembers (nulledEntries es)"
  "finiteElements (nulledItems xs)"
  by (induction v and es and xs rule: nulled_nulledEntries_nulledItems.induct)
     (simp_all add: nullFloat_def nulledRounds_finite nulledResponse_finite)

lemma payloadWith_finite: "finiteMembers result \<Longrightarrow> finiteJson (payloadWith job result)"
  by (cases "SimpleJob.CompletedAt job")
     (simp_all add: payloadWith_def finiteMembers_append marshalRequest_finite)

lemma marshalJob_finite: "marshalJob job = Some data \<Longrightarrow> finiteJson data"
proof (cases "marshalValue (Result job)")
  case None
  moreover assume "marshalJob job = Some data"
  ultimately show ?thesis by (simp add: marshalJob_None)
next
  case (Some j)
  moreover assume "marshalJob job = Some data"
  ultimately have "data = payloadWith job (if Result job = VNil then [] else [(''result'', nulled (Result job))])"
    using marshalJob_Some [of job j] marshal_is_nulled(1) [of "Result job" j] by auto
  then show ?thesis by (simp add: payloadWith_finite nulled_finite)
qed

lemma ToJSON_total: "\<exists>data. ToJSON job = Some data \<and> finiteJson data"
proof -
  have cases: "ToJSON job = marshalJob (case Result job of
                              VMap resultMap \<Rightarrow> job\<lparr>Result := VMap (sanitizeBenchmarkResult resultMap)\<rparr>
                            | _ \<Rightarrow> job)
     \<or> ToJSON job = marshalJob (job\<lparr>Result := sanitizeAnyValue (Result job)\<rparr>)
     \<or> ToJSON job = marshalJob (minimalJob job)"
    by (simp add: ToJSON_def Let_def split: option.splits)
  have "ToJSON job \<noteq> None"
    by (auto simp: ToJSON_def Let_def marshalJob_minimal split: option.splits)
  then obtain data where d: "ToJSON job = Some data" by auto
  with cases have "finiteJson data" by (metis marshalJob_finite)
  with d show ?thesis by blast
qed

lemma sanitizeFloat_cases:
  "sanitizeFloat (Finite x) = Finite x"
  "sanitizeFloat PosInf = Finite MaxFloat64"
  "sanitizeFloat NegInf = Finite 0"
  "sanitizeFloat NaN = Finite 0"
  by (simp_all add: sanitizeFloat_def)

text \<open>
  Claim C4, as amended. \<open>ToJSON\<close> always returns a payload, and no number in it is NaN
  or infinite. When every float inside the typed structs of the result is finite
  (and no string in it is spelled like an infinity or NaN), the payload is the job as
  \<open>encoding/json\<close> writes it, with \<open>null\<close> for each NaN or infinite float that the result
  holds in its maps and \<open>[]interface{}\<close> slices, every other value as it is, and no
  \<open>result\<close> member when the result is \<open>nil\<close> or is itself such a float. When a typed
  struct of the result holds a float that is not finite, the payload is the reduced
  one: id, status, progress, message, the fixed error text, the timestamps and the
  zero request. \<open>sanitizeFloat\<close>, which the synchronous handler applies to each round,
  does not produce \<open>null\<close>: it keeps a finite value and replaces \<open>+Inf\<close> by
  \<open>math.MaxFloat64\<close> and \<open>-Inf\<close> and NaN by \<open>0\<close>, so that every round it records
  encodes.
\<close>

theorem serialized_job_payload:
  "(\<exists>data. ToJSON job = Some data \<and> finiteJson data)
   \<and> (typedFinite (Result job) \<and> plainText (Result job) \<longrightarrow> ToJSON job = Some (nulledPayload job))
   \<and> (\<not> typedFinite (Result job) \<longrightarrow> ToJSON job = Some (reducedPayload job))
   \<and> sanitizeFloat (Finite x) = Finite x
   \<and> sanitizeFloat PosInf = Finite MaxFloat64
   \<and> sanitizeFloat NegInf = Finite 0
   \<and> sanitizeFloat NaN = Finite 0
   \<and> marshalRound (sanitizedRound concurrency result) =
        Some (nulledRound (sanitizedRound concurrency result))"
proof -
  have "finite64 (sanitizeFloat f)" for f
    by (cases f) (simp_all add: sanitizeFloat_def)
  then have "finiteRound (sanitizedRound concurrency result)"
    by (simp add: finiteRound_def sanitizedRound_def)
  then have "marshalRound (sanitizedRound concurrency result) =
               Some (nulledRound (sanitizedRound concurrency result))"
    by (simp add: marshalRound_nulled)
  with ToJSON_total [of job] ToJSON_nulled [of job] ToJSON_reduced [of job] sanitizeFloat_cases
  show ?thesis by simp
qed

text \<open>
  Three payloads: a result with loose floats, encoded with \<open>null\<close> in their place; the
  result \<open>RunBenchmark\<close> stores for a round of ordinary speed, encoded as it is; and
  the result it stores for an instant round, whose infinite throughput sits in a
  \<open>[]ConcurrencyResult\<close>, encoded as the reduced job.
\<close>

theorem serialized_job_payload_witness:
  "typedFinite (Result looseJob) \<and> plainText (Result looseJob)
   \<and> ToJSON looseJob =
       Some (JObject
         [(''id'', JString ''job-1''), (''status'', JString ''completed''), (''progress'', JInt 100),
          (''message'', JString ''Benchmark completed successfully''),
          (''result'', JObject [(''latency'', JNull), (''speed'', JNumber (Finite 20)),
                                (''history'', JArray [JArray [JNull]])]),
          (''createdAt'', JTime 0), (''completedAt'', JTime 9),
          (''request'', marshalRequest (exampleRequest\<lparr>ConcurrencyLevels := Slice [1]\<rparr>))])
   \<and> typedFinite (Result steadyJob) \<and> plainText (Result steadyJob)
   \<and> ToJSON steadyJob =
       Some (JObject
         [(''id'', JString ''job-1''), (''status'', JString ''completed''), (''progress'', JInt 100),
          (''message'', JString ''Benchmark completed successfully''),
          (''result'',
           JObject [(''model1'',
                     JObject [(''model'', JString ''modelA''),
                              (''results'',
                               JArray [JObject [(''concurrency'', JInt 1),
                                                (''generationThroughput'', JNumber (Finite 20)),
                                                (''promptThroughput'', JNumber (Finite 100)),
                                                (''minTtft'', JNumber (Finite 0.25)),
                                                (''maxTtft'', JNumber (Finite 0.5))]])]),
                    (''model2'', JNull), (''latency'', JNumber (Finite 0.05)),
                    (''summary'', JObject [(''total_concurrency_levels'', JInt 1),
                                           (''total_results'', JInt 1)])]),
          (''createdAt'', JTime 0), (''completedAt'', JTime 9),
          (''request'', marshalRequest (exampleRequest\<lparr>ConcurrencyLevels := Slice [1]\<rparr>))])
   \<and> \<not> typedFinite (Result instantJob)
   \<and> ToJSON instantJob =
       Some (JObject
         [(''id'', JString ''job-1''), (''status'', JString ''completed''), (''progress'', JInt 100),
          (''message'', JString ''Benchmark completed successfully''),
          (''error'', JString ''Results contain invalid values and could not be serialized''),
          (''createdAt'', JTime 0), (''completedAt'', JTime 9),
          (''request'',
           JObject [(''model1'', JObject [(''id'', JString []), (''name'', JString []),
                                          (''provider'', JString []), (''baseUrl'', JString [])]),
                    (''model2'', JNull), (''concurrencyLevels'', JNull),
                    (''maxTokens'', JInt 0), (''prompt'', JString [])])])"
proof -
  have loose: "typedFinite (Result looseJob) \<and> plainText (Result looseJob)"
    by (simp add: looseJob_def)
  have steady: "typedFinite (Result steadyJob) \<and> plainText (Result steadyJob)"
    by (simp add: steadyJob_def finalResult_def modelEntry_def steadyRound_def finiteRound_def
        exampleRequest_def exampleModel_def)
  have instant: "\<not> typedFinite (Result instantJob)"
    by (simp add: instantJob_def instantResult_def finalResult_def modelEntry_def instantRound_def
        finiteRound_def exampleRequest_def)
  from loose serialized_job_payload [of looseJob]
  have a: "ToJSON looseJob = Some (nulledPayload looseJob)" by blast
  from steady serialized_job_payload [of steadyJob]
  have b: "ToJSON steadyJob = Some (nulledPayload steadyJob)" by blast
  from instant serialized_job_payload [of instantJob]
  have c: "ToJSON instantJob = Some (reducedPayload instantJob)" by blast
  have a': "nulledPayload looseJob =
       JObject
         [(''id'', JString ''job-1''), (''status'', JString ''completed''), (''progress'', JInt 100),
          (''message'', JString ''Benchmark completed successfully''),
          (''result'', JObject [(''latency'', JNull), (''speed'', JNumber (Finite 20)),
                                (''history'', JArray [JArray [JNull]])]),
          (''createdAt'', JTime 0), (''completedAt'', JTime 9),
          (''request'', marshalRequest (exampleRequest\<lparr>ConcurrencyLevels := Slice [1]\<rparr>))]"
    by (simp add: nulledPayload_def payloadWith_def looseJob_def instantJob_def nullFloat_def)
  have b': "nulledPayload steadyJob =
       JObject
         [(''id'', JString ''job-1''), (''status'', JString ''completed''), (''progress'', JInt 100),
          (''message'', JString ''Benchmark completed successfully''),
          (''result'',
           JObject [(''model1'',
                     JObject [(''model'', JString ''modelA''),
                              (''results'',
                               JArray [JObject [(''concurrency'', JInt 1),
                                                (''generationThroughput'', JNumber (Finite 20)),
                                                (''promptThroughput'', JNumber (Finite 100)),
                                                (''minTtft'', JNumber (Finite 0.25)),
                                                (''maxTtft'', JNumber (Finite 0.5))]])]),
                    (''model2'', JNull), (''latency'', JNumber (Finite 0.05)),
                    (''summary'', JObject [(''total_concurrency_levels'', JInt 1),
                                           (''total_results'', JInt 1)])]),
          (''createdAt'', JTime 0), (''completedAt'', JTime 9),
          (''request'', marshalRequest (exampleRequest\<lparr>ConcurrencyLevels := Slice [1]\<rparr>))]"
    by (simp add: nulledPayload_def payloadWith_def steadyJob_def instantJob_def nullFloat_def
        finalResult_def modelEntry_def steadyRound_def nulledRounds_def nulledRound_def
        exampleRequest_def exampleModel_def)
  have c': "reducedPayload instantJob =
       JObject
         [(''id'', JString ''job-1''), (''status'', JString ''completed''), (''progress'', JInt 100),
          (''message'', JString ''Benchmark completed successfully''),
          (''error'', JString ''Results contain invalid values and could not be serialized''),
          (''createdAt'', JTime 0), (''completedAt'', JTime 9),
          (''request'',
           JObject [(''model1'', JObject [(''id'', JString []), (''name'', JString []),
                                          (''provider'', JString []), (''baseUrl'', JString [])]),
                    (''model2'', JNull), (''concurrencyLevels'', JNull),
                    (''maxTokens'', JInt 0), (''prompt'', JString [])])]"
    by (simp add: reducedPayload_def instantJob_def)
  from loose steady instant a b c a' b' c' show ?thesis by simp
qed

text \<open>
  Claim C4 as stated fails in the synchronous handler: the infinite prompt throughput
  of an instant round reaches the observer as the number \<open>math.MaxFloat64\<close>, not as
  \<open>null\<close>.
\<close>

theorem infinite_throughput_becomes_a_number:
  "marshalRounds (Slice [sanitizedRound 1 instantSpeed]) =
     Some (JArray [JObject [(''concurrency'', JInt 1),
                            (''generationThroughput'', JNumber (Finite 20)),
                            (''promptThroughput'', JNumber (Finite MaxFloat64)),
                            (''minTtft'', JNumber (Finite 0)),
                            (''maxTtft'', JNumber (Finite 0))]])
   \<and> JNumber (Finite MaxFloat64) \<noteq> JNull"
  by (simp add: marshalRounds_def marshalRound_def marshalObject_def marshalFloat_def
      sanitizedRound_def instantSpeed_def sanitizeFloat_def)

end
